theory Spec2Isabelle
  imports Complex_Main "HOL-Library.Word"
begin

unbundle bit_operations_syntax

section \<open>Machine types shared by the generators\<close>

text \<open>
  Go's \<open>uint64\<close> and \<open>uint32\<close> are words; arithmetic wraps. Go's \<open>int\<close> is taken at its
  64-bit width (amd64, arm64) and read as two's complement with \<open>sint\<close>. A shift whose
  count reaches the width gives 0 in Go, which is what \<open>push_bit\<close> and \<open>drop_bit\<close> do
  on words.
\<close>

type_synonym uint64 = "64 word"
type_synonym uint32 = "32 word"
type_synonym go_int = "64 word"

text \<open>Run-time panics of the Go code, as values.\<close>

datatype panic = ArgumentNotPositive | DivideByZero | IndexOutOfRange

text \<open>The one error value every \<open>Unmarshal\<close> returns.\<close>

datatype error = InvalidStateLength

text \<open>
  \<open>bits.RotateLeft64(x, k)\<close> is \<open>s := uint(k) & 63; return x<<s | x>>(64-s)\<close>, and
  \<open>bits.RotateLeft32\<close> the same at width 32: a rotation to the left by \<open>k mod 64\<close>
  (resp. \<open>k mod 32\<close>), so that a negative \<open>k\<close> rotates to the right.
\<close>

definition RotateLeft64 :: "uint64 \<Rightarrow> int \<Rightarrow> uint64" where
  "RotateLeft64 x k = (let s = nat (k mod 64) in push_bit s x OR drop_bit (64 - s) x)"

definition RotateLeft32 :: "uint32 \<Rightarrow> int \<Rightarrow> uint32" where
  "RotateLeft32 x k = (let s = nat (k mod 32) in push_bit s x OR drop_bit (32 - s) x)"

text \<open>
  \<open>binary.LittleEndian.Uint64(b)\<close> assembles the first eight bytes of \<open>b\<close>, lowest
  byte first (callers pass slices of at least eight bytes);
  \<open>binary.LittleEndian.PutUint64\<close> produces these eight bytes.
\<close>

type_synonym byte = "8 word"

definition le_Uint64 :: "byte list \<Rightarrow> uint64" where
  "le_Uint64 b =
     ucast (b ! 0) OR push_bit 8 (ucast (b ! 1)) OR push_bit 16 (ucast (b ! 2))
     OR push_bit 24 (ucast (b ! 3)) OR push_bit 32 (ucast (b ! 4))
     OR push_bit 40 (ucast (b ! 5)) OR push_bit 48 (ucast (b ! 6))
     OR push_bit 56 (ucast (b ! 7))"

definition le_PutUint64 :: "uint64 \<Rightarrow> byte list" where
  "le_PutUint64 v =
     [ucast v, ucast (drop_bit 8 v), ucast (drop_bit 16 v), ucast (drop_bit 24 v),
      ucast (drop_bit 32 v), ucast (drop_bit 40 v), ucast (drop_bit 48 v),
      ucast (drop_bit 56 v)]"

section \<open>pcg64: 128-bit helpers\<close>

record uint128 =
  low :: uint64
  high :: uint64

definition add128 :: "uint128 \<Rightarrow> uint128 \<Rightarrow> uint128" where
  "add128 a b =
     (let low' = low a + low b;
          high' = high a + high b;
          high'' = (if low' < low a then high' + 1 else high')
      in \<lparr>low = low', high = high''\<rparr>)"

definition mul128 :: "uint128 \<Rightarrow> uint128 \<Rightarrow> uint128" where
  "mul128 a b =
     (if high a = 0 \<and> high b = 0 then \<lparr>low = low a * low b, high = 0\<rparr>
      else
        let a1 = high a; a0 = low a;
            b1 = high b; b0 = low b;
            z0 = a0 * b0;
            z2 = a1 * b1;
            z1 = (a0 + a1) * (b0 + b1) - z0 - z2;
            low' = z0 + push_bit 64 z1;
            high' = z2 + drop_bit 64 z1;
            high'' = (if low' < z0 then high' + 1 else high')
        in \<lparr>low = low', high = high''\<rparr>)"

text \<open>The number a (low, high) pair stands for.\<close>

definition val128 :: "uint128 \<Rightarrow> nat" where
  "val128 a = unat (low a) + 2 ^ 64 * unat (high a)"

section \<open>pcg64\<close>

record PCG64 =
  PCG64_state :: uint128
  PCG64_inc :: uint128

definition PCG64_Marshal :: "PCG64 \<Rightarrow> byte list" where
  "PCG64_Marshal p =
     le_PutUint64 (low (PCG64_state p)) @ le_PutUint64 (high (PCG64_state p))
     @ le_PutUint64 (low (PCG64_inc p)) @ le_PutUint64 (high (PCG64_inc p))"

definition PCG64_Unmarshal :: "PCG64 \<Rightarrow> byte list \<Rightarrow> error option \<times> PCG64" where
  "PCG64_Unmarshal p data =
     (if length data \<noteq> 32 then (Some InvalidStateLength, p)
      else
        let p = p\<lparr>PCG64_state := (PCG64_state p)\<lparr>low := le_Uint64 (drop 0 data)\<rparr>\<rparr>;
            p = p\<lparr>PCG64_state := (PCG64_state p)\<lparr>high := le_Uint64 (drop 8 data)\<rparr>\<rparr>;
            p = p\<lparr>PCG64_inc := (PCG64_inc p)\<lparr>low := le_Uint64 (drop 16 data)\<rparr>\<rparr>;
            p = p\<lparr>PCG64_inc := (PCG64_inc p)\<lparr>high := le_Uint64 (drop 24 data)\<rparr>\<rparr>
        in (None, p))"

definition PCG64_Next :: "PCG64 \<Rightarrow> uint64 \<times> PCG64" where
  "PCG64_Next p =
     (let oldState = PCG64_state p;
          p = p\<lparr>PCG64_state :=
                 add128 (mul128 (PCG64_state p)
                           \<lparr>low = 0x5851f42d4c957f2d, high = 0x14057b7ef767814f\<rparr>)
                        (PCG64_inc p)\<rparr>;
          xorshifted = drop_bit 29 (high oldState XOR low oldState)
                       OR push_bit 35 (high oldState XOR low oldState);
          rot = drop_bit 58 (high oldState)
      in (RotateLeft64 xorshifted (- uint rot), p))"

text \<open>
  \<open>Seed\<close> replaces a zero seed by \<open>uint64(time.Now().UnixNano())\<close>; the clock reading
  is the parameter \<open>now\<close>.
\<close>

definition PCG64_Seed :: "uint64 \<Rightarrow> PCG64 \<Rightarrow> uint64 \<Rightarrow> PCG64" where
  "PCG64_Seed now p seed =
     (let seed = (if seed = 0 then now else seed);
          p = p\<lparr>PCG64_state := \<lparr>low = 0, high = 0\<rparr>\<rparr>;
          p = p\<lparr>PCG64_inc := \<lparr>low = seed OR 1, high = 0\<rparr>\<rparr>;
          p = snd (PCG64_Next p);
          p = p\<lparr>PCG64_state := add128 (PCG64_state p) (PCG64_inc p)\<rparr>
      in snd (PCG64_Next p))"

text \<open>
  The seeding procedure in the words of the specification, to compare \<open>PCG64_Seed\<close>
  with: state 0, \<open>inc = {low: seed|1, high: 0}\<close>, two \<open>Next\<close> steps, the seed added
  into the state between them.
\<close>

definition PCG64_Seed_spec :: "uint64 \<Rightarrow> PCG64" where
  "PCG64_Seed_spec seed =
     (let p = \<lparr>PCG64_state = \<lparr>low = 0, high = 0\<rparr>,
               PCG64_inc = \<lparr>low = seed OR 1, high = 0\<rparr>\<rparr>;
          p = snd (PCG64_Next p);
          p = p\<lparr>PCG64_state := add128 (PCG64_state p) \<lparr>low = seed, high = 0\<rparr>\<rparr>
      in snd (PCG64_Next p))"

text \<open>The rejection loop of \<open>Int\<close>: \<open>for v > max { v = p.Next() }\<close>. It need not end,
  so not returning is the value \<open>None\<close>.\<close>

partial_function (option) PCG64_redraw :: "uint64 \<Rightarrow> uint64 \<Rightarrow> PCG64 \<Rightarrow> (uint64 \<times> PCG64) option"
where
  "PCG64_redraw max_v v p =
     (if v > max_v then PCG64_redraw max_v (fst (PCG64_Next p)) (snd (PCG64_Next p))
      else Some (v, p))"

definition PCG64_Int :: "PCG64 \<Rightarrow> go_int \<Rightarrow> (panic + go_int \<times> PCG64) option" where
  "PCG64_Int p n =
     (if n \<le>s 0 then Some (Inl ArgumentNotPositive)
      else if n AND (n - 1) = 0 then
        Some (Inr (fst (PCG64_Next p) AND (n - 1), snd (PCG64_Next p)))
      else if n = 0 then Some (Inl DivideByZero)
      else
        let max_v = (push_bit 63 1 - 1) - (push_bit 63 1) mod n
        in case PCG64_redraw max_v (fst (PCG64_Next p)) (snd (PCG64_Next p)) of
             None \<Rightarrow> None
           | Some (v, p') \<Rightarrow> Some (Inr (v mod n, p')))"

section \<open>pcg32\<close>

record PCG32 =
  PCG32_state :: uint64
  PCG32_inc :: uint64

definition PCG32_Marshal :: "PCG32 \<Rightarrow> byte list" where
  "PCG32_Marshal p = le_PutUint64 (PCG32_state p) @ le_PutUint64 (PCG32_inc p)"

definition PCG32_Unmarshal :: "PCG32 \<Rightarrow> byte list \<Rightarrow> error option \<times> PCG32" where
  "PCG32_Unmarshal p data =
     (if length data \<noteq> 16 then (Some InvalidStateLength, p)
      else
        let p = p\<lparr>PCG32_state := le_Uint64 (drop 0 data)\<rparr>;
            p = p\<lparr>PCG32_inc := le_Uint64 (drop 8 data)\<rparr>
        in (None, p))"

definition PCG32_Next :: "PCG32 \<Rightarrow> uint32 \<times> PCG32" where
  "PCG32_Next p =
     (let oldState = PCG32_state p;
          p = p\<lparr>PCG32_state := oldState * 6364136223846793005 + PCG32_inc p\<rparr>;
          xorshifted = (ucast (drop_bit 27 (drop_bit 18 oldState XOR oldState)) :: uint32);
          rot = (ucast (drop_bit 59 oldState) :: uint32)
      in (RotateLeft32 xorshifted (- uint rot), p))"

definition PCG32_Seed :: "uint64 \<Rightarrow> PCG32 \<Rightarrow> uint64 \<Rightarrow> PCG32" where
  "PCG32_Seed now p seed =
     (let seed = (if seed = 0 then now else seed);
          p = p\<lparr>PCG32_state := 0\<rparr>;
          p = p\<lparr>PCG32_inc := push_bit 1 seed OR 1\<rparr>;
          p = snd (PCG32_Next p);
          p = p\<lparr>PCG32_state := PCG32_state p + seed\<rparr>
      in snd (PCG32_Next p))"

text \<open>
  The 32-bit seeding procedure in the words of the specification: state 0,
  \<open>inc = (seed<<1)|1\<close>, two \<open>Next\<close> steps, the seed added into the state between them.
\<close>

definition PCG32_Seed_spec :: "uint64 \<Rightarrow> PCG32" where
  "PCG32_Seed_spec seed =
     (let p = \<lparr>PCG32_state = 0, PCG32_inc = push_bit 1 seed OR 1\<rparr>;
          p = snd (PCG32_Next p);
          p = p\<lparr>PCG32_state := PCG32_state p + seed\<rparr>
      in snd (PCG32_Next p))"

partial_function (option) PCG32_redraw :: "uint32 \<Rightarrow> uint32 \<Rightarrow> PCG32 \<Rightarrow> (uint32 \<times> PCG32) option"
where
  "PCG32_redraw max_v v p =
     (if v > max_v then PCG32_redraw max_v (fst (PCG32_Next p)) (snd (PCG32_Next p))
      else Some (v, p))"

text \<open>
  In \<open>Int\<close> the argument is converted with \<open>uint32(n)\<close>, which keeps the low 32 bits;
  the remainder \<open>(1<<31) % uint32(n)\<close> is computed before the first draw and panics
  when that divisor is 0.
\<close>

definition PCG32_Int :: "PCG32 \<Rightarrow> go_int \<Rightarrow> (panic + go_int \<times> PCG32) option" where
  "PCG32_Int p n =
     (if n \<le>s 0 then Some (Inl ArgumentNotPositive)
      else if n AND (n - 1) = 0 then
        Some (Inr (ucast (fst (PCG32_Next p) AND (ucast (n - 1) :: uint32)),
                   snd (PCG32_Next p)))
      else if (ucast n :: uint32) = 0 then Some (Inl DivideByZero)
      else
        let max_v = (push_bit 31 1 - 1) - (push_bit 31 1) mod (ucast n :: uint32)
        in case PCG32_redraw max_v (fst (PCG32_Next p)) (snd (PCG32_Next p)) of
             None \<Rightarrow> None
           | Some (v, p') \<Rightarrow> Some (Inr (ucast (v mod (ucast n :: uint32)), p')))"

section \<open>splitmix64\<close>

record SplitMix64 =
  SplitMix64_state :: uint64

definition SplitMix64_Marshal :: "SplitMix64 \<Rightarrow> byte list" where
  "SplitMix64_Marshal x = le_PutUint64 (SplitMix64_state x)"

definition SplitMix64_Unmarshal :: "SplitMix64 \<Rightarrow> byte list \<Rightarrow> error option \<times> SplitMix64" where
  "SplitMix64_Unmarshal x data =
     (if length data \<noteq> 8 then (Some InvalidStateLength, x)
      else (None, x\<lparr>SplitMix64_state := le_Uint64 data\<rparr>))"

definition SplitMix64_Seed :: "SplitMix64 \<Rightarrow> uint64 \<Rightarrow> SplitMix64" where
  "SplitMix64_Seed x seed = x\<lparr>SplitMix64_state := seed\<rparr>"

definition SplitMix64_Uint64 :: "SplitMix64 \<Rightarrow> uint64 \<times> SplitMix64" where
  "SplitMix64_Uint64 x =
     (let x = x\<lparr>SplitMix64_state := SplitMix64_state x + 0x9e3779b97f4a7c15\<rparr>;
          z = SplitMix64_state x;
          z = (z XOR drop_bit 30 z) * 0xbf58476d1ce4e5b9;
          z = (z XOR drop_bit 27 z) * 0x94d049bb133111eb
      in (z XOR drop_bit 31 z, x))"

section \<open>xoshiro256starstar\<close>

text \<open>The array \<open>state [4]uint64\<close>, one field per element.\<close>

record Xoshiro256StarStar =
  state0 :: uint64
  state1 :: uint64
  state2 :: uint64
  state3 :: uint64

definition Xoshiro_Marshal :: "Xoshiro256StarStar \<Rightarrow> byte list" where
  "Xoshiro_Marshal x =
     le_PutUint64 (state0 x) @ le_PutUint64 (state1 x)
     @ le_PutUint64 (state2 x) @ le_PutUint64 (state3 x)"

definition Xoshiro_Unmarshal ::
  "Xoshiro256StarStar \<Rightarrow> byte list \<Rightarrow> error option \<times> Xoshiro256StarStar" where
  "Xoshiro_Unmarshal x data =
     (if length data \<noteq> 32 then (Some InvalidStateLength, x)
      else
        let x = x\<lparr>state0 := le_Uint64 (drop (0 * 8) data)\<rparr>;
            x = x\<lparr>state1 := le_Uint64 (drop (1 * 8) data)\<rparr>;
            x = x\<lparr>state2 := le_Uint64 (drop (2 * 8) data)\<rparr>;
            x = x\<lparr>state3 := le_Uint64 (drop (3 * 8) data)\<rparr>
        in (None, x))"

text \<open>The closure \<open>splitmix64\<close> of \<open>Seed\<close>: result and updated accumulator.\<close>

definition splitmix64 :: "uint64 \<Rightarrow> uint64 \<times> uint64" where
  "splitmix64 s =
     (let s = s + 0x9e3779b97f4a7c15;
          z = s;
          z = (z XOR drop_bit 30 z) * 0xbf58476d1ce4e5b9;
          z = (z XOR drop_bit 27 z) * 0x94d049bb133111eb
      in (z XOR drop_bit 31 z, s))"

definition Xoshiro_Seed :: "uint64 \<Rightarrow> Xoshiro256StarStar \<Rightarrow> uint64 \<Rightarrow> Xoshiro256StarStar" where
  "Xoshiro_Seed now x seed =
     (let seed = (if seed = 0 then now else seed);
          s = seed;
          (r, s) = splitmix64 s; x = x\<lparr>state0 := r\<rparr>;
          (r, s) = splitmix64 s; x = x\<lparr>state1 := r\<rparr>;
          (r, s) = splitmix64 s; x = x\<lparr>state2 := r\<rparr>;
          (r, s) = splitmix64 s; x = x\<lparr>state3 := r\<rparr>
      in x)"

definition Xoshiro_Uint64 :: "Xoshiro256StarStar \<Rightarrow> uint64 \<times> Xoshiro256StarStar" where
  "Xoshiro_Uint64 x =
     (let result = RotateLeft64 (state1 x * 5) 7 * 9;
          t = push_bit 17 (state1 x);
          x = x\<lparr>state2 := state2 x XOR state0 x\<rparr>;
          x = x\<lparr>state3 := state3 x XOR state1 x\<rparr>;
          x = x\<lparr>state1 := state1 x XOR state2 x\<rparr>;
          x = x\<lparr>state0 := state0 x XOR state3 x\<rparr>;
          x = x\<lparr>state2 := state2 x XOR t\<rparr>;
          x = x\<lparr>state3 := RotateLeft64 (state3 x) 45\<rparr>
      in (result, x))"

text \<open>
  \<open>Jump\<close> and \<open>LongJump\<close> have the same body and differ in the constant \<open>jump\<close> only.
  \<open>jump_bit\<close> is the body of the inner loop at bit \<open>b\<close> of the word \<open>j\<close>, on the
  accumulators \<open>(s0, s1, s2, s3)\<close> and the generator; \<open>jump_loops\<close> is the two nested
  loops and the final assignment.
\<close>

type_synonym jump_acc = "uint64 \<times> uint64 \<times> uint64 \<times> uint64"

definition jump_bit :: "uint64 \<Rightarrow> nat \<Rightarrow> jump_acc \<times> Xoshiro256StarStar
    \<Rightarrow> jump_acc \<times> Xoshiro256StarStar" where
  "jump_bit j b ax =
     (case ax of ((s0, s1, s2, s3), x) \<Rightarrow>
        let acc = (if j AND push_bit b 1 \<noteq> 0
                   then (s0 XOR state0 x, s1 XOR state1 x, s2 XOR state2 x, s3 XOR state3 x)
                   else (s0, s1, s2, s3))
        in (acc, snd (Xoshiro_Uint64 x)))"

definition jump_word :: "uint64 \<Rightarrow> jump_acc \<times> Xoshiro256StarStar
    \<Rightarrow> jump_acc \<times> Xoshiro256StarStar" where
  "jump_word j ax = fold (jump_bit j) [0..<64] ax"

definition jump_loops :: "uint64 list \<Rightarrow> Xoshiro256StarStar \<Rightarrow> Xoshiro256StarStar" where
  "jump_loops jump x =
     (case fold jump_word jump ((0, 0, 0, 0), x) of
        ((s0, s1, s2, s3), x) \<Rightarrow>
          x\<lparr>state0 := s0, state1 := s1, state2 := s2, state3 := s3\<rparr>)"

definition Xoshiro_Jump :: "Xoshiro256StarStar \<Rightarrow> Xoshiro256StarStar" where
  "Xoshiro_Jump x =
     jump_loops [0x180ec6d33cfd0aba, 0xd5a61266f0c9392c,
                 0xa9582618e03fc9aa, 0x39abdc4529b1661c] x"

definition Xoshiro_LongJump :: "Xoshiro256StarStar \<Rightarrow> Xoshiro256StarStar" where
  "Xoshiro_LongJump x =
     jump_loops [0x76e15d3efefdcbbf, 0xc5004e441c522fb3,
                 0x77710069854ee241, 0x39109bb02acbe635] x"

section \<open>mixmax\<close>

definition N :: nat where
  "N = 240"

definition MOD :: uint64 where
  "MOD = 0xfffffffffffffffe"

text \<open>The array \<open>state [N]uint64\<close> is a list, of length \<open>N\<close> in every generator value.\<close>

record MIXMAX =
  MIXMAX_state :: "uint64 list"
  MIXMAX_counter :: go_int

definition MIXMAX_Marshal :: "MIXMAX \<Rightarrow> byte list" where
  "MIXMAX_Marshal m =
     concat (map le_PutUint64 (MIXMAX_state m)) @ le_PutUint64 (MIXMAX_counter m)"

definition MIXMAX_Unmarshal :: "MIXMAX \<Rightarrow> byte list \<Rightarrow> error option \<times> MIXMAX" where
  "MIXMAX_Unmarshal m data =
     (if length data \<noteq> N * 8 + 8 then (Some InvalidStateLength, m)
      else
        let m = m\<lparr>MIXMAX_state :=
                  fold (\<lambda>i st. st[i := le_Uint64 (drop (i * 8) data)]) [0..<N]
                       (MIXMAX_state m)\<rparr>;
            m = m\<lparr>MIXMAX_counter := le_Uint64 (drop (N * 8) data)\<rparr>
        in (None, m))"

definition MIXMAX_Seed :: "uint64 \<Rightarrow> MIXMAX \<Rightarrow> uint64 \<Rightarrow> MIXMAX" where
  "MIXMAX_Seed now m seed =
     (let seed = (if seed = 0 then now else seed);
          m = m\<lparr>MIXMAX_state := (MIXMAX_state m)[0 := seed]\<rparr>;
          m = m\<lparr>MIXMAX_state :=
                  fold (\<lambda>i st. st[i := (st ! (i - 1) * 6364136223846793005 + 1) AND MOD])
                       [1..<N] (MIXMAX_state m)\<rparr>
      in m\<lparr>MIXMAX_counter := 0\<rparr>)"

definition iterate_step :: "nat \<Rightarrow> uint64 list \<Rightarrow> uint64 list" where
  "iterate_step i st =
     (let t = st ! ((i + 1) mod N);
          st = st[i := (st ! i + t) AND MOD]
      in if st ! i < t then st[i := st ! i + 1] else st)"

definition MIXMAX_iterate :: "MIXMAX \<Rightarrow> MIXMAX" where
  "MIXMAX_iterate m =
     (let m = m\<lparr>MIXMAX_state := fold iterate_step [0..<N] (MIXMAX_state m)\<rparr>
      in m\<lparr>MIXMAX_counter := of_nat N\<rparr>)"

text \<open>
  Names for the word operations inside the loops of \<open>Seed\<close> and \<open>iterate\<close>, to state
  what the loops compute: \<open>seed_next\<close> gives \<open>state[i]\<close> from \<open>state[i-1]\<close>, and
  \<open>mix x t\<close> is the new \<open>state[i]\<close> from its old value \<open>x\<close> and the neighbour \<open>t\<close>.
\<close>

definition seed_next :: "uint64 \<Rightarrow> uint64" where
  "seed_next w = (w * 6364136223846793005 + 1) AND MOD"

definition mix :: "uint64 \<Rightarrow> uint64 \<Rightarrow> uint64" where
  "mix x t = (if (x + t) AND MOD < t then ((x + t) AND MOD) + 1 else (x + t) AND MOD)"

text \<open>\<open>m.state[m.counter]\<close> panics unless \<open>0 \<le> counter < N\<close>.\<close>

definition MIXMAX_Uint64 :: "MIXMAX \<Rightarrow> panic + uint64 \<times> MIXMAX" where
  "MIXMAX_Uint64 m =
     (let m = (if MIXMAX_counter m = 0 then MIXMAX_iterate m else m);
          m = m\<lparr>MIXMAX_counter := MIXMAX_counter m - 1\<rparr>
      in if 0 \<le>s MIXMAX_counter m \<and> MIXMAX_counter m <s of_nat N
         then Inr (MIXMAX_state m ! unat (MIXMAX_counter m), m)
         else Inl IndexOutOfRange)"

text \<open>
  The conversion \<open>float64(u)\<close> of a \<open>uint64\<close>: the nearest number with a 53-bit
  significand, ties to the even significand. \<open>float64_shift\<close> counts the low bits that
  do not fit (at most 11 for a 64-bit value), \<open>float64_round e n\<close> rounds \<open>n\<close> to a
  multiple of \<open>2 ^ e\<close>. The result of the conversion is an integer, given exactly.
\<close>

fun float64_shift :: "nat \<Rightarrow> nat \<Rightarrow> nat" where
  "float64_shift 0 n = 0"
| "float64_shift (Suc fuel) n = (if n < 2 ^ 53 then 0 else Suc (float64_shift fuel (n div 2)))"

definition float64_round :: "nat \<Rightarrow> nat \<Rightarrow> nat" where
  "float64_round e n =
     (if 2 * (n mod 2 ^ e) > 2 ^ e \<or> (2 * (n mod 2 ^ e) = 2 ^ e \<and> odd (n div 2 ^ e))
      then n div 2 ^ e + 1 else n div 2 ^ e) * 2 ^ e"

definition float64 :: "uint64 \<Rightarrow> real" where
  "float64 u = real (float64_round (float64_shift 11 (unat u)) (unat u))"

definition TWOM :: real where
  "TWOM = 1 / 2 ^ 61"

text \<open>\<open>Float64\<close>: the product \<open>float64(m.Uint64()) * TWOM\<close> is exact, \<open>TWOM\<close> being a
  power of two and the result far from the limits of the exponent range.\<close>

definition MIXMAX_Float64 :: "MIXMAX \<Rightarrow> panic + real \<times> MIXMAX" where
  "MIXMAX_Float64 m =
     (case MIXMAX_Uint64 m of
        Inl e \<Rightarrow> Inl e
      | Inr (v, m') \<Rightarrow> Inr (float64 v * TWOM, m'))"

text \<open>\<open>k\<close> consecutive calls of \<open>Uint64\<close>: the values in call order and the final
  generator; a panic ends the run.\<close>

fun MIXMAX_draws :: "nat \<Rightarrow> MIXMAX \<Rightarrow> panic + uint64 list \<times> MIXMAX" where
  "MIXMAX_draws 0 m = Inr ([], m)"
| "MIXMAX_draws (Suc k) m =
     (case MIXMAX_Uint64 m of
        Inl e \<Rightarrow> Inl e
      | Inr (v, m') \<Rightarrow>
          (case MIXMAX_draws k m' of
             Inl e \<Rightarrow> Inl e
           | Inr (vs, m'') \<Rightarrow> Inr (v # vs, m'')))"

text \<open>The zero value \<open>&MIXMAX{}\<close> that \<open>New\<close> seeds.\<close>

definition MIXMAX_zero :: MIXMAX where
  "MIXMAX_zero = \<lparr>MIXMAX_state = replicate N 0, MIXMAX_counter = 0\<rparr>"

section \<open>xoshiro256starstar: runs of calls\<close>

fun Xoshiro_draws :: "nat \<Rightarrow> Xoshiro256StarStar \<Rightarrow> uint64 list \<times> Xoshiro256StarStar" where
  "Xoshiro_draws 0 x = ([], x)"
| "Xoshiro_draws (Suc k) x =
     (case Xoshiro_Uint64 x of (v, x') \<Rightarrow>
        case Xoshiro_draws k x' of (vs, x'') \<Rightarrow> (v # vs, x''))"

definition Xoshiro_zero :: Xoshiro256StarStar where
  "Xoshiro_zero = \<lparr>state0 = 0, state1 = 0, state2 = 0, state3 = 0\<rparr>"

section \<open>xoshiro256starstar: the jump as a polynomial in the transition\<close>

text \<open>
  \<open>Jump\<close> and \<open>LongJump\<close> are compared with \<open>2 ^ 128\<close> and \<open>2 ^ 192\<close> calls of \<open>Uint64\<close>
  through the algebra that the jump constants come from. \<open>Xoshiro_next\<close> is the state
  transition of \<open>Uint64()\<close>, \<open>sxor\<close> the word-wise XOR of two states. A polynomial over
  GF(2) is a list of coefficients, lowest degree first; \<open>ev p x\<close> applies the polynomial
  \<open>p\<close> in the transition to the state \<open>x\<close>. \<open>bxor\<close>, \<open>pmul\<close> and \<open>psq\<close> are the sum, the
  product and the square of polynomials, \<open>all_false\<close> says that a polynomial is zero.
\<close>

definition Xoshiro_next :: "Xoshiro256StarStar \<Rightarrow> Xoshiro256StarStar" where
  "Xoshiro_next x = snd (Xoshiro_Uint64 x)"

definition sxor :: "Xoshiro256StarStar \<Rightarrow> Xoshiro256StarStar \<Rightarrow> Xoshiro256StarStar" where
  "sxor a b = \<lparr>state0 = state0 a XOR state0 b, state1 = state1 a XOR state1 b,
              state2 = state2 a XOR state2 b, state3 = state3 a XOR state3 b\<rparr>"

fun bxor :: "bool list \<Rightarrow> bool list \<Rightarrow> bool list" where
  "bxor [] ys = ys"
| "bxor (x # xs) [] = x # xs"
| "bxor (x # xs) (y # ys) = (x \<noteq> y) # bxor xs ys"

fun ev :: "bool list \<Rightarrow> Xoshiro256StarStar \<Rightarrow> Xoshiro256StarStar" where
  "ev [] x = Xoshiro_zero"
| "ev (b # p) x = sxor (if b then x else Xoshiro_zero) (ev p (Xoshiro_next x))"

fun pmul :: "bool list \<Rightarrow> bool list \<Rightarrow> bool list" where
  "pmul [] q = []"
| "pmul (b # p) q = bxor (if b then q else []) (False # pmul p q)"

fun psq :: "bool list \<Rightarrow> bool list" where
  "psq [] = []"
| "psq (b # p) = b # False # psq p"

fun all_false :: "bool list \<Rightarrow> bool" where
  "all_false [] = True"
| "all_false (b # bs) = (if b then False else all_false bs)"

text \<open>
  The loops of \<open>Jump\<close>: \<open>jump_flags j bs\<close> are the tests \<open>jump[i] & (1 << b)\<close> of one word,
  \<open>jump_poly\<close> those of the whole constant, and \<open>acc_state\<close> is the state that the final
  assignment builds from the accumulators.
\<close>

definition acc_state :: "jump_acc \<Rightarrow> Xoshiro256StarStar" where
  "acc_state a = (case a of (s0, s1, s2, s3) \<Rightarrow>
      \<lparr>state0 = s0, state1 = s1, state2 = s2, state3 = s3\<rparr>)"

definition jump_flags :: "uint64 \<Rightarrow> nat list \<Rightarrow> bool list" where
  "jump_flags j bs = map (\<lambda>b. j AND push_bit b 1 \<noteq> 0) bs"

definition jump_poly :: "uint64 list \<Rightarrow> bool list" where
  "jump_poly jump = concat (map (\<lambda>j. jump_flags j [0..<64]) jump)"

text \<open>
  States as bits, to compute with: \<open>wbits\<close> lists the 64 bits of a word, lowest first,
  \<open>blt\<close> the four words of a state and \<open>bl\<close> all 256 bits; \<open>bstep\<close> is the transition on
  these lists (\<open>shl17\<close> is \<open><< 17\<close>, \<open>rotl45\<close> the rotation by 45).
\<close>

type_synonym bstate = "bool list \<times> bool list \<times> bool list \<times> bool list"

definition wbits :: "uint64 \<Rightarrow> bool list" where
  "wbits w = map (bit w) [0..<64]"

definition blt :: "Xoshiro256StarStar \<Rightarrow> bstate" where
  "blt x = (wbits (state0 x), wbits (state1 x), wbits (state2 x), wbits (state3 x))"

fun flat :: "bstate \<Rightarrow> bool list" where
  "flat (a, b, c, d) = a @ b @ c @ d"

definition bl :: "Xoshiro256StarStar \<Rightarrow> bool list" where
  "bl x = flat (blt x)"

definition shl17 :: "bool list \<Rightarrow> bool list" where
  "shl17 xs = replicate 17 False @ take 47 xs"

definition rotl45 :: "bool list \<Rightarrow> bool list" where
  "rotl45 xs = drop 19 xs @ take 19 xs"

fun bstep2 :: "bool list \<Rightarrow> bool list \<Rightarrow> bool list \<Rightarrow> bool list \<Rightarrow> bool list \<Rightarrow> bstate" where
  "bstep2 a b c1 d1 t = (bxor a d1, bxor b c1, bxor c1 t, rotl45 d1)"

fun bstep :: "bstate \<Rightarrow> bstate" where
  "bstep (a, b, c, d) = bstep2 a b (bxor c a) (bxor d b) (shl17 b)"

text \<open>
  \<open>wkry n x\<close> is the list of the states \<open>x, T x, \<dots>\<close> (\<open>n\<close> of them) and \<open>wsel p ws acc\<close> adds
  to \<open>acc\<close> the states of \<open>ws\<close> that \<open>p\<close> selects; \<open>bkry\<close> and \<open>sel\<close> are the same on bit
  lists, \<open>bkryB\<close> and \<open>selB\<close> the same in blocks of 16 states.
\<close>

fun wkry :: "nat \<Rightarrow> Xoshiro256StarStar \<Rightarrow> Xoshiro256StarStar list" where
  "wkry 0 x = []"
| "wkry (Suc n) x = x # wkry n (Xoshiro_next x)"

fun wsel :: "bool list \<Rightarrow> Xoshiro256StarStar list \<Rightarrow> Xoshiro256StarStar \<Rightarrow> Xoshiro256StarStar" where
  "wsel [] ws acc = acc"
| "wsel (b # p) [] acc = acc"
| "wsel (b # p) (w # ws) acc = wsel p ws (if b then sxor acc w else acc)"

fun bkry :: "nat \<Rightarrow> bstate \<Rightarrow> bool list list" where
  "bkry 0 s = []"
| "bkry (Suc n) s = flat s # bkry n (bstep s)"

fun sel :: "bool list \<Rightarrow> bool list list \<Rightarrow> bool list \<Rightarrow> bool list" where
  "sel [] ws acc = acc"
| "sel (b # p) [] acc = acc"
| "sel (b # p) (w # ws) acc = sel p ws (if b then bxor acc w else acc)"

fun bsteps :: "nat \<Rightarrow> bstate \<Rightarrow> bstate" where
  "bsteps 0 s = s"
| "bsteps (Suc n) s = bsteps n (bstep s)"

fun bkryB :: "nat \<Rightarrow> bstate \<Rightarrow> bool list list list" where
  "bkryB 0 s = []"
| "bkryB (Suc n) s = bkry 16 s # bkryB n (bsteps 16 s)"

fun selB :: "bool list list \<Rightarrow> bool list list list \<Rightarrow> bool list \<Rightarrow> bool list" where
  "selB [] Ws acc = acc"
| "selB (c # cs) [] acc = acc"
| "selB (c # cs) (W # Ws) acc = selB cs Ws (sel c W acc)"

text \<open>
  Every state is a polynomial applied to \<open>jump_seed\<close>. \<open>chk cs W z pre post\<close> checks a list
  of selections \<open>cs\<close>: the first must give the unit vector \<open>pre @ True # post\<close> (less its
  first \<open>post\<close> element), the next one the following unit vector, and so on. \<open>in_span a\<close>
  says that every bit vector that starts with \<open>a\<close> zeros is reached.
\<close>

definition jump_seed :: Xoshiro256StarStar where
  "jump_seed = \<lparr>state0 = 1, state1 = 0, state2 = 0, state3 = 0\<rparr>"

fun chk :: "bool list list list \<Rightarrow> bool list list list \<Rightarrow> bool list \<Rightarrow> bool list \<Rightarrow> bool list \<Rightarrow> bool" where
  "chk [] W z pre post = True"
| "chk (c # cs) W z pre [] = False"
| "chk (c # cs) W z pre (x # post) =
     (if all_false (bxor (selB c W z) (pre @ True # post))
      then chk cs W z (False # pre) post else False)"

definition in_span :: "nat \<Rightarrow> bool" where
  "in_span a \<longleftrightarrow> (\<forall>ys. length ys = 256 - a \<longrightarrow>
      (\<exists>c. bl (ev c jump_seed) = replicate a False @ ys))"

text \<open>
  \<open>chain P r steps rf\<close> checks repeated squaring modulo \<open>P\<close>: each step \<open>(q, r')\<close> must
  satisfy \<open>r\<^sup>2 = q P + r'\<close>, and the last remainder must be \<open>rf\<close>.
\<close>

fun chain :: "bool list \<Rightarrow> bool list \<Rightarrow> (bool list \<times> bool list) list \<Rightarrow> bool list \<Rightarrow> bool" where
  "chain P r [] rf = all_false (bxor r rf)"
| "chain P r ((q, r') # steps) rf =
     (if all_false (bxor (psq r) (bxor (pmul q P) r')) then chain P r' steps rf else False)"

text \<open>
  Polynomials are written as numbers: \<open>poly_of n\<close> is the list of the binary digits of
  \<open>n\<close>, lowest first; \<open>padto us bs\<close> cuts or fills \<open>bs\<close> to the length of \<open>us\<close>.
\<close>

fun bits :: "num \<Rightarrow> bool list" where
  "bits Num.One = [True]"
| "bits (Num.Bit0 n) = False # bits n"
| "bits (Num.Bit1 n) = True # bits n"

definition poly_of :: "nat \<Rightarrow> bool list" where
  "poly_of n = (if n = 0 then [] else bits (num_of_nat n))"

fun padto :: "unit list \<Rightarrow> bool list \<Rightarrow> bool list" where
  "padto [] bs = []"
| "padto (u # us) [] = False # padto us []"
| "padto (u # us) (b # bs) = b # padto us bs"

section \<open>Theorems: 128-bit multiplication\<close>

lemma mul128_general_case:
  "\<not> (high a = 0 \<and> high b = 0) \<Longrightarrow>
     mul128 a b = \<lparr>low = low a * low b, high = high a * high b\<rparr>"
  by (simp add: mul128_def Let_def)

text \<open>
  C1 (fails on the code). The claim: for all 128-bit operands, also when a high word is
  non-zero, \<open>mul128 a b\<close> is the product modulo \<open>2 ^ 128\<close>. The code: with
  \<open>a = 2 ^ 64 + 1\<close> (low 1, high 1) and \<open>b = 1\<close> the general branch is taken, the
  64-bit shifts \<open>z1 << 64\<close> and \<open>z1 >> 64\<close> are both 0, and the result is
  (low 1, high 0), the number 1, where the product is \<open>2 ^ 64 + 1\<close>.
\<close>

theorem mul128_times_one_drops_high:
  "mul128 \<lparr>low = 1, high = 1\<rparr> \<lparr>low = 1, high = 0\<rparr> = \<lparr>low = 1, high = 0\<rparr>
   \<and> val128 (mul128 \<lparr>low = 1, high = 1\<rparr> \<lparr>low = 1, high = 0\<rparr>) = 1
   \<and> (val128 \<lparr>low = 1, high = 1\<rparr> * val128 \<lparr>low = 1, high = 0\<rparr>) mod 2 ^ 128
       = 2 ^ 64 + 1"
  by (simp add: mul128_def val128_def)

section \<open>Theorems: binary state format\<close>

lemma bit_byte_at:
  "bit (push_bit k (ucast (ucast (drop_bit k (v :: uint64)) :: byte)) :: uint64) n
     \<longleftrightarrow> k \<le> n \<and> n < k + 8 \<and> bit v n"
  using bit_imp_le_length [of v n] by (auto simp: bit_simps)

lemma bit_byte_0:
  "bit (ucast (ucast v :: byte) :: uint64) n \<longleftrightarrow> n < 8 \<and> bit v n"
  by (auto simp: bit_simps)

lemma le_Uint64_PutUint64: "le_Uint64 (le_PutUint64 v) = v"
proof (rule bit_word_eqI)
  fix n assume "n < LENGTH(64)"
  then have n: "n < 64" by simp
  have "bit (le_Uint64 (le_PutUint64 v)) n \<longleftrightarrow>
          (n < 8 \<or> (8 \<le> n \<and> n < 16) \<or> (16 \<le> n \<and> n < 24) \<or> (24 \<le> n \<and> n < 32)
           \<or> (32 \<le> n \<and> n < 40) \<or> (40 \<le> n \<and> n < 48) \<or> (48 \<le> n \<and> n < 56)
           \<or> (56 \<le> n \<and> n < 64)) \<and> bit v n"
    unfolding le_Uint64_def le_PutUint64_def
    by (simp add: bit_or_iff bit_byte_at bit_byte_0) blast
  also have "\<dots> \<longleftrightarrow> bit v n"
    using n by arith
  finally show "bit (le_Uint64 (le_PutUint64 v)) n \<longleftrightarrow> bit v n" .
qed


lemma bit_byte_in:
  "bit (ucast (drop_bit k (push_bit j (ucast (a :: byte)) :: uint64)) :: byte) n
     \<longleftrightarrow> n < 8 \<and> j \<le> k + n \<and> k + n < j + 8 \<and> k + n < 64 \<and> bit a (k + n - j)"
  using bit_imp_le_length [of a "k + n - j"] by (auto simp: bit_simps)

lemma le_PutUint64_Uint64_8:
  "le_PutUint64 (le_Uint64 (a0 # a1 # a2 # a3 # a4 # a5 # a6 # a7 # rest))
     = [a0, a1, a2, a3, a4, a5, a6, a7]"
proof -
  let ?w = "le_Uint64 (a0 # a1 # a2 # a3 # a4 # a5 # a6 # a7 # rest)"
  have w: "?w = push_bit 0 (ucast a0) OR push_bit 8 (ucast a1) OR push_bit 16 (ucast a2)
     OR push_bit 24 (ucast a3) OR push_bit 32 (ucast a4)
     OR push_bit 40 (ucast a5) OR push_bit 48 (ucast a6)
     OR push_bit 56 (ucast a7)"
    by (simp add: le_Uint64_def)
  have b: "(ucast (drop_bit k ?w) :: byte) =
      ucast (drop_bit k (push_bit 0 (ucast a0) :: uint64)) OR ucast (drop_bit k (push_bit 8 (ucast a1) :: uint64))
      OR ucast (drop_bit k (push_bit 16 (ucast a2) :: uint64)) OR ucast (drop_bit k (push_bit 24 (ucast a3) :: uint64))
      OR ucast (drop_bit k (push_bit 32 (ucast a4) :: uint64)) OR ucast (drop_bit k (push_bit 40 (ucast a5) :: uint64))
      OR ucast (drop_bit k (push_bit 48 (ucast a6) :: uint64)) OR ucast (drop_bit k (push_bit 56 (ucast a7) :: uint64))" for k
    unfolding w by (rule bit_word_eqI) (simp add: bit_simps)
  have "(ucast (drop_bit 0 ?w) :: byte) = a0" 
    unfolding b by (rule bit_word_eqI, simp only: bit_or_iff bit_byte_in) auto
  moreover have "(ucast (drop_bit 8 ?w) :: byte) = a1" 
    unfolding b by (rule bit_word_eqI, simp only: bit_or_iff bit_byte_in) auto
  moreover have "(ucast (drop_bit 16 ?w) :: byte) = a2" 
    unfolding b by (rule bit_word_eqI, simp only: bit_or_iff bit_byte_in) auto
  moreover have "(ucast (drop_bit 24 ?w) :: byte) = a3" 
    unfolding b by (rule bit_word_eqI, simp only: bit_or_iff bit_byte_in) auto
  moreover have "(ucast (drop_bit 32 ?w) :: byte) = a4" 
    unfolding b by (rule bit_word_eqI, simp only: bit_or_iff bit_byte_in) auto
  moreover have "(ucast (drop_bit 40 ?w) :: byte) = a5" 
    unfolding b by (rule bit_word_eqI, simp only: bit_or_iff bit_byte_in) auto
  moreover have "(ucast (drop_bit 48 ?w) :: byte) = a6" 
    unfolding b by (rule bit_word_eqI, simp only: bit_or_iff bit_byte_in) auto
  moreover have "(ucast (drop_bit 56 ?w) :: byte) = a7" 
    unfolding b by (rule bit_word_eqI, simp only: bit_or_iff bit_byte_in) auto
  ultimately show ?thesis
    unfolding le_PutUint64_def [of ?w] by simp
qed


lemma le_PutUint64_Uint64:
  assumes "8 \<le> length b"
  shows "le_PutUint64 (le_Uint64 b) = take 8 b"
proof -
  from assms obtain a0 a1 a2 a3 a4 a5 a6 a7 rest
    where "b = a0 # a1 # a2 # a3 # a4 # a5 # a6 # a7 # rest"
    by (auto simp: eval_nat_numeral Suc_le_length_iff)
  then show ?thesis
    by (simp add: le_PutUint64_Uint64_8)
qed

lemma length_le_PutUint64: "length (le_PutUint64 v) = 8"
  by (simp add: le_PutUint64_def)

lemma fold_update_upt:
  "n \<le> length st \<Longrightarrow> fold (\<lambda>i st. st[i := f i]) [0..<n] st = map f [0..<n] @ drop n st"
proof (induction n)
  case 0
  then show ?case by simp
next
  case (Suc n)
  then have n: "n < length st" by simp
  have "fold (\<lambda>i st. st[i := f i]) [0..<Suc n] st = (map f [0..<n] @ drop n st)[n := f n]"
    using Suc by simp
  also have "\<dots> = map f [0..<n] @ (drop n st)[0 := f n]"
    by (simp add: list_update_append)
  also have "(drop n st)[0 := f n] = f n # drop (Suc n) st"
    using n by (simp add: Cons_nth_drop_Suc [symmetric])
  finally show ?case by simp
qed

lemma concat_chunks:
  "8 * n \<le> length d \<Longrightarrow> concat (map (\<lambda>i. take 8 (drop (i * 8) d)) [0..<n]) = take (8 * n) d"
proof (induction n)
  case 0
  then show ?case by simp
next
  case (Suc n)
  have "take (8 * Suc n) d = take (8 * n) d @ take 8 (drop (8 * n) d)"
    by (simp add: take_add [symmetric] add.commute)
  with Suc show ?case by (simp add: mult.commute)
qed

lemma MIXMAX_Unmarshal_ok:
  assumes "length d = N * 8 + 8" "length (MIXMAX_state m) = N"
  shows "MIXMAX_Unmarshal m d =
    (None, \<lparr>MIXMAX_state = map (\<lambda>i. le_Uint64 (drop (i * 8) d)) [0..<N],
            MIXMAX_counter = le_Uint64 (drop (N * 8) d)\<rparr>)"
  using assms by (simp add: MIXMAX_Unmarshal_def fold_update_upt)

lemma MIXMAX_Marshal_Unmarshal:
  assumes "length d = N * 8 + 8" "length (MIXMAX_state m) = N"
  shows "MIXMAX_Marshal (snd (MIXMAX_Unmarshal m d)) = d"
proof -
  have a: "map (le_PutUint64 \<circ> (\<lambda>i. le_Uint64 (drop (i * 8) d))) [0..<N]
        = map (\<lambda>i. take 8 (drop (i * 8) d)) [0..<N]"
    by (rule map_cong [OF refl]) (use assms in \<open>simp add: le_PutUint64_Uint64\<close>)
  have b: "le_PutUint64 (le_Uint64 (drop (N * 8) d)) = drop (N * 8) d"
    using assms by (simp add: le_PutUint64_Uint64)
  have c: "concat (map (\<lambda>i. take 8 (drop (i * 8) d)) [0..<N]) = take (8 * N) d"
    using assms by (intro concat_chunks) simp
  show ?thesis
    unfolding MIXMAX_Unmarshal_ok [OF assms] MIXMAX_Marshal_def snd_conv
      MIXMAX.select_convs map_map a b c
    by (simp add: mult.commute)
qed

lemma PCG32_Marshal_Unmarshal:
  assumes "length d = 16"
  shows "PCG32_Marshal (snd (PCG32_Unmarshal p d)) = d"
proof -
  have "take 8 d @ take 8 (drop 8 d) = take (8 + 8) d"
    by (simp only: take_add)
  then show ?thesis
  using assms by (simp add: PCG32_Unmarshal_def PCG32_Marshal_def le_PutUint64_Uint64)
qed

lemma take4: "length d = 32 \<Longrightarrow>
  take 8 d @ take 8 (drop 8 d) @ take 8 (drop 16 d) @ take 8 (drop 24 d) = d"
proof -
  assume l: "length d = 32"
  have "take 8 d @ take 8 (drop 8 d) @ take 8 (drop 16 d) @ take 8 (drop 24 d)
      = concat (map (\<lambda>i. take 8 (drop (i * 8) d)) [0..<4])"
    by (simp add: eval_nat_numeral upt_rec)
  also have "\<dots> = take (8 * 4) d"
    using l by (intro concat_chunks) simp
  finally show ?thesis using l by simp
qed

lemma PCG64_Marshal_Unmarshal:
  assumes "length d = 32"
  shows "PCG64_Marshal (snd (PCG64_Unmarshal p d)) = d"
  using assms take4 [OF assms]
  by (simp add: PCG64_Unmarshal_def PCG64_Marshal_def le_PutUint64_Uint64)

lemma Xoshiro_Marshal_Unmarshal:
  assumes "length d = 32"
  shows "Xoshiro_Marshal (snd (Xoshiro_Unmarshal p d)) = d"
  using assms take4 [OF assms]
  by (simp add: Xoshiro_Unmarshal_def Xoshiro_Marshal_def le_PutUint64_Uint64)

lemma SplitMix64_Marshal_Unmarshal:
  assumes "length d = 8"
  shows "SplitMix64_Marshal (snd (SplitMix64_Unmarshal p d)) = d"
  using assms 
  by (simp add: SplitMix64_Unmarshal_def SplitMix64_Marshal_def le_PutUint64_Uint64)


lemma MIXMAX_Unmarshal_bad: "length d \<noteq> N * 8 + 8 \<Longrightarrow> MIXMAX_Unmarshal m d = (Some InvalidStateLength, m)"
  by (simp add: MIXMAX_Unmarshal_def)

text \<open>
  C5. For each of the five generators and every byte slice \<open>d\<close>: when the length of \<open>d\<close>
  is not the format's size (16, 32, 8, 32, 1928), \<open>Unmarshal\<close> returns the length error
  and the generator is unchanged; when it is, \<open>Unmarshal\<close> returns no error, the new
  state does not depend on the old one, and \<open>Marshal\<close> of the new state gives back \<open>d\<close>,
  so every byte of the state comes from \<open>d\<close>.
\<close>

theorem Unmarshal_length_contract:
  assumes "length (MIXMAX_state m) = N" "length (MIXMAX_state m') = N"
  shows
  "(length d \<noteq> 16 \<longrightarrow> PCG32_Unmarshal p32 d = (Some InvalidStateLength, p32))
   \<and> (length d = 16 \<longrightarrow>
        fst (PCG32_Unmarshal p32 d) = None
        \<and> snd (PCG32_Unmarshal p32 d) = snd (PCG32_Unmarshal q32 d)
        \<and> PCG32_Marshal (snd (PCG32_Unmarshal p32 d)) = d)
   \<and> (length d \<noteq> 32 \<longrightarrow> PCG64_Unmarshal p64 d = (Some InvalidStateLength, p64))
   \<and> (length d = 32 \<longrightarrow>
        fst (PCG64_Unmarshal p64 d) = None
        \<and> snd (PCG64_Unmarshal p64 d) = snd (PCG64_Unmarshal q64 d)
        \<and> PCG64_Marshal (snd (PCG64_Unmarshal p64 d)) = d)
   \<and> (length d \<noteq> 8 \<longrightarrow> SplitMix64_Unmarshal sm d = (Some InvalidStateLength, sm))
   \<and> (length d = 8 \<longrightarrow>
        fst (SplitMix64_Unmarshal sm d) = None
        \<and> snd (SplitMix64_Unmarshal sm d) = snd (SplitMix64_Unmarshal sm' d)
        \<and> SplitMix64_Marshal (snd (SplitMix64_Unmarshal sm d)) = d)
   \<and> (length d \<noteq> 32 \<longrightarrow> Xoshiro_Unmarshal x d = (Some InvalidStateLength, x))
   \<and> (length d = 32 \<longrightarrow>
        fst (Xoshiro_Unmarshal x d) = None
        \<and> snd (Xoshiro_Unmarshal x d) = snd (Xoshiro_Unmarshal x' d)
        \<and> Xoshiro_Marshal (snd (Xoshiro_Unmarshal x d)) = d)
   \<and> (length d \<noteq> 1928 \<longrightarrow> MIXMAX_Unmarshal m d = (Some InvalidStateLength, m))
   \<and> (length d = 1928 \<longrightarrow>
        fst (MIXMAX_Unmarshal m d) = None
        \<and> snd (MIXMAX_Unmarshal m d) = snd (MIXMAX_Unmarshal m' d)
        \<and> MIXMAX_Marshal (snd (MIXMAX_Unmarshal m d)) = d)"
proof -
  have n: "N * 8 + 8 = 1928" by (simp add: N_def)
  have pcg32: "length d = 16 \<longrightarrow>
        fst (PCG32_Unmarshal p32 d) = None
        \<and> snd (PCG32_Unmarshal p32 d) = snd (PCG32_Unmarshal q32 d)
        \<and> PCG32_Marshal (snd (PCG32_Unmarshal p32 d)) = d"
    using PCG32_Marshal_Unmarshal [of d p32] by (simp add: PCG32_Unmarshal_def)
  have pcg64: "length d = 32 \<longrightarrow>
        fst (PCG64_Unmarshal p64 d) = None
        \<and> snd (PCG64_Unmarshal p64 d) = snd (PCG64_Unmarshal q64 d)
        \<and> PCG64_Marshal (snd (PCG64_Unmarshal p64 d)) = d"
    using PCG64_Marshal_Unmarshal [of d p64] by (simp add: PCG64_Unmarshal_def)
  have sm: "length d = 8 \<longrightarrow>
        fst (SplitMix64_Unmarshal sm d) = None
        \<and> snd (SplitMix64_Unmarshal sm d) = snd (SplitMix64_Unmarshal sm' d)
        \<and> SplitMix64_Marshal (snd (SplitMix64_Unmarshal sm d)) = d"
    using SplitMix64_Marshal_Unmarshal [of d sm] by (simp add: SplitMix64_Unmarshal_def)
  have xo: "length d = 32 \<longrightarrow>
        fst (Xoshiro_Unmarshal x d) = None
        \<and> snd (Xoshiro_Unmarshal x d) = snd (Xoshiro_Unmarshal x' d)
        \<and> Xoshiro_Marshal (snd (Xoshiro_Unmarshal x d)) = d"
    using Xoshiro_Marshal_Unmarshal [of d x] by (simp add: Xoshiro_Unmarshal_def)
  have mm: "length d = 1928 \<longrightarrow>
        fst (MIXMAX_Unmarshal m d) = None
        \<and> snd (MIXMAX_Unmarshal m d) = snd (MIXMAX_Unmarshal m' d)
        \<and> MIXMAX_Marshal (snd (MIXMAX_Unmarshal m d)) = d"
    using MIXMAX_Marshal_Unmarshal [of d m] MIXMAX_Unmarshal_ok [of d m]
      MIXMAX_Unmarshal_ok [of d m'] assms n
    by simp
  have bad: "length d \<noteq> 16 \<longrightarrow> PCG32_Unmarshal p32 d = (Some InvalidStateLength, p32)"
    "length d \<noteq> 32 \<longrightarrow> PCG64_Unmarshal p64 d = (Some InvalidStateLength, p64)"
    "length d \<noteq> 8 \<longrightarrow> SplitMix64_Unmarshal sm d = (Some InvalidStateLength, sm)"
    "length d \<noteq> 32 \<longrightarrow> Xoshiro_Unmarshal x d = (Some InvalidStateLength, x)"
    "length d \<noteq> 1928 \<longrightarrow> MIXMAX_Unmarshal m d = (Some InvalidStateLength, m)"
    using n
    by (simp_all add: PCG32_Unmarshal_def PCG64_Unmarshal_def SplitMix64_Unmarshal_def
        Xoshiro_Unmarshal_def MIXMAX_Unmarshal_def)
  from pcg32 pcg64 sm xo mm bad show ?thesis
    by (intro conjI)
qed

theorem Unmarshal_length_contract_witness:
  "length (MIXMAX_state MIXMAX_zero) = N
   \<and> PCG32_Unmarshal \<lparr>PCG32_state = 1, PCG32_inc = 3\<rparr> []
       = (Some InvalidStateLength, \<lparr>PCG32_state = 1, PCG32_inc = 3\<rparr>)
   \<and> PCG64_Unmarshal \<lparr>PCG64_state = \<lparr>low = 1, high = 2\<rparr>, PCG64_inc = \<lparr>low = 3, high = 0\<rparr>\<rparr> []
       = (Some InvalidStateLength,
          \<lparr>PCG64_state = \<lparr>low = 1, high = 2\<rparr>, PCG64_inc = \<lparr>low = 3, high = 0\<rparr>\<rparr>)
   \<and> SplitMix64_Unmarshal \<lparr>SplitMix64_state = 5\<rparr> []
       = (Some InvalidStateLength, \<lparr>SplitMix64_state = 5\<rparr>)
   \<and> Xoshiro_Unmarshal Xoshiro_zero [] = (Some InvalidStateLength, Xoshiro_zero)
   \<and> MIXMAX_Unmarshal MIXMAX_zero [] = (Some InvalidStateLength, MIXMAX_zero)
   \<and> PCG32_Marshal (snd (PCG32_Unmarshal \<lparr>PCG32_state = 1, PCG32_inc = 3\<rparr> (replicate 16 7)))
       = replicate 16 7
   \<and> PCG64_Marshal (snd (PCG64_Unmarshal
         \<lparr>PCG64_state = \<lparr>low = 1, high = 2\<rparr>, PCG64_inc = \<lparr>low = 3, high = 0\<rparr>\<rparr>
         (replicate 32 7))) = replicate 32 7
   \<and> SplitMix64_Marshal (snd (SplitMix64_Unmarshal \<lparr>SplitMix64_state = 5\<rparr> (replicate 8 7)))
       = replicate 8 7
   \<and> Xoshiro_Marshal (snd (Xoshiro_Unmarshal Xoshiro_zero (replicate 32 7))) = replicate 32 7
   \<and> MIXMAX_Marshal (snd (MIXMAX_Unmarshal MIXMAX_zero (replicate 1928 7))) = replicate 1928 7"
proof -
  have h: "length (MIXMAX_state MIXMAX_zero) = N"
    by (simp add: MIXMAX_zero_def)
  note c = Unmarshal_length_contract [OF h h]
  show ?thesis
    using h c [of "[]"] c [of "replicate 16 7"] c [of "replicate 32 7"] c [of "replicate 8 7"]
      c [of "replicate 1928 7"]
    by simp
qed

section \<open>Theorems: the all-zero xoshiro256** state\<close>

text \<open>
  C10. Unmarshalling 32 zero bytes succeeds and gives the all-zero state, whatever the
  generator held before; from the all-zero state \<open>Uint64\<close> returns 0 and leaves the state
  all-zero, and so does every run of \<open>k\<close> calls.
\<close>

theorem Xoshiro_zero_state_absorbing:
  "Xoshiro_Unmarshal x (replicate 32 0) = (None, Xoshiro_zero)
   \<and> Xoshiro_Uint64 Xoshiro_zero = (0, Xoshiro_zero)
   \<and> Xoshiro_draws k Xoshiro_zero = (replicate k 0, Xoshiro_zero)"
proof -
  have u: "Xoshiro_Uint64 Xoshiro_zero = (0, Xoshiro_zero)"
    by (simp add: Xoshiro_Uint64_def Xoshiro_zero_def RotateLeft64_def)
  have "Xoshiro_draws k Xoshiro_zero = (replicate k 0, Xoshiro_zero)"
    by (induction k) (simp_all add: u)
  moreover have "Xoshiro_Unmarshal x (replicate 32 0) = (None, Xoshiro_zero)"
    by (simp add: Xoshiro_Unmarshal_def Xoshiro_zero_def le_Uint64_def)
  ultimately show ?thesis using u by simp
qed

section \<open>Theorems: the MIXMAX buffer\<close>

lemma unat_of_nat_small: "n < 2 ^ 64 \<Longrightarrow> unat (of_nat n :: go_int) = n"
  by (rule of_nat_inverse [OF refl]) simp

lemma sint_of_nat_small: "n < 2 ^ 63 \<Longrightarrow> sint (of_nat n :: go_int) = int n"
  by (simp add: signed_of_nat signed_take_bit_int_eq_self)

lemma counter_facts:
  fixes c :: nat
  assumes "0 < c" "c \<le> 240"
  shows "(of_nat c :: go_int) \<noteq> 0"
    and "(0 :: go_int) \<le>s of_nat c - 1"
    and "(of_nat c - 1 :: go_int) <s 240"
    and "unat (of_nat c - 1 :: go_int) = c - 1"
proof -
  have eq: "(of_nat c - 1 :: go_int) = of_nat (c - 1)"
    using assms by simp
  have small: "c - 1 < 2 ^ 63" "c - 1 < 2 ^ 64" "c < 2 ^ 64"
    using assms by simp_all
  have "unat (of_nat c :: go_int) = c"
    by (rule unat_of_nat_small [OF small(3)])
  then show "(of_nat c :: go_int) \<noteq> 0"
    using assms by auto
  show "unat (of_nat c - 1 :: go_int) = c - 1"
    unfolding eq by (rule unat_of_nat_small [OF small(2)])
  have s: "sint (of_nat (c - 1) :: go_int) = int (c - 1)"
    by (rule sint_of_nat_small [OF small(1)])
  show "(0 :: go_int) \<le>s of_nat c - 1" unfolding eq word_sle_eq s by simp
  show "(of_nat c - 1 :: go_int) <s 240" unfolding eq word_sless_alt s using assms by simp
qed

lemma length_iterate_step: "length (iterate_step i st) = length st"
  by (simp add: iterate_step_def Let_def)

lemma length_fold_iterate_step: "length (fold iterate_step js st) = length st"
  by (induction js arbitrary: st) (simp_all add: length_iterate_step)

lemma length_iterate: "length (MIXMAX_state (MIXMAX_iterate m)) = length (MIXMAX_state m)"
  by (simp add: MIXMAX_iterate_def Let_def length_fold_iterate_step)

lemma counter_iterate: "MIXMAX_counter (MIXMAX_iterate m) = 240"
  by (simp add: MIXMAX_iterate_def Let_def N_def)

lemma iterate_ignores_counter: "MIXMAX_iterate (m\<lparr>MIXMAX_counter := c\<rparr>) = MIXMAX_iterate m"
  by (simp add: MIXMAX_iterate_def Let_def)

lemma Uint64_empty_buffer:
  "MIXMAX_counter m = 0 \<Longrightarrow> MIXMAX_Uint64 m = MIXMAX_Uint64 (MIXMAX_iterate m)"
  by (simp add: MIXMAX_Uint64_def Let_def counter_iterate)

lemma Uint64_buffered:
  assumes "MIXMAX_counter m = of_nat c" "0 < c" "c \<le> 240"
  shows "MIXMAX_Uint64 m = Inr (MIXMAX_state m ! (c - 1), m\<lparr>MIXMAX_counter := of_nat (c - 1)\<rparr>)"
proof -
  have eq: "(of_nat c - 1 :: go_int) = of_nat (c - 1)"
    using assms by simp
  show ?thesis
    using counter_facts [OF assms(2,3)] assms(1) eq
    by (simp add: MIXMAX_Uint64_def Let_def N_def)
qed

lemma draws_buffered:
  "MIXMAX_counter m = of_nat c \<Longrightarrow> k \<le> c \<Longrightarrow> c \<le> 240 \<Longrightarrow>
     MIXMAX_draws k m =
       Inr (map (\<lambda>j. MIXMAX_state m ! (c - 1 - j)) [0..<k],
            m\<lparr>MIXMAX_counter := of_nat (c - k)\<rparr>)"
proof (induction k arbitrary: m c)
  case 0
  then show ?case by simp
next
  case (Suc k)
  have c: "0 < c" using Suc.prems by simp
  let ?m' = "m\<lparr>MIXMAX_counter := of_nat (c - 1)\<rparr>"
  have u: "MIXMAX_Uint64 m = Inr (MIXMAX_state m ! (c - 1), ?m')"
    using Uint64_buffered [OF Suc.prems(1) c Suc.prems(3)] .
  have ih: "MIXMAX_draws k ?m' =
       Inr (map (\<lambda>j. MIXMAX_state m ! (c - 1 - 1 - j)) [0..<k],
            m\<lparr>MIXMAX_counter := of_nat (c - Suc k)\<rparr>)"
    using Suc.IH [of ?m' "c - 1"] Suc.prems by simp
  have m: "map (\<lambda>j. MIXMAX_state m ! (c - 1 - j)) [0..<Suc k]
         = MIXMAX_state m ! (c - 1) # map (\<lambda>j. MIXMAX_state m ! (c - 1 - 1 - j)) [0..<k]"
    by (simp add: upt_conv_Cons map_Suc_upt [symmetric] del: upt_Suc)
  show ?case
    by (simp only: MIXMAX_draws.simps u ih m sum.case prod.case)
qed

lemma rev_as_map: "length xs = n \<Longrightarrow> map (\<lambda>j. xs ! (n - 1 - j)) [0..<n] = rev xs"
  by (auto intro!: nth_equalityI simp: rev_nth)

text \<open>
  C9. Right after \<open>iterate\<close> (counter 240), 240 calls of \<open>Uint64\<close> return
  \<open>state[239], \<dots>, state[0]\<close> of the iterated array, the reversed array, without
  touching it and leave the counter at 0; the 241st call runs \<open>iterate\<close> again and
  returns word 239 of the newly iterated array.
\<close>

theorem MIXMAX_buffer_order:
  assumes "length (MIXMAX_state m) = N"
  shows "MIXMAX_draws 240 (MIXMAX_iterate m)
           = Inr (rev (MIXMAX_state (MIXMAX_iterate m)),
                  (MIXMAX_iterate m)\<lparr>MIXMAX_counter := 0\<rparr>)
         \<and> MIXMAX_Uint64 ((MIXMAX_iterate m)\<lparr>MIXMAX_counter := 0\<rparr>)
           = Inr (MIXMAX_state (MIXMAX_iterate (MIXMAX_iterate m)) ! 239,
                  (MIXMAX_iterate (MIXMAX_iterate m))\<lparr>MIXMAX_counter := 239\<rparr>)"
proof
  let ?m = "MIXMAX_iterate m"
  have len: "length (MIXMAX_state ?m) = 240"
    using assms by (simp add: length_iterate N_def)
  have "MIXMAX_draws 240 ?m =
          Inr (map (\<lambda>j. MIXMAX_state ?m ! (240 - 1 - j)) [0..<240],
               ?m\<lparr>MIXMAX_counter := of_nat (240 - 240)\<rparr>)"
    by (rule draws_buffered) (simp_all add: counter_iterate)
  then show "MIXMAX_draws 240 ?m = Inr (rev (MIXMAX_state ?m), ?m\<lparr>MIXMAX_counter := 0\<rparr>)"
    by (simp only: rev_as_map [OF len] diff_self_eq_0 semiring_1_class.of_nat_0)
next
  let ?m0 = "(MIXMAX_iterate m)\<lparr>MIXMAX_counter := 0\<rparr>"
  let ?m2 = "MIXMAX_iterate (MIXMAX_iterate m)"
  have "MIXMAX_Uint64 ?m0 = MIXMAX_Uint64 (MIXMAX_iterate ?m0)"
    by (rule Uint64_empty_buffer) simp
  also have "MIXMAX_iterate ?m0 = ?m2"
    by (rule iterate_ignores_counter)
  also have "MIXMAX_Uint64 ?m2 =
      Inr (MIXMAX_state ?m2 ! (240 - 1), ?m2\<lparr>MIXMAX_counter := of_nat (240 - 1)\<rparr>)"
    by (rule Uint64_buffered) (simp_all add: counter_iterate)
  finally show "MIXMAX_Uint64 ?m0 = Inr (MIXMAX_state ?m2 ! 239, ?m2\<lparr>MIXMAX_counter := 239\<rparr>)"
    by simp
qed

section \<open>Theorems: the MIXMAX counter\<close>

lemma in_range_counter:
  fixes w :: go_int
  assumes "0 \<le>s w" "w \<le>s 240"
  shows "\<exists>c. c \<le> 240 \<and> w = of_nat c"
proof -
  from assms have s: "0 \<le> sint w" "sint w \<le> 240"
    by (simp_all add: word_sle_eq)
  have "w = of_int (sint w)" by simp
  also have "\<dots> = of_nat (nat (sint w))" using s by simp
  finally have "w = of_nat (nat (sint w))" .
  moreover have "nat (sint w) \<le> 240" using s by simp
  ultimately show ?thesis by blast
qed

lemma Uint64_in_range:
  assumes "0 \<le>s MIXMAX_counter m" "MIXMAX_counter m \<le>s 240"
  shows "\<exists>v m'. MIXMAX_Uint64 m = Inr (v, m')
            \<and> 0 \<le>s MIXMAX_counter m' \<and> MIXMAX_counter m' <s 240"
proof -
  from in_range_counter [OF assms] obtain c where c: "c \<le> 240" "MIXMAX_counter m = of_nat c"
    by blast
  have key: "\<exists>v m'. MIXMAX_Uint64 n = Inr (v, m')
            \<and> 0 \<le>s MIXMAX_counter m' \<and> MIXMAX_counter m' <s 240"
    if "MIXMAX_counter n = of_nat k" "0 < k" "k \<le> 240" for n k
    using Uint64_buffered [OF that] counter_facts(2,3) [OF that(2,3)] that
    by simp
  show ?thesis
  proof (cases "c = 0")
    case True
    then have "MIXMAX_Uint64 m = MIXMAX_Uint64 (MIXMAX_iterate m)"
      using c by (simp add: Uint64_empty_buffer)
    moreover have "MIXMAX_counter (MIXMAX_iterate m) = of_nat 240"
      by (simp add: counter_iterate)
    ultimately show ?thesis using key [of "MIXMAX_iterate m" 240] by simp
  next
    case False
    then show ?thesis using key [of m c] c by simp
  qed
qed

text \<open>
  C6 as stated fails: \<open>Unmarshal\<close> checks the length only and stores the last eight bytes
  as the counter. 1928 bytes whose last word is 241 are accepted and leave the counter
  at 241, outside \<open>[0, 240]\<close>.
\<close>

theorem MIXMAX_Unmarshal_counter_out_of_range:
  "fst (MIXMAX_Unmarshal MIXMAX_zero (replicate 1920 0 @ [241, 0, 0, 0, 0, 0, 0, 0])) = None
   \<and> MIXMAX_counter (snd (MIXMAX_Unmarshal MIXMAX_zero
         (replicate 1920 0 @ [241, 0, 0, 0, 0, 0, 0, 0]))) = 241
   \<and> \<not> (241 :: go_int) \<le>s 240"
  by (simp add: MIXMAX_Unmarshal_def N_def le_Uint64_def word_sle_eq)

text \<open>
  C6, amended. The counter is 0 after \<open>Seed\<close> and 240 after \<open>iterate\<close>; a call of
  \<open>Uint64\<close> on a generator whose counter is in \<open>[0, 240]\<close> returns a value and leaves the
  counter in \<open>[0, 239]\<close>; a successful \<open>Unmarshal\<close> sets the counter to the number its
  last eight bytes encode, whatever it is.
\<close>

theorem MIXMAX_counter_range:
  "MIXMAX_counter (MIXMAX_Seed now m seed) = 0
   \<and> MIXMAX_counter (MIXMAX_iterate m) = 240
   \<and> (0 \<le>s MIXMAX_counter m \<and> MIXMAX_counter m \<le>s 240 \<longrightarrow>
        (\<exists>v m'. MIXMAX_Uint64 m = Inr (v, m')
            \<and> 0 \<le>s MIXMAX_counter m' \<and> MIXMAX_counter m' <s 240))
   \<and> (length d = 1928 \<longrightarrow>
        fst (MIXMAX_Unmarshal m d) = None
        \<and> MIXMAX_counter (snd (MIXMAX_Unmarshal m d)) = le_Uint64 (drop 1920 d))"
proof -
  have "MIXMAX_counter (MIXMAX_Seed now m seed) = 0"
    by (simp add: MIXMAX_Seed_def Let_def)
  moreover have "length d = 1928 \<longrightarrow>
        fst (MIXMAX_Unmarshal m d) = None
        \<and> MIXMAX_counter (snd (MIXMAX_Unmarshal m d)) = le_Uint64 (drop 1920 d)"
    by (simp add: MIXMAX_Unmarshal_def N_def)
  ultimately show ?thesis
    using Uint64_in_range [of m] counter_iterate [of m] by blast
qed

theorem MIXMAX_counter_range_witness:
  "(0 \<le>s MIXMAX_counter MIXMAX_zero \<and> MIXMAX_counter MIXMAX_zero \<le>s 240)
   \<and> (\<exists>v m'. MIXMAX_Uint64 MIXMAX_zero = Inr (v, m')
          \<and> 0 \<le>s MIXMAX_counter m' \<and> MIXMAX_counter m' <s 240)
   \<and> length (replicate 1928 (0 :: byte)) = 1928
   \<and> MIXMAX_counter (snd (MIXMAX_Unmarshal MIXMAX_zero (replicate 1928 0))) = 0"
proof -
  have h: "0 \<le>s MIXMAX_counter MIXMAX_zero \<and> MIXMAX_counter MIXMAX_zero \<le>s 240"
    by (simp add: MIXMAX_zero_def word_sle_eq)
  have z: "le_Uint64 (drop 1920 (replicate 1928 0)) = 0"
    by (simp add: le_Uint64_def)
  show ?thesis
    using h z MIXMAX_counter_range [of 0 MIXMAX_zero 1 "replicate 1928 0"]
    by simp
qed

section \<open>Theorems: seeding of the PCG generators\<close>

lemma PCG64_overwrite [simp]:
  "(p :: PCG64)\<lparr>PCG64_state := a, PCG64_inc := b\<rparr> = \<lparr>PCG64_state = a, PCG64_inc = b\<rparr>"
  by (cases p) simp

lemma PCG32_overwrite [simp]:
  "(q :: PCG32)\<lparr>PCG32_state := a, PCG32_inc := b\<rparr> = \<lparr>PCG32_state = a, PCG32_inc = b\<rparr>"
  by (cases q) simp

lemma PCG64_Next_inc [simp]: "PCG64_inc (snd (PCG64_Next r)) = PCG64_inc r"
  by (simp add: PCG64_Next_def Let_def)

lemma odd_seed_OR_1:
  fixes seed :: uint64
  assumes "seed AND 1 = 1"
  shows "seed OR 1 = seed"
proof -
  have "seed OR 1 = seed OR (seed AND 1)" by (simp add: assms)
  also have "\<dots> = seed" by simp
  finally show ?thesis .
qed

lemma PCG64_Seed_code_form:
  "seed \<noteq> 0 \<Longrightarrow> PCG64_Seed now p seed = PCG64_Seed_spec (seed OR 1)"
  by (simp add: PCG64_Seed_def PCG64_Seed_spec_def Let_def or.assoc)

text \<open>
  C3 (fails on the code). The claim: \<open>Seed\<close> adds the seed into the state between the
  two steps, in PCG-64 as in PCG-32. PCG-32's \<open>Seed\<close> has \<open>p.state += seed\<close>; PCG-64's
  \<open>Seed\<close> has \<open>add128(p.state, p.inc)\<close> at that place and adds \<open>seed|1\<close>. With the
  even seed 2 the generator ends in the state 1291329195661654801, where adding the seed
  gives 13373937045524413412.
\<close>

theorem PCG64_Seed_even_seed_differs:
  "PCG64_Seed 0 \<lparr>PCG64_state = \<lparr>low = 0, high = 0\<rparr>, PCG64_inc = \<lparr>low = 0, high = 0\<rparr>\<rparr> 2
     = \<lparr>PCG64_state = \<lparr>low = 1291329195661654801, high = 0\<rparr>,
        PCG64_inc = \<lparr>low = 3, high = 0\<rparr>\<rparr>
   \<and> PCG64_Seed_spec 2
     = \<lparr>PCG64_state = \<lparr>low = 13373937045524413412, high = 0\<rparr>,
        PCG64_inc = \<lparr>low = 3, high = 0\<rparr>\<rparr>
   \<and> PCG64_Seed 0 \<lparr>PCG64_state = \<lparr>low = 0, high = 0\<rparr>, PCG64_inc = \<lparr>low = 0, high = 0\<rparr>\<rparr> 2
     \<noteq> PCG64_Seed_spec 2"
  by (simp add: PCG64_Seed_def PCG64_Seed_spec_def PCG64_Next_def Let_def add128_def mul128_def)

text \<open>
  What the two \<open>Seed\<close> functions compute, for every non-zero seed. PCG-32's \<open>Seed\<close> is
  the procedure of the specification. PCG-64's \<open>Seed\<close> is that procedure run on
  \<open>seed|1\<close>: it agrees with it on odd seeds only, and an even seed and the next odd one
  give the same generator.
\<close>

lemma PCG32_Seed_as_specified:
  "seed \<noteq> 0 \<Longrightarrow> PCG32_Seed now q seed = PCG32_Seed_spec seed"
  by (simp add: PCG32_Seed_def PCG32_Seed_spec_def Let_def)

lemma PCG64_Seed_odd_seed:
  "seed \<noteq> 0 \<Longrightarrow> seed AND 1 = 1 \<Longrightarrow> PCG64_Seed now p seed = PCG64_Seed_spec seed"
  by (simp add: PCG64_Seed_code_form odd_seed_OR_1)

lemma PCG64_Seed_2_and_3_collide:
  "PCG64_Seed now p 2 = PCG64_Seed now p 3"
  "PCG64_Seed_spec 2 \<noteq> PCG64_Seed_spec 3"
  "PCG32_Seed now q 2 \<noteq> PCG32_Seed now q 3"
  by (simp_all add: PCG64_Seed_def PCG64_Seed_spec_def PCG64_Next_def
      PCG32_Seed_def PCG32_Next_def Let_def add128_def mul128_def)

section \<open>Theorems: bounded integers\<close>

text \<open>
  C4 (fails on the code). The claim: \<open>Int(n)\<close> panics if and only if \<open>n \<le> 0\<close>. PCG-32's
  \<open>Int\<close> divides by \<open>uint32(n)\<close>: for \<open>n = 3 * 2 ^ 32 = 12884901888\<close>, positive and not
  a power of two, the low 32 bits are 0 and \<open>(1<<31) % uint32(n)\<close> panics with a division
  by zero, from every generator state.
\<close>

theorem PCG32_Int_divide_by_zero:
  "0 <s (12884901888 :: go_int) \<and> PCG32_Int p 12884901888 = Some (Inl DivideByZero)"
  by (simp add: PCG32_Int_def word_sle_eq word_sless_alt)

section \<open>Theorems: MIXMAX state words\<close>

lemma funpow_numeral_unfold: "(f ^^ numeral k) x = f ((f ^^ pred_numeral k) x)"
  by (simp add: numeral_eq_Suc)

lemma float64_shift_numeral:
  "float64_shift (numeral k) n =
     (if n < 2 ^ 53 then 0 else Suc (float64_shift (pred_numeral k) (n div 2)))"
proof -
  have "float64_shift (numeral k) n = float64_shift (Suc (pred_numeral k)) n"
    by (simp only: numeral_eq_Suc)
  then show ?thesis
    by (simp only: float64_shift.simps)
qed

lemma length_fold_update:
  "length (fold (\<lambda>i st. st[i := g i st]) js st) = length st"
  by (induction js arbitrary: st) simp_all

lemma Seed_fold_nth:
  fixes g :: "uint64 \<Rightarrow> uint64"
  assumes "0 < length st"
  shows "n < length st \<Longrightarrow> i \<le> n \<Longrightarrow>
     fold (\<lambda>i st. st[i := g (st ! (i - 1))]) [1..<Suc n] (st[0 := seed]) ! i = (g ^^ i) seed"
proof (induction n arbitrary: i)
  case 0
  then show ?case using assms by simp
next
  case (Suc n)
  let ?f = "\<lambda>i st. st[i := g (st ! (i - 1))]"
  let ?R = "fold ?f [1..<Suc n] (st[0 := seed])"
  have len: "length ?R = length st"
    by (simp add: length_fold_update)
  have step: "fold ?f [1..<Suc (Suc n)] (st[0 := seed]) = ?R[Suc n := g (?R ! n)]"
    by simp
  show ?case
  proof (cases "i = Suc n")
    case True
    have "?R ! n = (g ^^ n) seed" using Suc.IH [of n] Suc.prems by simp
    then show ?thesis unfolding step using True Suc.prems len by simp
  next
    case False
    then have "i \<le> n" using Suc.prems by simp
    then have "?R ! i = (g ^^ i) seed" using Suc.IH [of i] Suc.prems by simp
    then show ?thesis unfolding step using False by simp
  qed
qed

lemma iterate_step_mix:
  "i < length st \<Longrightarrow> iterate_step i st = st[i := mix (st ! i) (st ! ((i + 1) mod N))]"
  by (simp add: iterate_step_def mix_def Let_def)

lemma iterate_fold_nth:
  assumes "length st = N"
  shows "n \<le> N \<Longrightarrow>
     (\<forall>j. n \<le> j \<longrightarrow> fold iterate_step [0..<n] st ! j = st ! j)
     \<and> (0 < n \<longrightarrow> fold iterate_step [0..<n] st ! 0 = mix (st ! 0) (st ! 1))
     \<and> (n = N \<longrightarrow> fold iterate_step [0..<n] st ! (N - 1)
                     = mix (st ! (N - 1)) (mix (st ! 0) (st ! 1)))"
proof (induction n)
  case 0
  then show ?case by (simp add: N_def)
next
  case (Suc n)
  let ?R = "fold iterate_step [0..<n] st"
  have len: "length ?R = N" using assms by (simp add: length_fold_iterate_step)
  have n: "n < N" using Suc.prems by simp
  have step: "fold iterate_step [0..<Suc n] st = ?R[n := mix (?R ! n) (?R ! ((n + 1) mod N))]"
    using n len by (simp add: iterate_step_mix)
  have ih: "\<forall>j. n \<le> j \<longrightarrow> ?R ! j = st ! j" "0 < n \<longrightarrow> ?R ! 0 = mix (st ! 0) (st ! 1)"
    using Suc.IH n by simp_all
  have a: "\<forall>j. Suc n \<le> j \<longrightarrow> fold iterate_step [0..<Suc n] st ! j = st ! j"
    unfolding step using ih(1) by simp
  have b: "fold iterate_step [0..<Suc n] st ! 0 = mix (st ! 0) (st ! 1)"
  proof (cases "n = 0")
    case True
    then show ?thesis unfolding step using len ih(1) by (simp add: N_def)
  next
    case False
    then show ?thesis unfolding step using ih(2) by simp
  qed
  have c: "fold iterate_step [0..<Suc n] st ! (N - 1) = mix (st ! (N - 1)) (mix (st ! 0) (st ! 1))"
    if "Suc n = N"
  proof -
    have n': "n = N - 1" "n \<noteq> 0" "(n + 1) mod N = 0" using that by (simp_all add: N_def)
    have "?R ! 0 = mix (st ! 0) (st ! 1)" using ih(2) n'(2) by simp
    moreover have "?R ! n = st ! n" using ih(1) by simp
    ultimately show ?thesis unfolding step using len n n' by simp
  qed
  from a b c show ?case by blast
qed

lemma Seed_word:
  assumes "length (MIXMAX_state m) = N" "seed \<noteq> 0" "i < N"
  shows "MIXMAX_state (MIXMAX_Seed now m seed) ! i = (seed_next ^^ i) seed"
proof -
  have "fold (\<lambda>i st. st[i := seed_next (st ! (i - 1))]) [1..<Suc (N - 1)]
          ((MIXMAX_state m)[0 := seed]) ! i = (seed_next ^^ i) seed"
    using assms by (intro Seed_fold_nth) (simp_all add: N_def)
  moreover have "Suc (N - 1) = N" by (simp add: N_def)
  ultimately show ?thesis
    using assms(2) by (simp add: MIXMAX_Seed_def Let_def seed_next_def)
qed

lemma length_Seed: "length (MIXMAX_state (MIXMAX_Seed now m seed)) = length (MIXMAX_state m)"
  by (simp add: MIXMAX_Seed_def Let_def length_fold_update)

lemma first_draw_after_Seed:
  assumes "length (MIXMAX_state m) = N" "seed \<noteq> 0"
  shows "\<exists>m'. MIXMAX_Uint64 (MIXMAX_Seed now m seed)
           = Inr (mix ((seed_next ^^ 239) seed) (mix seed (seed_next seed)), m')"
proof -
  let ?s = "MIXMAX_Seed now m seed"
  have len: "length (MIXMAX_state ?s) = N" using assms by (simp add: length_Seed)
  have c: "MIXMAX_counter ?s = 0" by (simp add: MIXMAX_Seed_def Let_def)
  have w: "MIXMAX_state ?s ! 0 = seed" "MIXMAX_state ?s ! 1 = seed_next seed"
    "MIXMAX_state ?s ! (N - 1) = (seed_next ^^ 239) seed"
    using Seed_word [OF assms, of 0 now] Seed_word [OF assms, of 1 now]
      Seed_word [OF assms, of "N - 1" now]
    by (simp_all add: N_def)
  have "MIXMAX_state (MIXMAX_iterate ?s) ! (N - 1)
          = mix (MIXMAX_state ?s ! (N - 1)) (mix (MIXMAX_state ?s ! 0) (MIXMAX_state ?s ! 1))"
    using iterate_fold_nth [OF len, of N] by (simp add: MIXMAX_iterate_def Let_def)
  then have i: "MIXMAX_state (MIXMAX_iterate ?s) ! 239
          = mix ((seed_next ^^ 239) seed) (mix seed (seed_next seed))"
    unfolding w by (simp add: N_def)
  have "MIXMAX_Uint64 ?s = MIXMAX_Uint64 (MIXMAX_iterate ?s)"
    using c by (rule Uint64_empty_buffer)
  also have "\<dots> = Inr (MIXMAX_state (MIXMAX_iterate ?s) ! (240 - 1),
                        (MIXMAX_iterate ?s)\<lparr>MIXMAX_counter := of_nat (240 - 1)\<rparr>)"
    by (rule Uint64_buffered) (simp_all add: counter_iterate)
  finally show ?thesis using i by simp
qed

lemma seed_next_239_of_1: "(seed_next ^^ 239) 1 = 18086424941875033982"
  by (simp add: seed_next_def MOD_def funpow_numeral_unfold)

lemma first_draw_value:
  "mix ((seed_next ^^ 239) 1) (mix 1 (seed_next 1)) = 6003817092012275373"
  unfolding seed_next_239_of_1 by (simp add: mix_def seed_next_def MOD_def)

lemma iterated_words_after_Seed_1:
  "MIXMAX_state (MIXMAX_iterate (MIXMAX_Seed 0 MIXMAX_zero 1)) ! 239 = 6003817092012275373"
  "MIXMAX_state (MIXMAX_iterate (MIXMAX_Seed 0 MIXMAX_zero 1)) ! 0 = 6364136223846793006"
proof -
  let ?s = "MIXMAX_Seed 0 MIXMAX_zero 1"
  have l: "length (MIXMAX_state MIXMAX_zero) = N" by (simp add: MIXMAX_zero_def)
  have o: "(1 :: uint64) \<noteq> 0" by simp
  have len: "length (MIXMAX_state ?s) = N" using l by (simp add: length_Seed)
  have w: "MIXMAX_state ?s ! 0 = 1" "MIXMAX_state ?s ! 1 = seed_next 1"
    "MIXMAX_state ?s ! (N - 1) = (seed_next ^^ 239) 1"
    using Seed_word [OF l o, of 0 0] Seed_word [OF l o, of 1 0] Seed_word [OF l o, of "N - 1" 0]
    by (simp_all add: N_def)
  have i: "MIXMAX_state (MIXMAX_iterate ?s) ! 0 = mix 1 (seed_next 1)"
    "MIXMAX_state (MIXMAX_iterate ?s) ! (N - 1)
       = mix ((seed_next ^^ 239) 1) (mix 1 (seed_next 1))"
    using iterate_fold_nth [OF len, of N] w
    by (simp_all add: MIXMAX_iterate_def Let_def N_def)
  show "MIXMAX_state (MIXMAX_iterate ?s) ! 239 = 6003817092012275373"
    using i(2) by (simp add: N_def first_draw_value)
  show "MIXMAX_state (MIXMAX_iterate ?s) ! 0 = 6364136223846793006"
    using i(1) by (simp add: mix_def seed_next_def MOD_def)
qed

text \<open>
  The buffer order (C9) at the generator seeded with 1: the hypothesis holds, the 240
  calls return the reversed iterated array, whose last word 6003817092012275373 comes
  first and whose first word 6364136223846793006 comes last, and the 241st call iterates
  again.
\<close>

theorem MIXMAX_buffer_order_witness:
  "length (MIXMAX_state (MIXMAX_Seed 0 MIXMAX_zero 1)) = N
   \<and> MIXMAX_draws 240 (MIXMAX_iterate (MIXMAX_Seed 0 MIXMAX_zero 1))
       = Inr (rev (MIXMAX_state (MIXMAX_iterate (MIXMAX_Seed 0 MIXMAX_zero 1))),
              (MIXMAX_iterate (MIXMAX_Seed 0 MIXMAX_zero 1))\<lparr>MIXMAX_counter := 0\<rparr>)
   \<and> MIXMAX_Uint64 ((MIXMAX_iterate (MIXMAX_Seed 0 MIXMAX_zero 1))\<lparr>MIXMAX_counter := 0\<rparr>)
       = Inr (MIXMAX_state (MIXMAX_iterate (MIXMAX_iterate (MIXMAX_Seed 0 MIXMAX_zero 1))) ! 239,
              (MIXMAX_iterate (MIXMAX_iterate (MIXMAX_Seed 0 MIXMAX_zero 1)))
                \<lparr>MIXMAX_counter := 239\<rparr>)
   \<and> MIXMAX_state (MIXMAX_iterate (MIXMAX_Seed 0 MIXMAX_zero 1)) ! 239 = 6003817092012275373
   \<and> MIXMAX_state (MIXMAX_iterate (MIXMAX_Seed 0 MIXMAX_zero 1)) ! 0 = 6364136223846793006"
proof -
  have h: "length (MIXMAX_state (MIXMAX_Seed 0 MIXMAX_zero 1)) = N"
    by (simp add: length_Seed MIXMAX_zero_def)
  show ?thesis
    using h MIXMAX_buffer_order [OF h] iterated_words_after_Seed_1 by blast
qed

lemma first_draw_after_Seed_1:
  "\<exists>m'. MIXMAX_Uint64 (MIXMAX_Seed 0 MIXMAX_zero 1) = Inr (6003817092012275373, m')"
proof -
  have l: "length (MIXMAX_state MIXMAX_zero) = N" by (simp add: MIXMAX_zero_def)
  have o: "(1 :: uint64) \<noteq> 0" by simp
  show ?thesis
    using first_draw_after_Seed [OF l o, of 0] by (simp only: first_draw_value)
qed

text \<open>
  C2 (fails on the code). The claim: after \<open>Seed\<close> every state word is at most
  \<open>2 ^ 61 - 2\<close>, and so is every extracted output. The constant \<open>MOD\<close> is written
  \<open>0xfffffffffffffffe\<close>, which is \<open>2 ^ 64 - 2\<close>, so the mask clears bit 0 only: after
  \<open>Seed(1)\<close> the word \<open>state[1]\<close> is 6364136223846793006 and the first \<open>Uint64()\<close>
  returns 6003817092012275373, both above \<open>2 ^ 61 - 2\<close>.
\<close>

theorem MIXMAX_Seed_word_above_bound:
  "MOD = 2 ^ 64 - 2
   \<and> MIXMAX_state (MIXMAX_Seed 0 MIXMAX_zero 1) ! 1 = 6364136223846793006
   \<and> (2 ^ 61 - 2 :: uint64) < 6364136223846793006
   \<and> (\<exists>m'. MIXMAX_Uint64 (MIXMAX_Seed 0 MIXMAX_zero 1) = Inr (6003817092012275373, m'))
   \<and> (2 ^ 61 - 2 :: uint64) < 6003817092012275373"
proof -
  have "length (MIXMAX_state MIXMAX_zero) = N" by (simp add: MIXMAX_zero_def)
  then have "MIXMAX_state (MIXMAX_Seed 0 MIXMAX_zero 1) ! 1 = (seed_next ^^ 1) 1"
    by (intro Seed_word) (simp_all add: N_def)
  then have "MIXMAX_state (MIXMAX_Seed 0 MIXMAX_zero 1) ! 1 = 6364136223846793006"
    by (simp add: seed_next_def MOD_def)
  moreover have "MOD = 2 ^ 64 - 2" by (simp add: MOD_def)
  ultimately show ?thesis using first_draw_after_Seed_1 by simp
qed

section \<open>Theorems: MIXMAX floating-point output\<close>

text \<open>
  C8 (fails on the code). The claim: \<open>Float64()\<close> is in \<open>[0, 1)\<close> on every reachable
  state. After \<open>Seed(1)\<close> the first \<open>Uint64()\<close> is 6003817092012275373, which converts to
  6003817092012275712, and \<open>Float64()\<close> returns that divided by \<open>2 ^ 61\<close>, about 2.6.
\<close>

theorem MIXMAX_Float64_above_one:
  "(\<exists>m'. MIXMAX_Float64 (MIXMAX_Seed 0 MIXMAX_zero 1)
            = Inr (6003817092012275712 / 2 ^ 61, m'))
   \<and> (1 :: real) \<le> 6003817092012275712 / 2 ^ 61"
proof -
  have f: "float64 6003817092012275373 = 6003817092012275712"
    by (simp add: float64_def float64_round_def float64_shift_numeral)
  from first_draw_after_Seed_1 obtain m'
    where "MIXMAX_Uint64 (MIXMAX_Seed 0 MIXMAX_zero 1) = Inr (6003817092012275373, m')"
    by blast
  then have "MIXMAX_Float64 (MIXMAX_Seed 0 MIXMAX_zero 1)
               = Inr (6003817092012275712 / 2 ^ 61, m')"
    by (simp add: MIXMAX_Float64_def f TWOM_def)
  then show ?thesis by auto
qed

section \<open>Theorems: Jump and LongJump\<close>

lemma Xoshiro_next_eq:
  "Xoshiro_next x =
     \<lparr>state0 = state0 x XOR state3 x XOR state1 x,
      state1 = state1 x XOR state2 x XOR state0 x,
      state2 = state2 x XOR state0 x XOR push_bit 17 (state1 x),
      state3 = RotateLeft64 (state3 x XOR state1 x) 45\<rparr>"
  by (cases x) (simp add: Xoshiro_next_def Xoshiro_Uint64_def Let_def ac_simps)

lemma RotateLeft64_45_xor:
  "RotateLeft64 (a XOR b) 45 = RotateLeft64 a 45 XOR RotateLeft64 b 45"
proof (rule bit_word_eqI)
  fix n
  assume "n < LENGTH(64)"
  then show "bit (RotateLeft64 (a XOR b) 45) n
               \<longleftrightarrow> bit (RotateLeft64 a 45 XOR RotateLeft64 b 45) n"
    using bit_imp_le_length [of a "19 + n"] bit_imp_le_length [of b "19 + n"]
    by (auto simp: RotateLeft64_def Let_def bit_simps)
qed

lemma sxor_assoc: "sxor (sxor a b) c = sxor a (sxor b c)"
  by (simp add: sxor_def ac_simps)

lemma sxor_commute: "sxor a b = sxor b a"
  by (simp add: sxor_def ac_simps)

lemma sxor_left_commute: "sxor a (sxor b c) = sxor b (sxor a c)"
  by (simp add: sxor_def ac_simps)

lemmas sxor_ac = sxor_assoc sxor_commute sxor_left_commute

lemma sxor_zero [simp]: "sxor Xoshiro_zero a = a" "sxor a Xoshiro_zero = a"
  by (simp_all add: sxor_def Xoshiro_zero_def)

lemma sxor_self [simp]: "sxor a a = Xoshiro_zero"
  by (simp add: sxor_def Xoshiro_zero_def)

lemma sxor_self_left [simp]: "sxor a (sxor a b) = b"
  by (simp add: sxor_def)

lemma word_xor_eq_0:
  fixes a b :: uint64
  assumes "a XOR b = 0"
  shows "a = b"
proof -
  have "a = (a XOR b) XOR b" by (simp add: xor.assoc)
  then show ?thesis by (simp add: assms)
qed

lemma sxor_eq_zero_iff: "sxor a b = Xoshiro_zero \<longleftrightarrow> a = b"
  by (cases a; cases b) (auto simp: sxor_def Xoshiro_zero_def dest: word_xor_eq_0)

lemma next_sxor: "Xoshiro_next (sxor a b) = sxor (Xoshiro_next a) (Xoshiro_next b)"
  by (simp add: Xoshiro_next_eq sxor_def RotateLeft64_45_xor ac_simps)

lemma next_zero [simp]: "Xoshiro_next Xoshiro_zero = Xoshiro_zero"
  by (simp add: Xoshiro_next_eq Xoshiro_zero_def RotateLeft64_def)

lemma ev_zero [simp]: "ev p Xoshiro_zero = Xoshiro_zero"
  by (induction p) simp_all

lemma ev_sxor: "ev p (sxor a b) = sxor (ev p a) (ev p b)"
proof (induction p arbitrary: a b)
  case Nil
  then show ?case by simp
next
  case (Cons c p)
  show ?case
    by (cases c) (simp_all add: Cons next_sxor sxor_ac)
qed

lemma ev_next: "ev p (Xoshiro_next x) = Xoshiro_next (ev p x)"
proof (induction p arbitrary: x)
  case Nil
  then show ?case by simp
next
  case (Cons c p)
  show ?case by (cases c) (simp_all add: Cons next_sxor)
qed

lemma ev_funpow: "ev p ((Xoshiro_next ^^ n) x) = (Xoshiro_next ^^ n) (ev p x)"
  by (induction n) (simp_all add: ev_next)

lemma ev_bxor: "ev (bxor p q) x = sxor (ev p x) (ev q x)"
proof (induction p q arbitrary: x rule: bxor.induct)
  case (3 a p b q)
  show ?case by (cases a; cases b) (simp_all add: 3 sxor_ac)
qed simp_all

lemma ev_shift: "ev (False # p) x = Xoshiro_next (ev p x)"
  by (simp add: ev_next)

lemma ev_pmul: "ev (pmul p q) x = ev p (ev q x)"
proof (induction p arbitrary: x)
  case Nil
  then show ?case by simp
next
  case (Cons b p)
  show ?case by (cases b) (simp_all add: Cons ev_bxor ev_next)
qed

lemma ev_commute: "ev p (ev q x) = ev q (ev p x)"
proof (induction p arbitrary: x)
  case Nil
  then show ?case by simp
next
  case (Cons b p)
  show ?case by (cases b) (simp_all add: Cons ev_sxor ev_next)
qed

lemma ev_psq: "ev (psq p) x = ev p (ev p x)"
proof (induction p arbitrary: x)
  case Nil
  then show ?case by simp
next
  case (Cons b p)
  have "ev (psq (b # p)) x = sxor (if b then x else Xoshiro_zero)
          (ev p (ev p (Xoshiro_next (Xoshiro_next x))))"
    by (simp add: Cons)
  also have "\<dots> = ev (b # p) (ev (b # p) x)"
    by (cases b) (simp_all add: ev_sxor ev_next next_sxor sxor_ac)
  finally show ?case .
qed

lemma ev_monomial: "ev (replicate n False @ [True]) x = (Xoshiro_next ^^ n) x"
  by (induction n arbitrary: x) (simp_all add: ev_next funpow_swap1)

lemma ev_append: "ev (p @ q) x = sxor (ev p x) (ev q ((Xoshiro_next ^^ length p) x))"
  by (induction p arbitrary: x) (simp_all add: sxor_ac funpow_swap1)

lemma ev_all_false: "all_false p \<Longrightarrow> ev p x = Xoshiro_zero"
  by (induction p arbitrary: x) (simp_all split: if_splits)

lemma ev_eq_if_all_false: "all_false (bxor p q) \<Longrightarrow> ev p x = ev q x"
  using ev_all_false [of "bxor p q" x] by (simp add: ev_bxor sxor_eq_zero_iff)

lemma jump_bit_acc:
  "acc_state (fst (jump_bit j b (acc, x)))
     = sxor (acc_state acc) (if j AND push_bit b 1 \<noteq> 0 then x else Xoshiro_zero)"
  "snd (jump_bit j b (acc, x)) = Xoshiro_next x"
  by (cases acc; cases x;
      simp add: jump_bit_def acc_state_def sxor_def Xoshiro_zero_def Xoshiro_next_def Let_def)+

lemma fold_jump_bit:
  "acc_state (fst (fold (jump_bit j) bs (acc, x)))
     = sxor (acc_state acc) (ev (jump_flags j bs) x)
   \<and> snd (fold (jump_bit j) bs (acc, x)) = (Xoshiro_next ^^ length bs) x"
proof (induction bs arbitrary: acc x)
  case Nil
  then show ?case by (simp add: jump_flags_def)
next
  case (Cons b bs)
  obtain acc' x' where s: "jump_bit j b (acc, x) = (acc', x')"
    by (cases "jump_bit j b (acc, x)")
  have a: "acc_state acc' = sxor (acc_state acc) (if j AND push_bit b 1 \<noteq> 0 then x else Xoshiro_zero)"
    and x: "x' = Xoshiro_next x"
    using jump_bit_acc [of j b acc x] s by simp_all
  show ?case
    using Cons [of acc' x']
    by (simp add: s a x jump_flags_def sxor_ac funpow_swap1)
qed

lemma fold_jump_word:
  "acc_state (fst (fold jump_word js (acc, x)))
     = sxor (acc_state acc) (ev (jump_poly js) x)
   \<and> snd (fold jump_word js (acc, x)) = (Xoshiro_next ^^ (64 * length js)) x"
proof (induction js arbitrary: acc x)
  case Nil
  then show ?case by (simp add: jump_poly_def)
next
  case (Cons j js)
  obtain acc' x' where s: "jump_word j (acc, x) = (acc', x')"
    by (cases "jump_word j (acc, x)")
  have w: "acc_state acc' = sxor (acc_state acc) (ev (jump_flags j [0..<64]) x)"
    "x' = (Xoshiro_next ^^ 64) x"
    using fold_jump_bit [of j "[0..<64]" acc x] s by (simp_all add: jump_word_def)
  have l: "length (jump_flags j [0..<64]) = 64"
    by (simp add: jump_flags_def)
  have p: "jump_poly (j # js) = jump_flags j [0..<64] @ jump_poly js"
    by (simp add: jump_poly_def)
  have "acc_state (fst (fold jump_word (j # js) (acc, x)))
          = sxor (acc_state acc') (ev (jump_poly js) x')"
    using Cons [of acc' x'] by (simp add: s)
  also have "\<dots> = sxor (acc_state acc) (ev (jump_poly (j # js)) x)"
    unfolding p ev_append l w by (simp add: sxor_ac)
  finally have a: "acc_state (fst (fold jump_word (j # js) (acc, x)))
          = sxor (acc_state acc) (ev (jump_poly (j # js)) x)" .
  have "snd (fold jump_word (j # js) (acc, x)) = (Xoshiro_next ^^ (64 * length js)) x'"
    using Cons [of acc' x'] by (simp add: s)
  also have "\<dots> = (Xoshiro_next ^^ (64 * length (j # js))) x"
    unfolding w by (simp add: funpow_add [symmetric, unfolded o_def, THEN fun_cong] add.commute)
  finally show ?case using a by simp
qed

lemma jump_loops_ev: "jump_loops jump x = ev (jump_poly jump) x"
proof -
  obtain acc x' where s: "fold jump_word jump ((0, 0, 0, 0), x) = (acc, x')"
    by (cases "fold jump_word jump ((0, 0, 0, 0), x)")
  have "acc_state acc = sxor (acc_state (0, 0, 0, 0)) (ev (jump_poly jump) x)"
    using fold_jump_word [of jump "(0, 0, 0, 0)" x] s by simp
  also have "acc_state (0, 0, 0, 0) = Xoshiro_zero"
    by (simp add: acc_state_def Xoshiro_zero_def)
  finally have a: "acc_state acc = ev (jump_poly jump) x" by simp
  have "jump_loops jump x = acc_state acc"
    by (cases acc; cases x') (simp add: jump_loops_def s acc_state_def)
  then show ?thesis using a by simp
qed

lemma length_wbits [simp]: "length (wbits w) = 64"
  by (simp add: wbits_def)

lemma nth_wbits: "i < 64 \<Longrightarrow> wbits w ! i = bit w i"
  by (simp add: wbits_def)

lemma length_bxor: "length (bxor xs ys) = max (length xs) (length ys)"
  by (induction xs ys rule: bxor.induct) simp_all

lemma nth_bxor:
  "length xs = length ys \<Longrightarrow> i < length xs \<Longrightarrow> bxor xs ys ! i = (xs ! i \<noteq> ys ! i)"
proof (induction xs ys arbitrary: i rule: bxor.induct)
  case (3 x xs y ys)
  then show ?case by (cases i) simp_all
qed simp_all

lemma bxor_append:
  "length xs = length ys \<Longrightarrow> bxor (xs @ xs') (ys @ ys') = bxor xs ys @ bxor xs' ys'"
  by (induction xs ys rule: bxor.induct) simp_all

lemma wbits_xor: "wbits (a XOR b) = bxor (wbits a) (wbits b)"
  by (rule nth_equalityI) (simp_all add: length_bxor nth_bxor nth_wbits bit_xor_iff)

lemma wbits_shl17: "wbits (push_bit 17 a) = shl17 (wbits a)"
proof (rule nth_equalityI)
  show "length (wbits (push_bit 17 a)) = length (shl17 (wbits a))"
    by (simp add: shl17_def)
next
  fix i assume "i < length (wbits (push_bit 17 a))"
  then have i: "i < 64" by simp
  show "wbits (push_bit 17 a) ! i = shl17 (wbits a) ! i"
    using i by (auto simp: nth_wbits shl17_def nth_append bit_simps)
qed

lemma wbits_rotl45: "wbits (RotateLeft64 a 45) = rotl45 (wbits a)"
proof (rule nth_equalityI)
  show "length (wbits (RotateLeft64 a 45)) = length (rotl45 (wbits a))"
    by (simp add: rotl45_def)
next
  fix i assume "i < length (wbits (RotateLeft64 a 45))"
  then have i: "i < 64" by simp
  show "wbits (RotateLeft64 a 45) ! i = rotl45 (wbits a) ! i"
    using i bit_imp_le_length [of a "19 + i"]
    by (auto simp: nth_wbits rotl45_def nth_append RotateLeft64_def Let_def bit_simps
        add.commute)
qed

lemma blt_next: "blt (Xoshiro_next x) = bstep (blt x)"
proof -
  have "Xoshiro_next x =
     \<lparr>state0 = state0 x XOR (state3 x XOR state1 x),
      state1 = state1 x XOR (state2 x XOR state0 x),
      state2 = (state2 x XOR state0 x) XOR push_bit 17 (state1 x),
      state3 = RotateLeft64 (state3 x XOR state1 x) 45\<rparr>"
    by (simp add: Xoshiro_next_eq ac_simps)
  then show ?thesis
    by (simp add: blt_def wbits_xor wbits_shl17 wbits_rotl45)
qed

lemma wbits_inject: "wbits a = wbits b \<Longrightarrow> a = b"
proof (rule bit_word_eqI)
  fix n assume "wbits a = wbits b" "n < LENGTH(64)"
  then show "bit a n \<longleftrightarrow> bit b n"
    using nth_wbits [of n a] nth_wbits [of n b] by simp
qed

lemma length_bl [simp]: "length (bl x) = 256"
  by (simp add: bl_def blt_def)

lemma bl_inject: "bl x = bl y \<Longrightarrow> x = y"
  by (cases x; cases y) (auto simp: bl_def blt_def dest: wbits_inject)

lemma bl_sxor: "bl (sxor a b) = bxor (bl a) (bl b)"
  by (simp add: bl_def blt_def sxor_def wbits_xor bxor_append)

lemma bl_zero: "bl Xoshiro_zero = replicate 256 False"
  by (rule nth_equalityI)
    (auto simp: bl_def blt_def Xoshiro_zero_def wbits_def nth_append)

lemma wsel_ev: "wsel p (wkry n x) acc = sxor acc (ev (take n p) x)"
proof (induction p arbitrary: n x acc)
  case Nil
  then show ?case by simp
next
  case (Cons b p)
  show ?case
  proof (cases n)
    case 0
    then show ?thesis by simp
  next
    case (Suc m)
    then show ?thesis
      using Cons [of m] by (cases b) (simp_all add: sxor_ac)
  qed
qed

lemma map_bl_wkry: "map bl (wkry n x) = bkry n (blt x)"
  by (induction n arbitrary: x) (simp_all add: bl_def blt_next)

lemma bl_wsel: "bl (wsel p ws acc) = sel p (map bl ws) (bl acc)"
  by (induction p ws acc rule: wsel.induct) (simp_all add: bl_sxor)

lemma blt_funpow: "blt ((Xoshiro_next ^^ n) x) = bsteps n (blt x)"
  by (induction n arbitrary: x) (simp_all add: blt_next funpow_swap1)

lemma sel_in_span: "\<exists>c. sel p (bkry n (blt x)) (bl a) = bl (sxor a (ev c x))"
proof -
  have "sel p (bkry n (blt x)) (bl a) = bl (wsel p (wkry n x) a)"
    by (simp add: bl_wsel map_bl_wkry)
  then show ?thesis by (auto simp: wsel_ev)
qed

lemma ev_shifted: "ev (replicate n False @ p) x = ev p ((Xoshiro_next ^^ n) x)"
proof -
  have "all_false (replicate n False)" by (induction n) simp_all
  then have "ev (replicate n False) x = Xoshiro_zero" by (rule ev_all_false)
  then show ?thesis by (simp add: ev_append)
qed

lemma selB_in_span: "\<exists>c. selB cs (bkryB n (blt x)) (bl a) = bl (sxor a (ev c x))"
proof (induction cs arbitrary: n x a)
  case Nil
  have "selB [] (bkryB n (blt x)) (bl a) = bl (sxor a (ev [] x))" by simp
  then show ?case by blast
next
  case (Cons c cs)
  show ?case
  proof (cases n)
    case 0
    have "selB (c # cs) (bkryB 0 (blt x)) (bl a) = bl (sxor a (ev [] x))" by simp
    then show ?thesis unfolding 0 by blast
  next
    case (Suc m)
    obtain c1 where c1: "sel c (bkry 16 (blt x)) (bl a) = bl (sxor a (ev c1 x))"
      using sel_in_span by blast
    obtain c2 where c2: "selB cs (bkryB m (blt ((Xoshiro_next ^^ 16) x))) (bl (sxor a (ev c1 x)))
        = bl (sxor (sxor a (ev c1 x)) (ev c2 ((Xoshiro_next ^^ 16) x)))"
      using Cons by blast
    have "selB (c # cs) (bkryB n (blt x)) (bl a)
        = bl (sxor (sxor a (ev c1 x)) (ev c2 ((Xoshiro_next ^^ 16) x)))"
      by (simp add: Suc c1 c2 [unfolded blt_funpow])
    also have "\<dots> = bl (sxor a (ev (bxor c1 (replicate 16 False @ c2)) x))"
      by (simp add: ev_bxor ev_shifted sxor_ac)
    finally show ?thesis by blast
  qed
qed

lemma bxor_all_false_eq:
  "length xs = length ys \<Longrightarrow> all_false (bxor xs ys) \<Longrightarrow> xs = ys"
proof (induction xs ys rule: bxor.induct)
  case (3 x xs y ys)
  then show ?case by (cases x; cases y) (simp_all split: if_splits)
qed simp_all

lemma bxor_replicate_False: "length zs = n \<Longrightarrow> bxor (replicate n False) zs = zs"
  by (induction n arbitrary: zs) (auto simp: length_Suc_conv)

lemma in_span_256: "in_span 256"
  by (auto simp: in_span_def bl_zero [symmetric] intro: exI [of _ "[]"])

lemma chk_span:
  assumes "chk cs (bkryB 16 (blt jump_seed)) (replicate 256 False)
             (replicate a False) (replicate b False)"
    and "a + b = 256" and "length cs = n" and "in_span (a + n)"
  shows "in_span a"
  using assms
proof (induction cs arbitrary: a b n)
  case Nil
  then show ?case by simp
next
  case (Cons c cs)
  let ?W = "bkryB 16 (blt jump_seed)"
  let ?z = "replicate 256 False"
  from Cons.prems(1) obtain b' where b: "b = Suc b'"
    by (cases b) simp_all
  let ?u = "replicate a False @ True # replicate b' False"
  from Cons.prems(1) have u: "all_false (bxor (selB c ?W ?z) ?u)"
    and rest: "chk cs ?W ?z (replicate (Suc a) False) (replicate b' False)"
    by (simp_all add: b split: if_splits)
  obtain c0 where "selB c ?W (bl Xoshiro_zero) = bl (sxor Xoshiro_zero (ev c0 jump_seed))"
    using selB_in_span by blast
  then have c0: "selB c ?W ?z = bl (ev c0 jump_seed)"
    by (simp add: bl_zero)
  have "length (bl (ev c0 jump_seed)) = length ?u"
    using Cons.prems(2) by (simp add: b)
  then have cu: "bl (ev c0 jump_seed) = ?u"
    using u unfolding c0 by (intro bxor_all_false_eq) simp_all
  obtain n' where n: "n = Suc n'" "length cs = n'"
    using Cons.prems(3) by (cases n) auto
  have ih: "in_span (Suc a)"
    using Cons.IH [OF rest _ n(2)] Cons.prems(2,4) by (simp add: b n(1))
  show ?case
    unfolding in_span_def
  proof (intro allI impI)
    fix ys :: "bool list"
    assume "length ys = 256 - a"
    then obtain y ys' where ys: "ys = y # ys'" and l: "length ys' = b'"
      using Cons.prems(2) by (cases ys) (simp_all add: b)
    have "length ys' = 256 - Suc a"
      using l Cons.prems(2) by (simp add: b)
    with ih obtain c' where c': "bl (ev c' jump_seed) = replicate (Suc a) False @ ys'"
      unfolding in_span_def by blast
    show "\<exists>c. bl (ev c jump_seed) = replicate a False @ ys"
    proof (cases y)
      case False
      then have "replicate a False @ ys = replicate (Suc a) False @ ys'"
        by (simp add: ys replicate_app_Cons_same)
      then show ?thesis using c' by auto
    next
      case True
      have "bl (ev (bxor c0 c') jump_seed) = bxor ?u (replicate (Suc a) False @ ys')"
        by (simp only: ev_bxor bl_sxor cu c')
      also have "replicate (Suc a) False @ ys' = replicate a False @ False # ys'"
        by (simp add: replicate_app_Cons_same)
      also have "bxor ?u (replicate a False @ False # ys') = replicate a False @ True # ys'"
        using l by (simp add: bxor_append bxor_replicate_False)
      finally show ?thesis using True by (auto simp: ys)
    qed
  qed
qed

lemma span_all: "in_span 0 \<Longrightarrow> \<exists>c. x = ev c jump_seed"
proof -
  assume "in_span 0"
  then obtain c where "bl (ev c jump_seed) = bl x"
    unfolding in_span_def by (metis append_Nil diff_zero length_bl replicate_0)
  then show ?thesis using bl_inject by blast
qed

lemma chain_sound:
  assumes "ev P jump_seed = Xoshiro_zero"
  shows "chain P r steps rf \<Longrightarrow> (Xoshiro_next ^^ n) jump_seed = ev r jump_seed \<Longrightarrow>
           (Xoshiro_next ^^ (n * 2 ^ length steps)) jump_seed = ev rf jump_seed"
proof (induction steps arbitrary: r n)
  case Nil
  then show ?case using ev_eq_if_all_false [of r rf jump_seed] by simp
next
  case (Cons st steps)
  obtain q r' where st: "st = (q, r')" by (cases st)
  from Cons.prems(1) have a: "all_false (bxor (psq r) (bxor (pmul q P) r'))"
    and c: "chain P r' steps rf"
    by (simp_all add: st split: if_splits)
  have "ev (psq r) jump_seed = ev (bxor (pmul q P) r') jump_seed"
    using a by (rule ev_eq_if_all_false)
  also have "\<dots> = ev r' jump_seed"
    by (simp add: ev_bxor ev_pmul assms)
  finally have sq: "ev r (ev r jump_seed) = ev r' jump_seed"
    by (simp add: ev_psq)
  have "(Xoshiro_next ^^ (n + n)) jump_seed = (Xoshiro_next ^^ n) (ev r jump_seed)"
    by (simp add: funpow_add Cons.prems(2))
  also have "\<dots> = ev r ((Xoshiro_next ^^ n) jump_seed)"
    by (simp add: ev_funpow)
  also have "\<dots> = ev r' jump_seed"
    by (simp add: Cons.prems(2) sq)
  finally have "(Xoshiro_next ^^ (2 * n)) jump_seed = ev r' jump_seed"
    by (simp add: mult_2)
  from Cons.IH [OF c this] show ?case
    by (simp add: mult.assoc mult.left_commute)
qed

lemma jump_from_seed:
  assumes "in_span 0"
    and "(Xoshiro_next ^^ n) jump_seed = ev p jump_seed"
  shows "(Xoshiro_next ^^ n) x = ev p x"
proof -
  from span_all [OF assms(1)] obtain c where x: "x = ev c jump_seed" by blast
  have "(Xoshiro_next ^^ n) x = ev c ((Xoshiro_next ^^ n) jump_seed)"
    by (simp add: x ev_funpow)
  also have "\<dots> = ev p x"
    by (simp add: assms(2) x ev_commute)
  finally show ?thesis .
qed

lemma bit_numeral_bits:
  "bit (numeral k :: int) i \<longleftrightarrow> i < length (bits k) \<and> bits k ! i"
proof (induction k arbitrary: i)
  case One
  then show ?case by (cases i) (simp_all add: bit_1_iff)
next
  case (Bit0 k)
  then show ?case by (cases i) simp_all
next
  case (Bit1 k)
  then show ?case by (cases i) simp_all
qed

lemma length_padto [simp]: "length (padto us bs) = length us"
  by (induction us bs rule: padto.induct) simp_all

lemma nth_padto: "i < length us \<Longrightarrow> padto us bs ! i \<longleftrightarrow> i < length bs \<and> bs ! i"
proof (induction us bs arbitrary: i rule: padto.induct)
  case (3 u us b bs)
  then show ?case by (cases i) simp_all
next
  case (2 u us)
  then show ?case by (cases i) simp_all
qed simp

lemma wbits_numeral: "wbits (numeral k) = padto (replicate 64 ()) (bits k)"
  by (rule nth_equalityI) (simp_all add: nth_wbits nth_padto bit_numeral_bits)

lemma jump_flags_wbits: "jump_flags j [0..<64] = wbits j"
  by (simp add: jump_flags_def wbits_def bit_iff_and_push_bit_not_eq_0)

lemma all_false_replicate: "all_false xs \<Longrightarrow> xs = replicate (length xs) False"
  by (induction xs) (simp_all split: if_splits)

lemma annihilates:
  assumes "all_false (sel p (bkry (length p) (blt x)) (replicate 256 False))"
  shows "ev p x = Xoshiro_zero"
proof -
  have "sel p (bkry (length p) (blt x)) (replicate 256 False) = bl (wsel p (wkry (length p) x) Xoshiro_zero)"
    by (simp add: bl_wsel map_bl_wkry bl_zero)
  also have "\<dots> = bl (ev p x)"
    by (simp add: wsel_ev)
  finally have "all_false (bl (ev p x))" using assms by simp
  then have "bl (ev p x) = replicate 256 False"
    using all_false_replicate [of "bl (ev p x)"] by simp
  then show ?thesis
    using bl_inject [of "ev p x" Xoshiro_zero] by (simp add: bl_zero)
qed

lemma first_power: "(Xoshiro_next ^^ 1) jump_seed = ev [False, True] jump_seed"
  by simp

subsection \<open>Evaluation on bit lists\<close>

lemma poly_of_numeral: "poly_of (numeral k) = bits k"
  by (simp add: poly_of_def num_of_nat_numeral_eq)

lemma poly_of_0: "poly_of 0 = []"
  by (simp add: poly_of_def)

lemma poly_of_1: "poly_of 1 = [True]"
  using poly_of_numeral [of Num.One] by simp

lemma bkry_numeral: "bkry (numeral k) s = flat s # bkry (pred_numeral k) (bstep s)"
proof -
  have "bkry (numeral k) s = bkry (Suc (pred_numeral k)) s"
    by (simp only: numeral_eq_Suc)
  then show ?thesis by (simp only: bkry.simps)
qed

lemma bsteps_numeral: "bsteps (numeral k) s = bsteps (pred_numeral k) (bstep s)"
proof -
  have "bsteps (numeral k) s = bsteps (Suc (pred_numeral k)) s"
    by (simp only: numeral_eq_Suc)
  then show ?thesis by (simp only: bsteps.simps)
qed

lemma bkryB_numeral: "bkryB (numeral k) s = bkry 16 s # bkryB (pred_numeral k) (bsteps 16 s)"
proof -
  have "bkryB (numeral k) s = bkryB (Suc (pred_numeral k)) s"
    by (simp only: numeral_eq_Suc)
  then show ?thesis by (simp only: bkryB.simps)
qed

lemma replicate_numeral: "replicate (numeral k) x = x # replicate (pred_numeral k) x"
  by (simp add: numeral_eq_Suc)

lemma wbits_0: "wbits 0 = replicate 64 False"
  by (rule nth_equalityI) (simp_all add: nth_wbits)

lemma wbits_1: "wbits 1 = True # replicate 63 False"
  by (rule nth_equalityI) (auto simp: nth_wbits nth_Cons' bit_1_iff)

lemma rotl45_eval:
  "rotl45 [x0, x1, x2, x3, x4, x5, x6, x7, x8, x9, x10, x11, x12, x13, x14, x15, x16, x17, x18, x19,
       x20, x21, x22, x23, x24, x25, x26, x27, x28, x29, x30, x31, x32, x33, x34, x35, x36, x37,
       x38, x39, x40, x41, x42, x43, x44, x45, x46, x47, x48, x49, x50, x51, x52, x53, x54, x55,
       x56, x57, x58, x59, x60, x61, x62, x63]
     = [x19, x20, x21, x22, x23, x24, x25, x26, x27, x28, x29, x30, x31, x32, x33, x34, x35,
         x36, x37, x38, x39, x40, x41, x42, x43, x44, x45, x46, x47, x48, x49, x50, x51, x52,
         x53, x54, x55, x56, x57, x58, x59, x60, x61, x62, x63, x0, x1, x2, x3, x4, x5, x6, x7,
         x8, x9, x10, x11, x12, x13, x14, x15, x16, x17, x18]"
  by (simp add: rotl45_def)

lemma shl17_eval:
  "shl17 [x0, x1, x2, x3, x4, x5, x6, x7, x8, x9, x10, x11, x12, x13, x14, x15, x16, x17, x18, x19,
       x20, x21, x22, x23, x24, x25, x26, x27, x28, x29, x30, x31, x32, x33, x34, x35, x36, x37,
       x38, x39, x40, x41, x42, x43, x44, x45, x46, x47, x48, x49, x50, x51, x52, x53, x54, x55,
       x56, x57, x58, x59, x60, x61, x62, x63]
     = [False, False, False, False, False, False, False, False, False, False, False, False,
         False, False, False, False, False, x0, x1, x2, x3, x4, x5, x6, x7, x8, x9, x10, x11,
         x12, x13, x14, x15, x16, x17, x18, x19, x20, x21, x22, x23, x24, x25, x26, x27, x28,
         x29, x30, x31, x32, x33, x34, x35, x36, x37, x38, x39, x40, x41, x42, x43, x44, x45,
         x46]"
  by (simp add: shl17_def replicate_numeral)

lemma bxor_eval:
  "bxor (True # xs) (True # ys) = False # bxor xs ys"
  "bxor (False # xs) (False # ys) = False # bxor xs ys"
  "bxor (True # xs) (False # ys) = True # bxor xs ys"
  "bxor (False # xs) (True # ys) = True # bxor xs ys"
  "bxor [] ys = ys"
  "bxor (x # xs) [] = x # xs"
  by simp_all

lemma sel_eval:
  "sel [] ws acc = acc"
  "sel (b # p) [] acc = acc"
  "sel (True # p) (w # ws) acc = sel p ws (bxor acc w)"
  "sel (False # p) (w # ws) acc = sel p ws acc"
  by simp_all

lemma pmul_eval:
  "pmul [] q = []"
  "pmul (True # p) q = bxor q (False # pmul p q)"
  "pmul (False # p) q = False # pmul p q"
  by simp_all

lemma all_false_eval:
  "all_false [] = True"
  "all_false (True # bs) = False"
  "all_false (False # bs) = all_false bs"
  by simp_all

lemma blt_seed:
  "blt jump_seed
     = (True # replicate 63 False, replicate 64 False, replicate 64 False, replicate 64 False)"
  by (simp add: blt_def jump_seed_def wbits_0 wbits_1)

lemma jump_poly_eval: "jump_poly (j # js) = wbits j @ jump_poly js" "jump_poly [] = []"
  by (simp_all add: jump_poly_def jump_flags_wbits)

lemmas eval_rules = poly_of_numeral poly_of_0 poly_of_1 bits.simps
  bkry_numeral bkry.simps bsteps_numeral bsteps.simps(1) bkryB_numeral bkryB.simps(1)
  rotl45_eval shl17_eval bxor_eval all_false_eval blt_seed bstep.simps bstep2.simps flat.simps
  sel_eval selB.simps chk.simps chain.simps psq.simps pmul_eval
  jump_poly_eval wbits_numeral padto.simps
  list.size(3) length_Cons append.simps replicate_numeral replicate_0 replicate_Suc
  pred_numeral_simps BitM.simps if_True if_False

subsection \<open>The three computations and the result\<close>

text \<open>
  The polynomial below is the characteristic polynomial of the transition, of degree 256.
  Applied to \<open>jump_seed\<close> it gives the zero state.
\<close>

lemma char_poly_annihilates:
  "ev (poly_of 0x10003c03c3f3ecb1904b4edcf26259f850280002bcefd1a5e9d116f2bb0f0f001) jump_seed = Xoshiro_zero"
  by (rule annihilates) (simp only: eval_rules)

text \<open>
  The 256 states \<open>jump_seed, T jump_seed, \<dots>\<close> span the state space: for each bit position
  a selection of them adds up to the unit vector of that position. Each row below is one
  selection, in 16 blocks of 16 bits.
\<close>

lemma span_rows_0:
  "chk
    [ [poly_of 0x1, poly_of 0x0, poly_of 0x0, poly_of 0x0, poly_of 0x0, poly_of 0x0, poly_of 0x0,
      poly_of 0x0, poly_of 0x0, poly_of 0x0, poly_of 0x0, poly_of 0x0, poly_of 0x0, poly_of 0x0,
      poly_of 0x0, poly_of 0x0],
     [poly_of 0x47bb, poly_of 0xca17, poly_of 0xdd95, poly_of 0xe1de, poly_of 0x3038,
      poly_of 0x5c9c, poly_of 0x140c, poly_of 0x3c25, poly_of 0xa2ef, poly_of 0x7cd3,
      poly_of 0x73f7, poly_of 0x65ab, poly_of 0xf9f4, poly_of 0xaf0d, poly_of 0xadf7,
      poly_of 0xf2c9],
     [poly_of 0x3ff9, poly_of 0xdc51, poly_of 0x4d51, poly_of 0xbb71, poly_of 0x9b88,
      poly_of 0x949b, poly_of 0x3bb3, poly_of 0xac2a, poly_of 0xf2f4, poly_of 0x25a,
      poly_of 0xcd6b, poly_of 0xb203, poly_of 0x5d79, poly_of 0xac62, poly_of 0x444,
      poly_of 0xb46],
     [poly_of 0xf5df, poly_of 0x617f, poly_of 0xda00, poly_of 0x9978, poly_of 0x4f60,
      poly_of 0x58ab, poly_of 0xafa4, poly_of 0x69b3, poly_of 0x3a5e, poly_of 0x157b,
      poly_of 0x1b47, poly_of 0x945c, poly_of 0x805b, poly_of 0x3890, poly_of 0x458e,
      poly_of 0x3551],
     [poly_of 0x762c, poly_of 0xa077, poly_of 0x48a6, poly_of 0xd376, poly_of 0x73c9,
      poly_of 0x1e5e, poly_of 0xcd3a, poly_of 0x8296, poly_of 0x8b0a, poly_of 0x9703,
      poly_of 0x25b4, poly_of 0xa1d2, poly_of 0x3001, poly_of 0x553f, poly_of 0x767c,
      poly_of 0xdf47],
     [poly_of 0xaf6, poly_of 0xe537, poly_of 0xb029, poly_of 0xf75b, poly_of 0x201b,
      poly_of 0xe24c, poly_of 0x98cb, poly_of 0x5946, poly_of 0x73bf, poly_of 0x5287,
      poly_of 0xa0c3, poly_of 0xae74, poly_of 0x734a, poly_of 0x19cf, poly_of 0x55f8,
      poly_of 0x9199],
     [poly_of 0x5c03, poly_of 0x4e9e, poly_of 0x2711, poly_of 0x37d5, poly_of 0x2466,
      poly_of 0xf3c3, poly_of 0x4026, poly_of 0x97aa, poly_of 0x9380, poly_of 0x544b,
      poly_of 0x5309, poly_of 0x39a3, poly_of 0x7f58, poly_of 0xb8ba, poly_of 0x160,
      poly_of 0x4f36],
     [poly_of 0xbb00, poly_of 0xd5c0, poly_of 0x1b93, poly_of 0xf2e2, poly_of 0x7ff9,
      poly_of 0x1990, poly_of 0x6fbb, poly_of 0x98ad, poly_of 0x99a9, poly_of 0x35f6,
      poly_of 0x3852, poly_of 0xb420, poly_of 0x1a2f, poly_of 0x70dd, poly_of 0x6845,
      poly_of 0x878e],
     [poly_of 0x7f2, poly_of 0x6bbe, poly_of 0xbfa6, poly_of 0x66f8, poly_of 0x3c69,
      poly_of 0x5d12, poly_of 0xf47e, poly_of 0x155b, poly_of 0xd5ba, poly_of 0x9078,
      poly_of 0x3f16, poly_of 0x8f02, poly_of 0x2f0d, poly_of 0xc02c, poly_of 0xae21,
      poly_of 0x877],
     [poly_of 0x51f3, poly_of 0xa8aa, poly_of 0xc1e9, poly_of 0x2d80, poly_of 0x2462,
      poly_of 0x4eac, poly_of 0xd796, poly_of 0x4bb3, poly_of 0xda0c, poly_of 0x92e,
      poly_of 0x190e, poly_of 0xb575, poly_of 0xe113, poly_of 0x129a, poly_of 0xbe2e,
      poly_of 0x8443],
     [poly_of 0x3594, poly_of 0x275f, poly_of 0xf5ae, poly_of 0x5524, poly_of 0xdc6d,
      poly_of 0xcc56, poly_of 0x6d9f, poly_of 0xd73e, poly_of 0x33f2, poly_of 0xf91c,
      poly_of 0x75f2, poly_of 0x2786, poly_of 0x1879, poly_of 0x906f, poly_of 0x331b,
      poly_of 0xac86],
     [poly_of 0xdb6, poly_of 0xe9a7, poly_of 0xb22c, poly_of 0x7787, poly_of 0xe037,
      poly_of 0x45b0, poly_of 0x3b2b, poly_of 0x7c06, poly_of 0x9368, poly_of 0x4115,
      poly_of 0xc1bc, poly_of 0x644, poly_of 0x29a0, poly_of 0x189f, poly_of 0xd673,
      poly_of 0x8c7b],
     [poly_of 0xda0f, poly_of 0xc611, poly_of 0xccb2, poly_of 0x58e9, poly_of 0xd0b7,
      poly_of 0xa348, poly_of 0x6c10, poly_of 0xee15, poly_of 0xda63, poly_of 0xa1eb,
      poly_of 0x9aeb, poly_of 0x18ef, poly_of 0x23f7, poly_of 0x3ee3, poly_of 0xe6dc,
      poly_of 0x8b48],
     [poly_of 0x2bf2, poly_of 0x1247, poly_of 0xaadf, poly_of 0x9298, poly_of 0xdbdb,
      poly_of 0xb776, poly_of 0x887c, poly_of 0x2c8f, poly_of 0x789c, poly_of 0x65de,
      poly_of 0x304d, poly_of 0x965f, poly_of 0xa82, poly_of 0x5f6e, poly_of 0x8372,
      poly_of 0x3c09],
     [poly_of 0x213e, poly_of 0x232b, poly_of 0x9a8e, poly_of 0x19a, poly_of 0xe002,
      poly_of 0xb1f5, poly_of 0x3333, poly_of 0x8fa6, poly_of 0xe43c, poly_of 0xef04,
      poly_of 0xe07c, poly_of 0xa735, poly_of 0xbd28, poly_of 0x57d9, poly_of 0xbb4c,
      poly_of 0xce2],
     [poly_of 0xb201, poly_of 0x49ea, poly_of 0x96e8, poly_of 0x1612, poly_of 0xffeb,
      poly_of 0xc1e2, poly_of 0x35bd, poly_of 0xf1e9, poly_of 0x90de, poly_of 0xe602,
      poly_of 0xb39e, poly_of 0x18f2, poly_of 0xd7ea, poly_of 0x500c, poly_of 0xe0a,
      poly_of 0x48f6],
     [poly_of 0xf6af, poly_of 0xd0a5, poly_of 0x2497, poly_of 0x3d5c, poly_of 0x4619,
      poly_of 0x12e6, poly_of 0x6a0b, poly_of 0x1cda, poly_of 0xd754, poly_of 0x1171,
      poly_of 0x68, poly_of 0xd928, poly_of 0x4d32, poly_of 0x88fd, poly_of 0x69e,
      poly_of 0x9214],
     [poly_of 0xaafc, poly_of 0x4297, poly_of 0x5c4b, poly_of 0xf9ef, poly_of 0xdec4,
      poly_of 0xfb24, poly_of 0xfad2, poly_of 0x693e, poly_of 0x9d35, poly_of 0xebd9,
      poly_of 0xb6a, poly_of 0x17e7, poly_of 0xca59, poly_of 0xb7bd, poly_of 0x117a,
      poly_of 0xf765],
     [poly_of 0x4edb, poly_of 0xe83e, poly_of 0xa09b, poly_of 0xd5ff, poly_of 0x3a9a,
      poly_of 0x97b9, poly_of 0x1b1, poly_of 0xd855, poly_of 0x7ca8, poly_of 0x1ccc,
      poly_of 0xf549, poly_of 0xf691, poly_of 0x460e, poly_of 0xe19f, poly_of 0xe053,
      poly_of 0xec48],
     [poly_of 0x9e45, poly_of 0xaa7a, poly_of 0xca56, poly_of 0xe47c, poly_of 0x20b6,
      poly_of 0x507f, poly_of 0xa71b, poly_of 0xaef9, poly_of 0x4442, poly_of 0xf3f0,
      poly_of 0x5136, poly_of 0x9c78, poly_of 0x7a2d, poly_of 0x7da9, poly_of 0x8d3e,
      poly_of 0x8147],
     [poly_of 0x449, poly_of 0x9e1, poly_of 0x9764, poly_of 0x32a5, poly_of 0x8ce6,
      poly_of 0x9293, poly_of 0xbae7, poly_of 0xf7ae, poly_of 0x169d, poly_of 0x5b87,
      poly_of 0xe01c, poly_of 0x2a28, poly_of 0x728a, poly_of 0x43b0, poly_of 0x38ee,
      poly_of 0x96d5],
     [poly_of 0xb017, poly_of 0xd863, poly_of 0x769b, poly_of 0x6502, poly_of 0x44ff,
      poly_of 0x2367, poly_of 0x56c0, poly_of 0x3820, poly_of 0x69d6, poly_of 0xe28c,
      poly_of 0x4f0d, poly_of 0x5e76, poly_of 0xb66, poly_of 0xd73, poly_of 0x5679,
      poly_of 0x52e],
     [poly_of 0xd984, poly_of 0x8ab2, poly_of 0x8c02, poly_of 0xe921, poly_of 0x4310,
      poly_of 0xa615, poly_of 0xa4f1, poly_of 0xe605, poly_of 0x7f2, poly_of 0xf950,
      poly_of 0xc407, poly_of 0xe797, poly_of 0xf1a9, poly_of 0x5a2, poly_of 0x7758,
      poly_of 0x59],
     [poly_of 0xb421, poly_of 0xe316, poly_of 0xb110, poly_of 0xc06, poly_of 0xe6d2,
      poly_of 0xcb4d, poly_of 0x47d9, poly_of 0xce1, poly_of 0xef5c, poly_of 0x38bb,
      poly_of 0x9469, poly_of 0xc56d, poly_of 0x2dc5, poly_of 0xf8a2, poly_of 0x9818,
      poly_of 0x5575],
     [poly_of 0x1a0b, poly_of 0xd5c0, poly_of 0x9f82, poly_of 0x8e9c, poly_of 0x94c8,
      poly_of 0x55eb, poly_of 0xdc2a, poly_of 0xf537, poly_of 0xc7d9, poly_of 0xc2e7,
      poly_of 0x8641, poly_of 0x4890, poly_of 0x1501, poly_of 0x59a9, poly_of 0xcf54,
      poly_of 0xb7e0],
     [poly_of 0x9f5a, poly_of 0xf0cc, poly_of 0x5dc2, poly_of 0x98b0, poly_of 0x9a73,
      poly_of 0xcf84, poly_of 0xc620, poly_of 0xa427, poly_of 0x564f, poly_of 0x5383,
      poly_of 0xaa8c, poly_of 0x80be, poly_of 0x892e, poly_of 0xbdaf, poly_of 0xea63,
      poly_of 0x3a74],
     [poly_of 0x1fb6, poly_of 0x5236, poly_of 0xe174, poly_of 0xb6e4, poly_of 0x3899,
      poly_of 0xb777, poly_of 0x4310, poly_of 0x5fb5, poly_of 0xb966, poly_of 0x8e34,
      poly_of 0x6d, poly_of 0x77be, poly_of 0x5206, poly_of 0xa1bd, poly_of 0x55ec,
      poly_of 0x1f7e],
     [poly_of 0x7b6, poly_of 0xb3c5, poly_of 0x827d, poly_of 0x32c2, poly_of 0xe2a7,
      poly_of 0xcf0d, poly_of 0xdf6a, poly_of 0xf993, poly_of 0x9af4, poly_of 0x56ed,
      poly_of 0x98ec, poly_of 0x7e31, poly_of 0xe0b1, poly_of 0x789a, poly_of 0x606b,
      poly_of 0xe23a],
     [poly_of 0xfd02, poly_of 0x12cb, poly_of 0xc0, poly_of 0x8cf3, poly_of 0x2413,
      poly_of 0x5083, poly_of 0x1848, poly_of 0x70e9, poly_of 0xe670, poly_of 0xebae,
      poly_of 0x7103, poly_of 0x2c12, poly_of 0x80a1, poly_of 0x5608, poly_of 0x51a8,
      poly_of 0xfac4],
     [poly_of 0x9243, poly_of 0xa49d, poly_of 0xc29f, poly_of 0xa1a9, poly_of 0x7365,
      poly_of 0x98b8, poly_of 0xf774, poly_of 0xc280, poly_of 0x472b, poly_of 0xa8d5,
      poly_of 0x109c, poly_of 0x7123, poly_of 0xa734, poly_of 0xa86f, poly_of 0xd8a3,
      poly_of 0x845e],
     [poly_of 0xe3d3, poly_of 0xa02b, poly_of 0x3c2c, poly_of 0x1f58, poly_of 0x89b9,
      poly_of 0x5634, poly_of 0xdd57, poly_of 0x1b7, poly_of 0xf2e9, poly_of 0x6b71,
      poly_of 0xdaa6, poly_of 0x5150, poly_of 0x424f, poly_of 0xcac9, poly_of 0x2570,
      poly_of 0xde2e],
     [poly_of 0x9002, poly_of 0x6113, poly_of 0xdbbd, poly_of 0x13de, poly_of 0x78e2,
      poly_of 0x6703, poly_of 0x2aa0, poly_of 0xd279, poly_of 0x92bb, poly_of 0x9f62,
      poly_of 0xbbfd, poly_of 0xb57f, poly_of 0xa59e, poly_of 0x2e70, poly_of 0x77bc,
      poly_of 0xe957] ]
    (bkryB 16 (blt jump_seed)) (replicate 256 False)
    (replicate 0 False) (replicate 256 False)"
  by (simp only: eval_rules)

lemma span_rows_32:
  "chk
    [ [poly_of 0xbdf6, poly_of 0xa9c9, poly_of 0xf057, poly_of 0xed60, poly_of 0xe539,
      poly_of 0x5be0, poly_of 0x2b0c, poly_of 0x1760, poly_of 0xe385, poly_of 0xfce5,
      poly_of 0x594b, poly_of 0x16aa, poly_of 0xcbd4, poly_of 0x4901, poly_of 0x44a,
      poly_of 0x5691],
     [poly_of 0xa306, poly_of 0xa409, poly_of 0x6adb, poly_of 0x26a7, poly_of 0xcfd0,
      poly_of 0xc39c, poly_of 0x89d5, poly_of 0xc944, poly_of 0x9b00, poly_of 0x8c6d,
      poly_of 0x5164, poly_of 0xcb10, poly_of 0xf0a4, poly_of 0x1b67, poly_of 0xa7cd,
      poly_of 0x1f62],
     [poly_of 0xe324, poly_of 0x7d2c, poly_of 0x9284, poly_of 0xf63, poly_of 0xa774,
      poly_of 0xc079, poly_of 0xb5d, poly_of 0x65fb, poly_of 0x9a4b, poly_of 0x9111,
      poly_of 0x158, poly_of 0x1ac5, poly_of 0x3384, poly_of 0x1b2e, poly_of 0x110a,
      poly_of 0x5bf0],
     [poly_of 0xc432, poly_of 0xa952, poly_of 0xf5f8, poly_of 0x33ea, poly_of 0xbf47,
      poly_of 0xcf3d, poly_of 0x7cb1, poly_of 0xd6ab, poly_of 0x3999, poly_of 0x8d03,
      poly_of 0x5e9c, poly_of 0x1a07, poly_of 0xde75, poly_of 0x398f, poly_of 0xfbb2,
      poly_of 0xa9ce],
     [poly_of 0x41a9, poly_of 0x28ee, poly_of 0x5770, poly_of 0xc585, poly_of 0x4bb9,
      poly_of 0x893f, poly_of 0x83b0, poly_of 0x116e, poly_of 0xec99, poly_of 0xcbdb,
      poly_of 0x5cfa, poly_of 0x509, poly_of 0x283f, poly_of 0x1801, poly_of 0xa737,
      poly_of 0x8197],
     [poly_of 0x926, poly_of 0x74f0, poly_of 0x9b9c, poly_of 0x5a6b, poly_of 0x7c06,
      poly_of 0x346d, poly_of 0x5f79, poly_of 0xfe2d, poly_of 0xa271, poly_of 0xfb58,
      poly_of 0x4d65, poly_of 0xc1ad, poly_of 0x156f, poly_of 0x840, poly_of 0xb69a,
      poly_of 0xc3cf],
     [poly_of 0xff7d, poly_of 0xd5e7, poly_of 0x5139, poly_of 0xee6c, poly_of 0x4526,
      poly_of 0xd805, poly_of 0xd073, poly_of 0xae5c, poly_of 0xc158, poly_of 0x282a,
      poly_of 0x5234, poly_of 0x3f31, poly_of 0xfde2, poly_of 0xfec3, poly_of 0xa7f8,
      poly_of 0x442f],
     [poly_of 0xede6, poly_of 0xca45, poly_of 0x7c5f, poly_of 0xef89, poly_of 0xc47b,
      poly_of 0x1447, poly_of 0xda66, poly_of 0xd803, poly_of 0xf53b, poly_of 0xdde4,
      poly_of 0xbc7b, poly_of 0xc8c3, poly_of 0xa917, poly_of 0x4c4e, poly_of 0xfa10,
      poly_of 0xc5cc],
     [poly_of 0x4bde, poly_of 0xf634, poly_of 0x6d75, poly_of 0x78b9, poly_of 0x37de,
      poly_of 0x5152, poly_of 0xf5b3, poly_of 0xeeec, poly_of 0x30fd, poly_of 0xf2ab,
      poly_of 0xd551, poly_of 0x68be, poly_of 0xb468, poly_of 0xacd1, poly_of 0x748f,
      poly_of 0x3541],
     [poly_of 0x8d83, poly_of 0x48fd, poly_of 0x3bb0, poly_of 0x7940, poly_of 0x34,
      poly_of 0x2ebb, poly_of 0x6b46, poly_of 0xed61, poly_of 0xa007, poly_of 0x2f49,
      poly_of 0xa172, poly_of 0xeff7, poly_of 0x2235, poly_of 0x2d28, poly_of 0x7d79,
      poly_of 0xd90a],
     [poly_of 0x6bb6, poly_of 0xb721, poly_of 0xe38e, poly_of 0xec1d, poly_of 0x3fbc,
      poly_of 0x4504, poly_of 0xa6c8, poly_of 0x900c, poly_of 0x717, poly_of 0x380,
      poly_of 0x52ad, poly_of 0xf3dd, poly_of 0x32a9, poly_of 0xd9b6, poly_of 0x81c6,
      poly_of 0x934c],
     [poly_of 0x7531, poly_of 0xaa6c, poly_of 0xad8a, poly_of 0xb55d, poly_of 0x613e,
      poly_of 0x49c4, poly_of 0xb42b, poly_of 0x3191, poly_of 0xcbeb, poly_of 0x7a70,
      poly_of 0x11ad, poly_of 0x60f7, poly_of 0x5db1, poly_of 0x592a, poly_of 0x87dd,
      poly_of 0x1ffb],
     [poly_of 0x4ff9, poly_of 0x1583, poly_of 0x3720, poly_of 0x30ad, poly_of 0xd1c2,
      poly_of 0x26a4, poly_of 0xc6dd, poly_of 0x44b7, poly_of 0x287e, poly_of 0xbd70,
      poly_of 0xe95b, poly_of 0x46d1, poly_of 0xf28b, poly_of 0xca38, poly_of 0x1fad,
      poly_of 0xdf15],
     [poly_of 0xbc30, poly_of 0xaf15, poly_of 0x6e0, poly_of 0xaa7b, poly_of 0xc94,
      poly_of 0xe943, poly_of 0x8c34, poly_of 0xf527, poly_of 0xb174, poly_of 0x6a8,
      poly_of 0x725, poly_of 0xab04, poly_of 0x9508, poly_of 0x889e, poly_of 0x601d,
      poly_of 0x784d],
     [poly_of 0xf508, poly_of 0xcbb0, poly_of 0xf0db, poly_of 0x53b9, poly_of 0xe3dc,
      poly_of 0xe525, poly_of 0x8d21, poly_of 0xf4a9, poly_of 0xb8dc, poly_of 0xe954,
      poly_of 0x3d87, poly_of 0x860b, poly_of 0x2977, poly_of 0xc696, poly_of 0x6530,
      poly_of 0xece6],
     [poly_of 0x52c9, poly_of 0x2faf, poly_of 0xf82e, poly_of 0x20c0, poly_of 0xb74d,
      poly_of 0xf6c3, poly_of 0x2620, poly_of 0xfd36, poly_of 0x3955, poly_of 0x6fd5,
      poly_of 0x23bd, poly_of 0x1ab8, poly_of 0x26f5, poly_of 0x856a, poly_of 0x6660,
      poly_of 0x110d],
     [poly_of 0x1033, poly_of 0x686b, poly_of 0xbd5c, poly_of 0x3d90, poly_of 0xf9d9,
      poly_of 0x3dcb, poly_of 0x593c, poly_of 0xc92c, poly_of 0x8b6c, poly_of 0x61b4,
      poly_of 0x7695, poly_of 0xc917, poly_of 0x2045, poly_of 0x7e05, poly_of 0x1e8f,
      poly_of 0x1373],
     [poly_of 0x277f, poly_of 0x5551, poly_of 0xa8ea, poly_of 0xa114, poly_of 0xc1f8,
      poly_of 0xeeec, poly_of 0x8f67, poly_of 0x1ce3, poly_of 0xb4d2, poly_of 0xa1e8,
      poly_of 0xa32e, poly_of 0x1ee7, poly_of 0x89ea, poly_of 0x37a9, poly_of 0x18d7,
      poly_of 0xe136],
     [poly_of 0x5807, poly_of 0x84c4, poly_of 0x4244, poly_of 0xf9e7, poly_of 0x4e,
      poly_of 0x7dc3, poly_of 0x4aac, poly_of 0x2df2, poly_of 0x6345, poly_of 0xce4b,
      poly_of 0x3ccd, poly_of 0x2e6c, poly_of 0xddf2, poly_of 0x1d30, poly_of 0xd284,
      poly_of 0xe3b5],
     [poly_of 0xe98b, poly_of 0xbb4b, poly_of 0x2745, poly_of 0xce5a, poly_of 0x6cf8,
      poly_of 0x6322, poly_of 0xcfb8, poly_of 0xd993, poly_of 0xa23f, poly_of 0x22eb,
      poly_of 0x286f, poly_of 0x2ee3, poly_of 0xe93a, poly_of 0xfc89, poly_of 0xb22c,
      poly_of 0xb84c],
     [poly_of 0x5350, poly_of 0xc05e, poly_of 0x494c, poly_of 0xb4fc, poly_of 0xaf1,
      poly_of 0xc541, poly_of 0x8321, poly_of 0x3cf0, poly_of 0x63a3, poly_of 0xc7ff,
      poly_of 0x83a3, poly_of 0x56b8, poly_of 0x76f9, poly_of 0x9d44, poly_of 0x583,
      poly_of 0xdd16],
     [poly_of 0xd8d4, poly_of 0x7000, poly_of 0x19d, poly_of 0x853d, poly_of 0x383d,
      poly_of 0x9b08, poly_of 0x82b3, poly_of 0x9900, poly_of 0x8f49, poly_of 0xe960,
      poly_of 0x6220, poly_of 0xb3a0, poly_of 0x8d9e, poly_of 0xef8a, poly_of 0xe347,
      poly_of 0xc1a8],
     [poly_of 0x3345, poly_of 0xa693, poly_of 0xbfa7, poly_of 0x727, poly_of 0xa398,
      poly_of 0x18e, poly_of 0x7574, poly_of 0xe0bb, poly_of 0xc995, poly_of 0x7790,
      poly_of 0xb80f, poly_of 0xd5e6, poly_of 0xd3f3, poly_of 0x7d01, poly_of 0xa53b,
      poly_of 0xcbd1],
     [poly_of 0xfba3, poly_of 0xf17d, poly_of 0x2e31, poly_of 0xbb90, poly_of 0x5c93,
      poly_of 0x6448, poly_of 0xd27d, poly_of 0xa17f, poly_of 0xe6bd, poly_of 0x4347,
      poly_of 0x5db7, poly_of 0x6262, poly_of 0x7e7b, poly_of 0x18c8, poly_of 0xdcc,
      poly_of 0x2e43],
     [poly_of 0x51d, poly_of 0xfbf8, poly_of 0x643c, poly_of 0x3edb, poly_of 0x8a17,
      poly_of 0x51fe, poly_of 0x58f8, poly_of 0xb82d, poly_of 0x807c, poly_of 0x84f7,
      poly_of 0xde3b, poly_of 0x4e10, poly_of 0xe60a, poly_of 0x367a, poly_of 0xe8ce,
      poly_of 0xd356],
     [poly_of 0xfe56, poly_of 0xac97, poly_of 0xb504, poly_of 0x4e31, poly_of 0x4d14,
      poly_of 0x8b52, poly_of 0x949c, poly_of 0xdb16, poly_of 0x2134, poly_of 0xa69d,
      poly_of 0x524a, poly_of 0xab2, poly_of 0x6900, poly_of 0x2122, poly_of 0x159d,
      poly_of 0x1318],
     [poly_of 0x8bb7, poly_of 0x7fad, poly_of 0x2906, poly_of 0x3be4, poly_of 0x144a,
      poly_of 0x997e, poly_of 0x2f1, poly_of 0xba2d, poly_of 0xc9ec, poly_of 0xd28a,
      poly_of 0x6779, poly_of 0x302b, poly_of 0x4e3, poly_of 0xc148, poly_of 0x4963,
      poly_of 0x4eac],
     [poly_of 0x7f5, poly_of 0x44bf, poly_of 0xca91, poly_of 0xbd7b, poly_of 0x88d7,
      poly_of 0x7603, poly_of 0xafa2, poly_of 0x5cb2, poly_of 0xa0f3, poly_of 0xc459,
      poly_of 0x5e18, poly_of 0x493f, poly_of 0x4023, poly_of 0xeb2a, poly_of 0xa1ba,
      poly_of 0x26fe],
     [poly_of 0x5807, poly_of 0xf5d4, poly_of 0xf582, poly_of 0xc974, poly_of 0x2b94,
      poly_of 0xfd7b, poly_of 0xa09b, poly_of 0xcc72, poly_of 0xc050, poly_of 0x7732,
      poly_of 0x6041, poly_of 0x663b, poly_of 0x81dc, poly_of 0x8f76, poly_of 0xda57,
      poly_of 0xd20e],
     [poly_of 0x818d, poly_of 0xd9a2, poly_of 0xc159, poly_of 0x75da, poly_of 0x4960,
      poly_of 0x4bea, poly_of 0x656f, poly_of 0x7ae8, poly_of 0x97ec, poly_of 0xe665,
      poly_of 0x39bb, poly_of 0x9075, poly_of 0xb016, poly_of 0xc0e, poly_of 0x6a96,
      poly_of 0xe928],
     [poly_of 0x4901, poly_of 0x63c, poly_of 0x7f12, poly_of 0x84b9, poly_of 0x8a85,
      poly_of 0xffad, poly_of 0x495b, poly_of 0xf244, poly_of 0xc44e, poly_of 0x29a5,
      poly_of 0xa9de, poly_of 0x2b49, poly_of 0x136f, poly_of 0x2f75, poly_of 0x7d75,
      poly_of 0x884c],
     [poly_of 0xcb91, poly_of 0x9a9c, poly_of 0xdb4e, poly_of 0xef97, poly_of 0x34ab,
      poly_of 0xd83f, poly_of 0xfdd4, poly_of 0x5734, poly_of 0x975c, poly_of 0x7ad2,
      poly_of 0xb918, poly_of 0xf10a, poly_of 0x86cd, poly_of 0x91ac, poly_of 0xa880,
      poly_of 0xb2de] ]
    (bkryB 16 (blt jump_seed)) (replicate 256 False)
    (replicate 32 False) (replicate 224 False)"
  by (simp only: eval_rules)

lemma span_rows_64:
  "chk
    [ [poly_of 0x7802, poly_of 0xd878, poly_of 0xb795, poly_of 0x4e88, poly_of 0x8d2f,
      poly_of 0xe77e, poly_of 0x15, poly_of 0x8140, poly_of 0xcfc2, poly_of 0x9312,
      poly_of 0x76e7, poly_of 0x825a, poly_of 0x658c, poly_of 0x1f9f, poly_of 0xe01e,
      poly_of 0x8001],
     [poly_of 0xa4aa, poly_of 0x19ad, poly_of 0xd5f, poly_of 0x60cb, poly_of 0xef1c,
      poly_of 0xbef5, poly_of 0xa220, poly_of 0x6598, poly_of 0xc4ee, poly_of 0xf2f9,
      poly_of 0xc53d, poly_of 0x7f6d, poly_of 0xa187, poly_of 0xa93c, poly_of 0xad36,
      poly_of 0x1cf5],
     [poly_of 0x980e, poly_of 0x8ef2, poly_of 0x8b9e, poly_of 0x65d2, poly_of 0x77fa,
      poly_of 0x404, poly_of 0x6aab, poly_of 0x8f01, poly_of 0x5351, poly_of 0x168a,
      poly_of 0xa84, poly_of 0x3f5c, poly_of 0xf1c3, poly_of 0x116a, poly_of 0xeab5,
      poly_of 0x932e],
     [poly_of 0x6951, poly_of 0x2a38, poly_of 0x6e95, poly_of 0x30c5, poly_of 0xb45e,
      poly_of 0x7a7d, poly_of 0x888f, poly_of 0x66fe, poly_of 0x2651, poly_of 0x3359,
      poly_of 0x4dca, poly_of 0x60cc, poly_of 0x2516, poly_of 0x72f6, poly_of 0xc9c5,
      poly_of 0xf00b],
     [poly_of 0xa74f, poly_of 0xa025, poly_of 0xda35, poly_of 0xd246, poly_of 0xc429,
      poly_of 0xfd6e, poly_of 0xfcc2, poly_of 0x46e6, poly_of 0x4c15, poly_of 0x43a3,
      poly_of 0xb47c, poly_of 0x97f9, poly_of 0x331a, poly_of 0xbfdf, poly_of 0x97fa,
      poly_of 0xd12e],
     [poly_of 0x6096, poly_of 0x8805, poly_of 0xd76c, poly_of 0x880b, poly_of 0x4a64,
      poly_of 0xfb43, poly_of 0x7dd9, poly_of 0x1cae, poly_of 0xc124, poly_of 0x2a68,
      poly_of 0xfc28, poly_of 0xf67, poly_of 0x9429, poly_of 0x47, poly_of 0xc130,
      poly_of 0x6bfd],
     [poly_of 0xee07, poly_of 0xe20b, poly_of 0x6a3f, poly_of 0x3ac8, poly_of 0x57d0,
      poly_of 0x7919, poly_of 0xa04b, poly_of 0xe5c1, poly_of 0x2103, poly_of 0x91a0,
      poly_of 0x7971, poly_of 0xedcd, poly_of 0xa490, poly_of 0x32b6, poly_of 0xe26f,
      poly_of 0x39f6],
     [poly_of 0xdb81, poly_of 0xf191, poly_of 0x55c5, poly_of 0x81a4, poly_of 0xda51,
      poly_of 0x7115, poly_of 0x6880, poly_of 0xff8c, poly_of 0xe002, poly_of 0x5733,
      poly_of 0x8142, poly_of 0xb6e4, poly_of 0x7251, poly_of 0x66ea, poly_of 0x2494,
      poly_of 0x4cd8],
     [poly_of 0xc1d, poly_of 0xe2a3, poly_of 0x209f, poly_of 0x7e8d, poly_of 0x66e6,
      poly_of 0x94ad, poly_of 0x12c3, poly_of 0x201a, poly_of 0xc1a9, poly_of 0x68cd,
      poly_of 0x61a6, poly_of 0xd985, poly_of 0x499d, poly_of 0x604e, poly_of 0x8b53,
      poly_of 0x14d4],
     [poly_of 0x31e, poly_of 0xed89, poly_of 0x3b99, poly_of 0x9e58, poly_of 0xcd84,
      poly_of 0x938d, poly_of 0x44d9, poly_of 0x317e, poly_of 0x8959, poly_of 0xa3fd,
      poly_of 0x25b3, poly_of 0x36be, poly_of 0x1c3b, poly_of 0xcd9, poly_of 0x8369,
      poly_of 0xcaa4],
     [poly_of 0x1e3, poly_of 0xede1, poly_of 0xfea0, poly_of 0x9dca, poly_of 0xccb2,
      poly_of 0xb07b, poly_of 0xeddb, poly_of 0xc763, poly_of 0xe199, poly_of 0xa893,
      poly_of 0x3cd3, poly_of 0xd87b, poly_of 0x77d7, poly_of 0xd7d7, poly_of 0xbf86,
      poly_of 0xf4c],
     [poly_of 0x6db6, poly_of 0x176d, poly_of 0xd264, poly_of 0xc9dd, poly_of 0xaa2b,
      poly_of 0xe744, poly_of 0x6be8, poly_of 0xc48f, poly_of 0x70e1, poly_of 0x8484,
      poly_of 0xe69, poly_of 0xb1f, poly_of 0xc89, poly_of 0x824f, poly_of 0x87e3,
      poly_of 0x5ec9],
     [poly_of 0xd118, poly_of 0x87a3, poly_of 0xa782, poly_of 0xce3e, poly_of 0x5e44,
      poly_of 0x3eb6, poly_of 0x6e17, poly_of 0xa8e0, poly_of 0x9b1, poly_of 0x2615,
      poly_of 0x638a, poly_of 0x3b46, poly_of 0x7880, poly_of 0x4216, poly_of 0x9ef4,
      poly_of 0xd337],
     [poly_of 0xc21d, poly_of 0xadad, poly_of 0xd1, poly_of 0xec7d, poly_of 0xda5a,
      poly_of 0x3556, poly_of 0xd4c7, poly_of 0x4f58, poly_of 0xcd76, poly_of 0x7953,
      poly_of 0xf8bc, poly_of 0x6791, poly_of 0x1044, poly_of 0x916b, poly_of 0xc75d,
      poly_of 0x6617],
     [poly_of 0xd2e3, poly_of 0x57c3, poly_of 0x785b, poly_of 0x3f8, poly_of 0x3005,
      poly_of 0xbb11, poly_of 0x7ffe, poly_of 0x589f, poly_of 0xba67, poly_of 0xa98b,
      poly_of 0x30c7, poly_of 0x1df1, poly_of 0xa4c5, poly_of 0x845f, poly_of 0x2b3e,
      poly_of 0x1fb4],
     [poly_of 0x4502, poly_of 0x6f58, poly_of 0xd131, poly_of 0xe9a4, poly_of 0xd0c,
      poly_of 0x844a, poly_of 0xf1b0, poly_of 0x1a66, poly_of 0xa610, poly_of 0x2c16,
      poly_of 0x4815, poly_of 0xbfc6, poly_of 0xa1ad, poly_of 0x9780, poly_of 0xfb0f,
      poly_of 0x3596],
     [poly_of 0x9e08, poly_of 0x2191, poly_of 0x83da, poly_of 0x378f, poly_of 0x384f,
      poly_of 0x853c, poly_of 0xe12d, poly_of 0xb419, poly_of 0x1545, poly_of 0x9f6c,
      poly_of 0x9bcc, poly_of 0x582a, poly_of 0x9269, poly_of 0x7525, poly_of 0x2e50,
      poly_of 0xed20],
     [poly_of 0x7087, poly_of 0x9494, poly_of 0x7998, poly_of 0x1238, poly_of 0xc8b5,
      poly_of 0x4526, poly_of 0x88e7, poly_of 0x6462, poly_of 0x6b75, poly_of 0x847a,
      poly_of 0x7eaf, poly_of 0xa089, poly_of 0xba87, poly_of 0xb9b, poly_of 0x6a74,
      poly_of 0x957b],
     [poly_of 0x32da, poly_of 0x4ceb, poly_of 0x49c4, poly_of 0x1299, poly_of 0x7f09,
      poly_of 0xcd2d, poly_of 0x8385, poly_of 0x5f40, poly_of 0x9742, poly_of 0x2c9,
      poly_of 0x8b1e, poly_of 0x1085, poly_of 0x818f, poly_of 0x1350, poly_of 0x90ac,
      poly_of 0x2eb7],
     [poly_of 0xfba9, poly_of 0x6940, poly_of 0x2938, poly_of 0x695e, poly_of 0x4647,
      poly_of 0x2142, poly_of 0x9d85, poly_of 0x894f, poly_of 0xfae3, poly_of 0x2b2f,
      poly_of 0x11de, poly_of 0x7022, poly_of 0xe7d8, poly_of 0xe527, poly_of 0xfcc1,
      poly_of 0xc22e],
     [poly_of 0x2b7, poly_of 0x7fba, poly_of 0x3dc4, poly_of 0xaf80, poly_of 0x48ce,
      poly_of 0xc5ed, poly_of 0x2882, poly_of 0x974a, poly_of 0xf632, poly_of 0x2ffa,
      poly_of 0x2b1e, poly_of 0xc7ab, poly_of 0x72c4, poly_of 0x8619, poly_of 0xcd89,
      poly_of 0xe6c2],
     [poly_of 0xc025, poly_of 0x848e, poly_of 0x61ef, poly_of 0x360d, poly_of 0xa6ae,
      poly_of 0xb003, poly_of 0x86f5, poly_of 0xed10, poly_of 0x2885, poly_of 0xa74c,
      poly_of 0xcf7a, poly_of 0x118d, poly_of 0xf6f3, poly_of 0x83c0, poly_of 0x67d0,
      poly_of 0x88ca],
     [poly_of 0xdfca, poly_of 0x503c, poly_of 0xde04, poly_of 0xa6d3, poly_of 0x27a9,
      poly_of 0x9f20, poly_of 0x9b9b, poly_of 0xbf09, poly_of 0xc1c, poly_of 0xe08,
      poly_of 0x6a0c, poly_of 0x3ce4, poly_of 0x9b87, poly_of 0x994, poly_of 0x551c,
      poly_of 0x9e],
     [poly_of 0x4a52, poly_of 0x6fde, poly_of 0x8d3c, poly_of 0x5086, poly_of 0xb3e2,
      poly_of 0x9443, poly_of 0x2c4a, poly_of 0x9ef2, poly_of 0xe6d4, poly_of 0x7e38,
      poly_of 0x9401, poly_of 0xea37, poly_of 0x28e5, poly_of 0x928a, poly_of 0x1c23,
      poly_of 0x50],
     [poly_of 0xb112, poly_of 0xa9e8, poly_of 0xa87a, poly_of 0x89ee, poly_of 0x7484,
      poly_of 0xa8a1, poly_of 0x567f, poly_of 0x9334, poly_of 0x3c18, poly_of 0xd18b,
      poly_of 0xd48b, poly_of 0xb387, poly_of 0xe17, poly_of 0xbf27, poly_of 0xd920,
      poly_of 0xb433],
     [poly_of 0x7119, poly_of 0x99ff, poly_of 0x9564, poly_of 0xfd38, poly_of 0x79de,
      poly_of 0xf8cb, poly_of 0x6f51, poly_of 0x9a5c, poly_of 0x7b8, poly_of 0x8ec7,
      poly_of 0x5e, poly_of 0x4122, poly_of 0xd6ca, poly_of 0xa588, poly_of 0xa1f6,
      poly_of 0x69d3],
     [poly_of 0x30b7, poly_of 0x8d77, poly_of 0xb252, poly_of 0xb6bb, poly_of 0xed7f,
      poly_of 0x3555, poly_of 0x27a9, poly_of 0x90b0, poly_of 0x2e7f, poly_of 0xdb73,
      poly_of 0xed, poly_of 0xd4a3, poly_of 0xd0f, poly_of 0x13a4, poly_of 0x812f,
      poly_of 0x3143],
     [poly_of 0x7cb6, poly_of 0xe98, poly_of 0x2aee, poly_of 0x61f5, poly_of 0x2e43,
      poly_of 0x3760, poly_of 0x514b, poly_of 0x8d6e, poly_of 0x6716, poly_of 0xa088,
      poly_of 0x1061, poly_of 0x47cf, poly_of 0x7a23, poly_of 0x7246, poly_of 0x30df,
      poly_of 0xb56a],
     [poly_of 0xf484, poly_of 0x9c02, poly_of 0xeecb, poly_of 0x428e, poly_of 0xc070,
      poly_of 0x47ba, poly_of 0xbc9f, poly_of 0xdb26, poly_of 0x205d, poly_of 0x4af,
      poly_of 0x3749, poly_of 0xca99, poly_of 0x8a0b, poly_of 0xb82b, poly_of 0x4bb8,
      poly_of 0x88e9],
     [poly_of 0x65a6, poly_of 0xf3fd, poly_of 0xbcce, poly_of 0x401e, poly_of 0x4808,
      poly_of 0x54af, poly_of 0x956d, poly_of 0xe781, poly_of 0x7d85, poly_of 0xb0f7,
      poly_of 0x325f, poly_of 0x5c39, poly_of 0x3367, poly_of 0xa449, poly_of 0xfd34,
      poly_of 0xca90],
     [poly_of 0xbe4e, poly_of 0x78ca, poly_of 0xbef1, poly_of 0x6285, poly_of 0xc0df,
      poly_of 0x2ef0, poly_of 0x543b, poly_of 0x74, poly_of 0x4ce1, poly_of 0x566c,
      poly_of 0x4337, poly_of 0x8ce7, poly_of 0x8b2c, poly_of 0xd057, poly_of 0x787b,
      poly_of 0x5349],
     [poly_of 0x1804, poly_of 0xc25e, poly_of 0xb58f, poly_of 0xb343, poly_of 0x57eb,
      poly_of 0x337a, poly_of 0xc03b, poly_of 0x4f4e, poly_of 0xf3af, poly_of 0xd751,
      poly_of 0x47ca, poly_of 0x34f4, poly_of 0xd2eb, poly_of 0x74e7, poly_of 0x949a,
      poly_of 0xa606] ]
    (bkryB 16 (blt jump_seed)) (replicate 256 False)
    (replicate 64 False) (replicate 192 False)"
  by (simp only: eval_rules)

lemma span_rows_96:
  "chk
    [ [poly_of 0xa517, poly_of 0x8777, poly_of 0x9884, poly_of 0x2c71, poly_of 0xb8ef,
      poly_of 0x9a31, poly_of 0x439e, poly_of 0xa570, poly_of 0x36c8, poly_of 0x7b9,
      poly_of 0x9e32, poly_of 0x2601, poly_of 0x7242, poly_of 0xb683, poly_of 0x8ab1,
      poly_of 0x866a],
     [poly_of 0x978f, poly_of 0x9a17, poly_of 0x60da, poly_of 0x5e1d, poly_of 0xf848,
      poly_of 0x66f7, poly_of 0x5741, poly_of 0xf62b, poly_of 0xfb81, poly_of 0x5eed,
      poly_of 0x8a7b, poly_of 0xf3a8, poly_of 0x191b, poly_of 0xbb7c, poly_of 0x1c7c,
      poly_of 0x3174],
     [poly_of 0xb7da, poly_of 0xc4cf, poly_of 0xec4a, poly_of 0x1976, poly_of 0x9d52,
      poly_of 0x60cf, poly_of 0x9315, poly_of 0x790b, poly_of 0xf9b3, poly_of 0x6aab,
      poly_of 0x821d, poly_of 0x38e8, poly_of 0x7eca, poly_of 0x3bcb, poly_of 0x2a91,
      poly_of 0x9a18],
     [poly_of 0x1a7c, poly_of 0xb6fc, poly_of 0xfe26, poly_of 0x6331, poly_of 0xbb73,
      poly_of 0xb718, poly_of 0x4710, poly_of 0x4483, poly_of 0x707a, poly_of 0x7aa2,
      poly_of 0xffb8, poly_of 0xbdb9, poly_of 0x98c9, poly_of 0x50e6, poly_of 0x4a81,
      poly_of 0x779],
     [poly_of 0x2b87, poly_of 0x2d23, poly_of 0xdde6, poly_of 0xba51, poly_of 0xa5de,
      poly_of 0x7f62, poly_of 0x4687, poly_of 0x29aa, poly_of 0x7f39, poly_of 0x476d,
      poly_of 0x8ca0, poly_of 0xe78, poly_of 0x6af4, poly_of 0x9ca3, poly_of 0xbdd7,
      poly_of 0xc3e6],
     [poly_of 0xe6de, poly_of 0x6368, poly_of 0x95dd, poly_of 0x4f3, poly_of 0x5c51,
      poly_of 0x3c11, poly_of 0x1165, poly_of 0x1cc, poly_of 0x8a5e, poly_of 0x2d38,
      poly_of 0xd1b6, poly_of 0x6738, poly_of 0xeb71, poly_of 0x2b9e, poly_of 0x7645,
      poly_of 0xe67b],
     [poly_of 0x7944, poly_of 0x9944, poly_of 0x3d7a, poly_of 0xe566, poly_of 0xa5f1,
      poly_of 0xbb76, poly_of 0xc8cb, poly_of 0x8ad7, poly_of 0x2ddf, poly_of 0xd752,
      poly_of 0x7b95, poly_of 0xe3a0, poly_of 0x60b9, poly_of 0x9d79, poly_of 0x7c13,
      poly_of 0x2a49],
     [poly_of 0xdd3e, poly_of 0xc159, poly_of 0x29bb, poly_of 0xb5c7, poly_of 0x7094,
      poly_of 0xec51, poly_of 0x59d4, poly_of 0x5e86, poly_of 0xf6f, poly_of 0x731e,
      poly_of 0x4b05, poly_of 0x7152, poly_of 0xcdbd, poly_of 0x8184, poly_of 0x4914,
      poly_of 0xe97c],
     [poly_of 0xb253, poly_of 0x1772, poly_of 0x6c51, poly_of 0xcd2e, poly_of 0x7453,
      poly_of 0xa0d, poly_of 0x91bf, poly_of 0x2aaf, poly_of 0xf985, poly_of 0x1c03,
      poly_of 0xc00b, poly_of 0xe522, poly_of 0xb2e4, poly_of 0x8fcb, poly_of 0x5358,
      poly_of 0x7022],
     [poly_of 0x55c6, poly_of 0xdd0d, poly_of 0xb206, poly_of 0x1db9, poly_of 0x1703,
      poly_of 0x63a8, poly_of 0x6311, poly_of 0xafb2, poly_of 0xc04b, poly_of 0xfc00,
      poly_of 0x975, poly_of 0xaefa, poly_of 0xfbe4, poly_of 0xec65, poly_of 0xe46c,
      poly_of 0x5e93],
     [poly_of 0x92b6, poly_of 0x8522, poly_of 0x59f1, poly_of 0x3324, poly_of 0x7af9,
      poly_of 0x6677, poly_of 0x1edf, poly_of 0xea9f, poly_of 0x9221, poly_of 0xa0e5,
      poly_of 0xe1c3, poly_of 0x1ae0, poly_of 0xb71e, poly_of 0xe089, poly_of 0x8352,
      poly_of 0x6f3c],
     [poly_of 0xa8fa, poly_of 0xd996, poly_of 0x3a45, poly_of 0x7e9d, poly_of 0x7fcd,
      poly_of 0xd014, poly_of 0xb256, poly_of 0x7aab, poly_of 0x3de1, poly_of 0xdacb,
      poly_of 0xdd6b, poly_of 0xf3cf, poly_of 0xf036, poly_of 0x15e, poly_of 0x2c4a,
      poly_of 0xb00b],
     [poly_of 0xb00f, poly_of 0x494f, poly_of 0x2d6e, poly_of 0xaa95, poly_of 0x5c14,
      poly_of 0xf798, poly_of 0x6eea, poly_of 0x28f4, poly_of 0x1484, poly_of 0x116f,
      poly_of 0xbd32, poly_of 0xa825, poly_of 0x32c6, poly_of 0x51cc, poly_of 0x90af,
      poly_of 0x51a2],
     [poly_of 0xa678, poly_of 0x9a1, poly_of 0x8eb1, poly_of 0x1cb, poly_of 0x9f63,
      poly_of 0xa627, poly_of 0xde73, poly_of 0x90dc, poly_of 0x3a53, poly_of 0x8e05,
      poly_of 0xdd8, poly_of 0x38a, poly_of 0x6095, poly_of 0xd572, poly_of 0x7035,
      poly_of 0xccbc],
     [poly_of 0x6095, poly_of 0xc249, poly_of 0x76f1, poly_of 0x13be, poly_of 0x2c08,
      poly_of 0xf624, poly_of 0xdcf8, poly_of 0x9187, poly_of 0xb252, poly_of 0x26,
      poly_of 0x803, poly_of 0xcba7, poly_of 0x8d4d, poly_of 0xd159, poly_of 0x38c5,
      poly_of 0xafbc],
     [poly_of 0x74f6, poly_of 0x90f1, poly_of 0x3bde, poly_of 0x9f69, poly_of 0x3813,
      poly_of 0x7198, poly_of 0x5f44, poly_of 0x85b7, poly_of 0x21c3, poly_of 0xfb52,
      poly_of 0x2043, poly_of 0x3a76, poly_of 0x3b1c, poly_of 0x57fe, poly_of 0x9fef,
      poly_of 0xaa9d],
     [poly_of 0xd07f, poly_of 0x3c9b, poly_of 0x9383, poly_of 0xab61, poly_of 0x8271,
      poly_of 0x820c, poly_of 0x9ef3, poly_of 0x778e, poly_of 0x9cad, poly_of 0xe0a1,
      poly_of 0x2087, poly_of 0xf4ff, poly_of 0xb525, poly_of 0x5c97, poly_of 0x5247,
      poly_of 0xaf5e],
     [poly_of 0x5540, poly_of 0xe882, poly_of 0xdd1f, poly_of 0xc13a, poly_of 0x747c,
      poly_of 0x32c, poly_of 0xd942, poly_of 0xb476, poly_of 0x638a, poly_of 0xa612,
      poly_of 0xce2, poly_of 0xb452, poly_of 0x79b4, poly_of 0xd426, poly_of 0x1de7,
      poly_of 0x32f5],
     [poly_of 0x140c, poly_of 0x2362, poly_of 0xfd15, poly_of 0x5ca4, poly_of 0x17cb,
      poly_of 0xece4, poly_of 0xb030, poly_of 0x4edd, poly_of 0x276f, poly_of 0xce84,
      poly_of 0xfcd5, poly_of 0xcd00, poly_of 0x7b88, poly_of 0x1458, poly_of 0x6c68,
      poly_of 0x36b3],
     [poly_of 0xafd2, poly_of 0xc3ba, poly_of 0x8597, poly_of 0x2800, poly_of 0x78fc,
      poly_of 0xde56, poly_of 0x7892, poly_of 0xdc2e, poly_of 0xc527, poly_of 0x6195,
      poly_of 0x5fc1, poly_of 0xcc59, poly_of 0x887c, poly_of 0xa7f6, poly_of 0x1d6d,
      poly_of 0xacbd],
     [poly_of 0x7f09, poly_of 0x5063, poly_of 0xd914, poly_of 0x2e97, poly_of 0x8ac5,
      poly_of 0xa6df, poly_of 0x47f8, poly_of 0xe519, poly_of 0xe912, poly_of 0x4a24,
      poly_of 0xab59, poly_of 0x299, poly_of 0x1d97, poly_of 0xcb14, poly_of 0xc9fa,
      poly_of 0xd4a4],
     [poly_of 0x2dc3, poly_of 0xe8f1, poly_of 0xecdf, poly_of 0x55f5, poly_of 0x763b,
      poly_of 0x3569, poly_of 0x4415, poly_of 0xfc01, poly_of 0xc6b2, poly_of 0x8054,
      poly_of 0x189e, poly_of 0x3a24, poly_of 0x96eb, poly_of 0x17ee, poly_of 0x7710,
      poly_of 0xe386],
     [poly_of 0x7729, poly_of 0xf6e7, poly_of 0x7822, poly_of 0xde45, poly_of 0x818d,
      poly_of 0x2a59, poly_of 0x506c, poly_of 0xb2eb, poly_of 0xa7a6, poly_of 0xe1de,
      poly_of 0xb731, poly_of 0xc7d0, poly_of 0xe08b, poly_of 0x6422, poly_of 0xb8c9,
      poly_of 0x7249],
     [poly_of 0x7297, poly_of 0xc23d, poly_of 0xfcee, poly_of 0xe460, poly_of 0x1a41,
      poly_of 0x9dca, poly_of 0x4dd1, poly_of 0x1300, poly_of 0xf1e7, poly_of 0xb43e,
      poly_of 0xe352, poly_of 0xf7af, poly_of 0xa647, poly_of 0x226b, poly_of 0x7d60,
      poly_of 0xcba6],
     [poly_of 0x80b5, poly_of 0xe284, poly_of 0xa2d9, poly_of 0x3142, poly_of 0xc654,
      poly_of 0xa281, poly_of 0x1db2, poly_of 0xaf8c, poly_of 0x9080, poly_of 0x7ea3,
      poly_of 0x4842, poly_of 0x3dc7, poly_of 0x1184, poly_of 0x5769, poly_of 0x85d9,
      poly_of 0x4f04],
     [poly_of 0x387, poly_of 0xf64, poly_of 0xb08b, poly_of 0xbb7b, poly_of 0xbca2,
      poly_of 0x530d, poly_of 0x6377, poly_of 0xdba6, poly_of 0xd2f3, poly_of 0x1e74,
      poly_of 0x8db0, poly_of 0x103d, poly_of 0xe680, poly_of 0xd2d5, poly_of 0x21f4,
      poly_of 0x2fbc],
     [poly_of 0xaab5, poly_of 0x18f5, poly_of 0xf11a, poly_of 0x24b2, poly_of 0xaf9e,
      poly_of 0x193d, poly_of 0x848e, poly_of 0xa80c, poly_of 0x38ed, poly_of 0xdf42,
      poly_of 0xba8, poly_of 0x7a19, poly_of 0x6e3b, poly_of 0x7dab, poly_of 0x5668,
      poly_of 0x3a0f],
     [poly_of 0xf410, poly_of 0xf359, poly_of 0xc7ff, poly_of 0xeac2, poly_of 0x58eb,
      poly_of 0x3078, poly_of 0x880, poly_of 0x967c, poly_of 0x5e5d, poly_of 0x798d,
      poly_of 0x65da, poly_of 0xb4bb, poly_of 0xc5db, poly_of 0xbc5e, poly_of 0xf3b6,
      poly_of 0xde83],
     [poly_of 0x140c, poly_of 0xf9ca, poly_of 0x497a, poly_of 0x25ca, poly_of 0x5592,
      poly_of 0x2dc8, poly_of 0x1144, poly_of 0x7d1c, poly_of 0xb0ce, poly_of 0xe0cb,
      poly_of 0xeb8a, poly_of 0x7985, poly_of 0xedc3, poly_of 0xf9f7, poly_of 0xf9a6,
      poly_of 0x4d18],
     [poly_of 0xcbdd, poly_of 0x371c, poly_of 0x3aa1, poly_of 0x2c1, poly_of 0x2101,
      poly_of 0x1ba2, poly_of 0xf857, poly_of 0x4b64, poly_of 0xb469, poly_of 0x8ace,
      poly_of 0x7482, poly_of 0xee3e, poly_of 0x96b3, poly_of 0x3ebb, poly_of 0xc045,
      poly_of 0x26c6],
     [poly_of 0x3e83, poly_of 0x67ee, poly_of 0x9913, poly_of 0x18b7, poly_of 0x4738,
      poly_of 0x290e, poly_of 0xb624, poly_of 0x1e6a, poly_of 0x3afd, poly_of 0xf2ae,
      poly_of 0x1c7b, poly_of 0x45d9, poly_of 0x1fc, poly_of 0xe9f1, poly_of 0xe472,
      poly_of 0xd4bc],
     [poly_of 0x7aeb, poly_of 0x10ff, poly_of 0x8384, poly_of 0xfb7d, poly_of 0x6473,
      poly_of 0xf5e2, poly_of 0x857d, poly_of 0x633, poly_of 0x3551, poly_of 0x7dfb,
      poly_of 0xb594, poly_of 0x9c7e, poly_of 0xe068, poly_of 0x4b2e, poly_of 0x2563,
      poly_of 0xbcd0] ]
    (bkryB 16 (blt jump_seed)) (replicate 256 False)
    (replicate 96 False) (replicate 160 False)"
  by (simp only: eval_rules)

lemma span_rows_128:
  "chk
    [ [poly_of 0x7801, poly_of 0xd878, poly_of 0xb795, poly_of 0x4e88, poly_of 0x8d2f,
      poly_of 0xe77e, poly_of 0x15, poly_of 0x8140, poly_of 0xcfc2, poly_of 0x9312,
      poly_of 0x76e7, poly_of 0x825a, poly_of 0x658c, poly_of 0x1f9f, poly_of 0xe01e,
      poly_of 0x8001],
     [poly_of 0x9c66, poly_of 0xf764, poly_of 0x4ca, poly_of 0xdfb9, poly_of 0xa50b,
      poly_of 0x95ac, poly_of 0x9e1f, poly_of 0x2377, poly_of 0xbc5a, poly_of 0x51a8,
      poly_of 0xbceb, poly_of 0xd524, poly_of 0x6082, poly_of 0x6714, poly_of 0x9b12,
      poly_of 0xbac],
     [poly_of 0xd805, poly_of 0xea01, poly_of 0x5c6c, poly_of 0xa841, poly_of 0xdb63,
      poly_of 0xb9a8, poly_of 0x267f, poly_of 0x7b7f, poly_of 0x444c, poly_of 0x1065,
      poly_of 0x5d39, poly_of 0xe958, poly_of 0x1649, poly_of 0xe5cc, poly_of 0xe678,
      poly_of 0x8ee4],
     [poly_of 0x7730, poly_of 0x89b8, poly_of 0x95, poly_of 0x9b4c, poly_of 0x65ff,
      poly_of 0x9380, poly_of 0x7863, poly_of 0xdc2a, poly_of 0x68b3, poly_of 0xcd4,
      poly_of 0x6003, poly_of 0xdc28, poly_of 0xa5fa, poly_of 0x3b47, poly_of 0x757,
      poly_of 0xaff8],
     [poly_of 0xcd3a, poly_of 0xf04c, poly_of 0x6cf5, poly_of 0x3acd, poly_of 0x4a2d,
      poly_of 0x1171, poly_of 0xaba7, poly_of 0xc3dd, poly_of 0x4e8f, poly_of 0xdc82,
      poly_of 0x376e, poly_of 0x713b, poly_of 0xa801, poly_of 0x7fa0, poly_of 0xcd42,
      poly_of 0xb0e4],
     [poly_of 0x8f8d, poly_of 0x17ac, poly_of 0x683d, poly_of 0xcf6, poly_of 0x3016,
      poly_of 0x136a, poly_of 0xd4ae, poly_of 0xf5e5, poly_of 0xca60, poly_of 0xfbc4,
      poly_of 0xf0a2, poly_of 0xf94e, poly_of 0xcaef, poly_of 0x1528, poly_of 0xff04,
      poly_of 0xd955],
     [poly_of 0xa02, poly_of 0x31a9, poly_of 0x30c, poly_of 0x62b7, poly_of 0x3b7a,
      poly_of 0x6d5c, poly_of 0x6020, poly_of 0x5d3f, poly_of 0x9582, poly_of 0x6d7c,
      poly_of 0x8c6a, poly_of 0xa728, poly_of 0x2578, poly_of 0xfb78, poly_of 0xe1ce,
      poly_of 0xe8ac],
     [poly_of 0xe680, poly_of 0x3f20, poly_of 0x165a, poly_of 0xb93, poly_of 0x4005,
      poly_of 0x9558, poly_of 0xd866, poly_of 0x54fb, poly_of 0xd57d, poly_of 0x2f0d,
      poly_of 0x247b, poly_of 0x6e30, poly_of 0x9738, poly_of 0xc8b3, poly_of 0x5c67,
      poly_of 0xc449],
     [poly_of 0x40b, poly_of 0x5e61, poly_of 0xe075, poly_of 0xd584, poly_of 0x225d,
      poly_of 0x739b, poly_of 0xe41, poly_of 0x1ff6, poly_of 0xbf67, poly_of 0xd844,
      poly_of 0x209d, poly_of 0x4883, poly_of 0x388b, poly_of 0x203a, poly_of 0x7931,
      poly_of 0xc4c],
     [poly_of 0x10a, poly_of 0xa487, poly_of 0x1688, poly_of 0x75c8, poly_of 0xbb7c,
      poly_of 0x8e84, poly_of 0x3c48, poly_of 0xef2a, poly_of 0x78c8, poly_of 0x9eab,
      poly_of 0xe36e, poly_of 0xed95, poly_of 0xf416, poly_of 0x448, poly_of 0x8127,
      poly_of 0x4663],
     [poly_of 0xaf5e, poly_of 0x34f0, poly_of 0x8f79, poly_of 0xffb6, poly_of 0xb25b,
      poly_of 0x2a7d, poly_of 0x5b50, poly_of 0xbca1, poly_of 0x2a0b, poly_of 0x8592,
      poly_of 0x4f0b, poly_of 0xb445, poly_of 0x9445, poly_of 0x5858, poly_of 0x2a96,
      poly_of 0xfac5],
     [poly_of 0x8b6d, poly_of 0x9d74, poly_of 0x6b3a, poly_of 0xcc44, poly_of 0x902c,
      poly_of 0xe768, poly_of 0x26be, poly_of 0x4205, poly_of 0x5adc, poly_of 0x619f,
      poly_of 0xa162, poly_of 0x566, poly_of 0xbd70, poly_of 0x94d0, poly_of 0x3d4a,
      poly_of 0xca46],
     [poly_of 0x4f08, poly_of 0x7d61, poly_of 0x9d7e, poly_of 0xba15, poly_of 0x35c3,
      poly_of 0x1592, poly_of 0xda0d, poly_of 0x985f, poly_of 0xf890, poly_of 0xe20c,
      poly_of 0x2179, poly_of 0x16c2, poly_of 0xd780, poly_of 0x3e0d, poly_of 0x75ac,
      poly_of 0x4eed],
     [poly_of 0xbe0b, poly_of 0x9b64, poly_of 0xffb0, poly_of 0x5bd4, poly_of 0xb636,
      poly_of 0xeccd, poly_of 0x4c42, poly_of 0x3ac8, poly_of 0x44d2, poly_of 0xd731,
      poly_of 0xa86b, poly_of 0xdd70, poly_of 0xfc3, poly_of 0x70d9, poly_of 0x42cb,
      poly_of 0x220d],
     [poly_of 0xb1a1, poly_of 0x32be, poly_of 0xd7c9, poly_of 0x157, poly_of 0x1003,
      poly_of 0x690f, poly_of 0x2aaa, poly_of 0xc875, poly_of 0x9622, poly_of 0x9886,
      poly_of 0x1042, poly_of 0xf4af, poly_of 0x63bc, poly_of 0x7c35, poly_of 0xe6ea,
      poly_of 0xa93],
     [poly_of 0x9301, poly_of 0xb567, poly_of 0x6a09, poly_of 0xd393, poly_of 0xd31,
      poly_of 0xc66d, poly_of 0xaf76, poly_of 0x85d, poly_of 0x1773, poly_of 0x611,
      poly_of 0x9cb6, poly_of 0x96d1, poly_of 0xd993, poly_of 0x6795, poly_of 0xe911,
      poly_of 0xec8c],
     [poly_of 0x75f8, poly_of 0xe08f, poly_of 0x8149, poly_of 0xed7a, poly_of 0xe83a,
      poly_of 0x7ceb, poly_of 0x5f1b, poly_of 0x93f7, poly_of 0xf33c, poly_of 0x8adb,
      poly_of 0x76bb, poly_of 0x37e6, poly_of 0x8e27, poly_of 0xd31c, poly_of 0xe5cf,
      poly_of 0x5b1f],
     [poly_of 0x7f82, poly_of 0xe3dc, poly_of 0xf26e, poly_of 0x8518, poly_of 0xb1a6,
      poly_of 0x86b6, poly_of 0x87bb, poly_of 0xdda1, poly_of 0x53af, poly_of 0x9e35,
      poly_of 0x8edf, poly_of 0x9c14, poly_of 0x2f75, poly_of 0xec63, poly_of 0x99c7,
      poly_of 0x8cd7],
     [poly_of 0x11b6, poly_of 0xc459, poly_of 0xc743, poly_of 0xf188, poly_of 0x2af8,
      poly_of 0xbb1b, poly_of 0x817c, poly_of 0x353f, poly_of 0x8d3e, poly_of 0x1b8,
      poly_of 0x790a, poly_of 0xf83, poly_of 0x8085, poly_of 0xecf, poly_of 0x7064,
      poly_of 0x1a6d],
     [poly_of 0xa967, poly_of 0x273f, poly_of 0x18e8, poly_of 0xd8ca, poly_of 0x3dc2,
      poly_of 0x1f3e, poly_of 0x7483, poly_of 0x78c5, poly_of 0xa9a1, poly_of 0x191a,
      poly_of 0xf4a, poly_of 0xd01e, poly_of 0xa2b7, poly_of 0x5ce2, poly_of 0xabbf,
      poly_of 0x41e5],
     [poly_of 0xfe6d, poly_of 0xd569, poly_of 0xeb43, poly_of 0x657f, poly_of 0xc7ba,
      poly_of 0xbca4, poly_of 0xe781, poly_of 0x8d39, poly_of 0x5211, poly_of 0xe556,
      poly_of 0xe6f5, poly_of 0xbd66, poly_of 0x2e43, poly_of 0x7df7, poly_of 0x4487,
      poly_of 0x5dbe],
     [poly_of 0x101c, poly_of 0xec2a, poly_of 0xfa43, poly_of 0x990b, poly_of 0x6baf,
      poly_of 0xd5aa, poly_of 0x7db5, poly_of 0xa570, poly_of 0x92ff, poly_of 0x80d8,
      poly_of 0x1e6c, poly_of 0xf317, poly_of 0xeb59, poly_of 0x9455, poly_of 0x9d5b,
      poly_of 0x87b8],
     [poly_of 0xb546, poly_of 0xcfeb, poly_of 0x4a03, poly_of 0x9db1, poly_of 0xe298,
      poly_of 0x751f, poly_of 0x7689, poly_of 0x9507, poly_of 0x40b, poly_of 0x5f8,
      poly_of 0x2604, poly_of 0x145c, poly_of 0x897d, poly_of 0x773, poly_of 0xccf4,
      poly_of 0x75],
     [poly_of 0x9631, poly_of 0x4ae5, poly_of 0x5e0d, poly_of 0x448d, poly_of 0x9894,
      poly_of 0xc995, poly_of 0xe420, poly_of 0x8bd1, poly_of 0xd730, poly_of 0x37f4,
      poly_of 0x28ba, poly_of 0xa581, poly_of 0x5eab, poly_of 0x9b6c, poly_of 0xb40a,
      poly_of 0xffce],
     [poly_of 0x6f0e, poly_of 0x6758, poly_of 0x67d6, poly_of 0x875a, poly_of 0xd383,
      poly_of 0x9860, poly_of 0x322a, poly_of 0x8eec, poly_of 0xebf7, poly_of 0xb086,
      poly_of 0xb386, poly_of 0x6e82, poly_of 0xfa0d, poly_of 0x6ae2, poly_of 0x48e0,
      poly_of 0x6c11],
     [poly_of 0xd0f7, poly_of 0x88aa, poly_of 0x7323, poly_of 0x54e8, poly_of 0xd74a,
      poly_of 0xa846, poly_of 0x2530, poly_of 0x7634, poly_of 0xfd68, poly_of 0x7a42,
      poly_of 0xffca, poly_of 0xc0e1, poly_of 0x4db9, poly_of 0x6378, poly_of 0x9f52,
      poly_of 0x274e],
     [poly_of 0x106d, poly_of 0x7b2d, poly_of 0x91ce, poly_of 0x6d96, poly_of 0xa4d5,
      poly_of 0xeccc, poly_of 0xe298, poly_of 0x706f, poly_of 0xe5d5, poly_of 0x492e,
      poly_of 0x5b, poly_of 0x4c61, poly_of 0xfb05, poly_of 0xf163, poly_of 0x7f1a,
      poly_of 0x10c1],
     [poly_of 0x846d, poly_of 0x6a27, poly_of 0xc343, poly_of 0xaba3, poly_of 0x13f4,
      poly_of 0xa88b, poly_of 0x30df, poly_of 0x855a, poly_of 0x578e, poly_of 0x7d9b,
      poly_of 0x549a, poly_of 0xc129, poly_of 0x90e9, poly_of 0xc4d7, poly_of 0x505e,
      poly_of 0x9327],
     [poly_of 0x383, poly_of 0x1bae, poly_of 0x80a0, poly_of 0x4a8a, poly_of 0xb61a,
      poly_of 0x78c2, poly_of 0x946c, poly_of 0x489d, poly_of 0x9548, poly_of 0x1e79,
      poly_of 0x4982, poly_of 0xba1b, poly_of 0xc0f1, poly_of 0x7d0c, poly_of 0x797c,
      poly_of 0x87a6],
     [poly_of 0x2362, poly_of 0xaeab, poly_of 0x9445, poly_of 0x3ff5, poly_of 0xc7f8,
      poly_of 0x339a, poly_of 0x8cdb, poly_of 0xa280, poly_of 0x2b7c, poly_of 0x6fad,
      poly_of 0xee35, poly_of 0xcbe8, poly_of 0x1122, poly_of 0x63c7, poly_of 0x54ec,
      poly_of 0x4670],
     [poly_of 0x6a3a, poly_of 0x2846, poly_of 0x95af, poly_of 0xde7c, poly_of 0x404a,
      poly_of 0x1a50, poly_of 0x33e9, poly_of 0x2c, poly_of 0xc45f, poly_of 0xcddb,
      poly_of 0xc112, poly_of 0x7ba2, poly_of 0x86e4, poly_of 0xb032, poly_of 0xd7d6,
      poly_of 0x3138],
     [poly_of 0x5803, poly_of 0xd19a, poly_of 0xb663, poly_of 0x1a31, poly_of 0xc493,
      poly_of 0x5482, poly_of 0xbff0, poly_of 0x3b45, poly_of 0xdbe6, poly_of 0x50d3,
      poly_of 0x6603, poly_of 0xefc0, poly_of 0xf751, poly_of 0x3948, poly_of 0xcc62,
      poly_of 0x9dfc] ]
    (bkryB 16 (blt jump_seed)) (replicate 256 False)
    (replicate 128 False) (replicate 128 False)"
  by (simp only: eval_rules)

lemma span_rows_160:
  "chk
    [ [poly_of 0x630d, poly_of 0x7d2d, poly_of 0x887c, poly_of 0x1bd0, poly_of 0x97a5,
      poly_of 0x7610, poly_of 0x3e8a, poly_of 0x9cd0, poly_of 0x1247, poly_of 0x297,
      poly_of 0x75ee, poly_of 0x1dff, poly_of 0x2e3e, poly_of 0x6d81, poly_of 0x866f,
      poly_of 0x7dd9],
     [poly_of 0x7285, poly_of 0x760d, poly_of 0xdfb6, poly_of 0x35f4, poly_of 0xa838,
      poly_of 0x2252, poly_of 0xcd3f, poly_of 0xade6, poly_of 0x5680, poly_of 0xca5b,
      poly_of 0x79d6, poly_of 0xae98, poly_of 0x8f6, poly_of 0x96d4, poly_of 0xf42b,
      poly_of 0x10d3],
     [poly_of 0x92b6, poly_of 0x43ba, poly_of 0x5bc6, poly_of 0x8d2, poly_of 0x74ce,
      poly_of 0x2045, poly_of 0x8ef3, poly_of 0xd706, poly_of 0x576e, poly_of 0xd999,
      poly_of 0x81f4, poly_of 0x17a7, poly_of 0x2a46, poly_of 0x16b9, poly_of 0x198f,
      poly_of 0x7608],
     [poly_of 0xa62b, poly_of 0xfdfb, poly_of 0x8f04, poly_of 0xaa1f, poly_of 0x60e4,
      poly_of 0x28a3, poly_of 0xc2e9, poly_of 0x3dfe, poly_of 0xa555, poly_of 0xcb82,
      poly_of 0xf1d2, poly_of 0x9704, poly_of 0x314f, poly_of 0x2548, poly_of 0x866b,
      poly_of 0xfd29],
     [poly_of 0x197d, poly_of 0xe4e1, poly_of 0x4b5d, poly_of 0x69cf, poly_of 0x634a,
      poly_of 0x2ade, poly_of 0xc27d, poly_of 0x1899, poly_of 0xd517, poly_of 0x3d24,
      poly_of 0x8460, poly_of 0x5d7, poly_of 0xd9ac, poly_of 0x8b9e, poly_of 0x94b2,
      poly_of 0x415d],
     [poly_of 0xdb5, poly_of 0x4e88, poly_of 0x5652, poly_of 0x775e, poly_of 0xc205,
      poly_of 0xae5b, poly_of 0xf0c5, poly_of 0x13b, poly_of 0xf349, poly_of 0x6f4,
      poly_of 0xebd7, poly_of 0x217b, poly_of 0x1fd8, poly_of 0xc60, poly_of 0x6dd7,
      poly_of 0xa228],
     [poly_of 0x78c3, poly_of 0xe76c, poly_of 0xce30, poly_of 0xd7d2, poly_of 0x6a9a,
      poly_of 0xd379, poly_of 0xb85f, poly_of 0x7832, poly_of 0x6e36, poly_of 0xaf2d,
      poly_of 0x8dc9, poly_of 0xa2f3, poly_of 0x669f, poly_of 0x9e3d, poly_of 0x941a,
      poly_of 0xe639],
     [poly_of 0x1b15, poly_of 0x2f67, poly_of 0xc270, poly_of 0x184d, poly_of 0x2646,
      poly_of 0x1e64, poly_of 0x3755, poly_of 0x3402, poly_of 0x8fa6, poly_of 0x3316,
      poly_of 0x6246, poly_of 0x2ca2, poly_of 0xfd9c, poly_of 0x6a69, poly_of 0x8718,
      poly_of 0xa72a],
     [poly_of 0x6e31, poly_of 0xd2e, poly_of 0xdbcf, poly_of 0x44e5, poly_of 0x2c31,
      poly_of 0xf9fb, poly_of 0x8f6a, poly_of 0x199a, poly_of 0xa883, poly_of 0xbfe,
      poly_of 0xbff9, poly_of 0x5ce1, poly_of 0x6e5c, poly_of 0x7ab9, poly_of 0xcec8,
      poly_of 0x2fe1],
     [poly_of 0x3342, poly_of 0xb4fb, poly_of 0x91fd, poly_of 0xb68, poly_of 0xd01,
      poly_of 0xde98, poly_of 0xdef0, poly_of 0x9a91, poly_of 0xbfc6, poly_of 0xabff,
      poly_of 0x72c, poly_of 0x9a56, poly_of 0x56a3, poly_of 0xa423, poly_of 0xa3db,
      poly_of 0x358e],
     [poly_of 0xde6d, poly_of 0xecb1, poly_of 0x1249, poly_of 0x9a13, poly_of 0x2062,
      poly_of 0x6786, poly_of 0xf5ac, poly_of 0x580a, poly_of 0x49c, poly_of 0x8240,
      poly_of 0xfbfb, poly_of 0xa33, poly_of 0x2bfd, poly_of 0xb56d, poly_of 0xc125,
      poly_of 0xdaea],
     [poly_of 0x37a9, poly_of 0x2722, poly_of 0xccda, poly_of 0xa17b, poly_of 0xdc8e,
      poly_of 0xa58, poly_of 0x6e2b, poly_of 0x2819, poly_of 0x61dc, poly_of 0x545a,
      poly_of 0xef9c, poly_of 0x52d6, poly_of 0x16e5, poly_of 0xea20, poly_of 0xa42d,
      poly_of 0x9007],
     [poly_of 0x9005, poly_of 0xc73a, poly_of 0x1b25, poly_of 0x6673, poly_of 0x340c,
      poly_of 0x5288, poly_of 0x25a6, poly_of 0xe7ac, poly_of 0xf383, poly_of 0xf0da,
      poly_of 0x6b11, poly_of 0x67e3, poly_of 0xee42, poly_of 0x30bb, poly_of 0x7065,
      poly_of 0x309e],
     [poly_of 0x6228, poly_of 0xf89f, poly_of 0x8590, poly_of 0xff46, poly_of 0x8ade,
      poly_of 0x9de2, poly_of 0x4a2e, poly_of 0x8fb4, poly_of 0xe9ce, poly_of 0x85fc,
      poly_of 0x4b7, poly_of 0xfe86, poly_of 0xdf8c, poly_of 0x4cd1, poly_of 0xd013,
      poly_of 0x446b],
     [poly_of 0x8f8c, poly_of 0x2e68, poly_of 0x8b6, poly_of 0x7a65, poly_of 0x1232,
      poly_of 0x17b7, poly_of 0x4bb1, poly_of 0x8efd, poly_of 0xe4b2, poly_of 0x1dfe,
      poly_of 0xa344, poly_of 0x450e, poly_of 0x3dcc, poly_of 0xa5dd, poly_of 0x57a8,
      poly_of 0x9a95],
     [poly_of 0x83ad, poly_of 0xe000, poly_of 0x33ac, poly_of 0xfe28, poly_of 0xe1c4,
      poly_of 0x6adc, poly_of 0x3525, poly_of 0x82ed, poly_of 0x6a3d, poly_of 0x4b2d,
      poly_of 0x4484, poly_of 0x15be, poly_of 0x5003, poly_of 0xd840, poly_of 0x354e,
      poly_of 0x998a],
     [poly_of 0xe02a, poly_of 0x8426, poly_of 0x5467, poly_of 0xedd0, poly_of 0x881a,
      poly_of 0xc450, poly_of 0x75b7, poly_of 0x2cfa, poly_of 0x118, poly_of 0x427c,
      poly_of 0xbb38, poly_of 0xafc6, poly_of 0xd5eb, poly_of 0xde98, poly_of 0x71d6,
      poly_of 0x9acb],
     [poly_of 0xccc0, poly_of 0xa781, poly_of 0x4b0a, poly_of 0xbf16, poly_of 0x2c2b,
      poly_of 0xfee4, poly_of 0x48c1, poly_of 0x93d2, poly_of 0x2179, poly_of 0x620e,
      poly_of 0x45e, poly_of 0x93ce, poly_of 0x2893, poly_of 0xb3e2, poly_of 0xf4a2,
      poly_of 0x11ac],
     [poly_of 0xc04, poly_of 0x1ede, poly_of 0x54f3, poly_of 0xcb9c, poly_of 0xd46,
      poly_of 0xa45c, poly_of 0x6fef, poly_of 0x3a4b, poly_of 0x1d25, poly_of 0xba7c,
      poly_of 0x544c, poly_of 0xbb00, poly_of 0xd687, poly_of 0xc37, poly_of 0xdbd8,
      poly_of 0x126e],
     [poly_of 0x654e, poly_of 0xbe96, poly_of 0x8372, poly_of 0xe7ff, poly_of 0xd7ab,
      poly_of 0xb5cd, poly_of 0x2871, poly_of 0xb41a, poly_of 0xbce2, poly_of 0x208c,
      poly_of 0xcabf, poly_of 0xbbc8, poly_of 0x782b, poly_of 0x9d52, poly_of 0xb24,
      poly_of 0x646b],
     [poly_of 0x7af8, poly_of 0xa071, poly_of 0x6dea, poly_of 0x6e82, poly_of 0x8f89,
      poly_of 0x27e1, poly_of 0xc2b1, poly_of 0xa288, poly_of 0xd272, poly_of 0x2400,
      poly_of 0xc272, poly_of 0xfde4, poly_of 0x4d85, poly_of 0x53e6, poly_of 0x742,
      poly_of 0xb39d],
     [poly_of 0xb4be, poly_of 0xc800, poly_of 0x8153, poly_of 0x47a3, poly_of 0x2423,
      poly_of 0x568c, poly_of 0xc3ea, poly_of 0x5580, poly_of 0xc8ed, poly_of 0x9dd0,
      poly_of 0x5330, poly_of 0xea70, poly_of 0xcb51, poly_of 0x184f, poly_of 0x92e4,
      poly_of 0xa17c],
     [poly_of 0xd2e7, poly_of 0xada2, poly_of 0xd7e1, poly_of 0x4a3c, poly_of 0x7f7b,
      poly_of 0xe637, poly_of 0xcfdb, poly_of 0x91a6, poly_of 0x629d, poly_of 0x5f4a,
      poly_of 0x92ef, poly_of 0xbd4f, poly_of 0x5f86, poly_of 0xdc1e, poly_of 0x97b8,
      poly_of 0x2e38],
     [poly_of 0x7e72, poly_of 0xd1bb, poly_of 0x8ebc, poly_of 0x28d0, poly_of 0xfff5,
      poly_of 0x3112, poly_of 0x3b56, poly_of 0xf080, poly_of 0xda21, poly_of 0x71f6,
      poly_of 0x58b, poly_of 0x5109, poly_of 0x24ca, poly_of 0xb33, poly_of 0x6b34,
      poly_of 0xb963],
     [poly_of 0x7f93, poly_of 0x5e7c, poly_of 0x61b7, poly_of 0xef3e, poly_of 0x4233,
      poly_of 0x9e7f, poly_of 0xf491, poly_of 0x657b, poly_of 0x8f80, poly_of 0xd59e,
      poly_of 0xc7c1, poly_of 0xeb42, poly_of 0xf083, poly_of 0x32d8, poly_of 0x7cb7,
      poly_of 0x3afc],
     [poly_of 0x17d, poly_of 0xfadc, poly_of 0x6f86, poly_of 0x6929, poly_of 0x6b9e,
      poly_of 0xcefb, poly_of 0xded2, poly_of 0xb69d, poly_of 0xb1ae, poly_of 0xf5d3,
      poly_of 0x7b6f, poly_of 0xfeb, poly_of 0x5d80, poly_of 0xb1b3, poly_of 0x1f53,
      poly_of 0x1a94],
     [poly_of 0x366c, poly_of 0x9803, poly_of 0x8a10, poly_of 0x689e, poly_of 0x9340,
      poly_of 0xb2bf, poly_of 0x839c, poly_of 0x667b, poly_of 0x62d8, poly_of 0xa8dd,
      poly_of 0xa222, poly_of 0x2a64, poly_of 0x631e, poly_of 0x3e73, poly_of 0x8dcc,
      poly_of 0xe9fb],
     [poly_of 0xfc0f, poly_of 0x3e98, poly_of 0x984c, poly_of 0x2d4e, poly_of 0xc193,
      poly_of 0xaa7c, poly_of 0xf866, poly_of 0x73ab, poly_of 0xbf48, poly_of 0x3567,
      poly_of 0x87f3, poly_of 0x6ffa, poly_of 0x5be, poly_of 0x8120, poly_of 0x1179,
      poly_of 0xb580],
     [poly_of 0xc04, poly_of 0x5746, poly_of 0x38d6, poly_of 0xe346, poly_of 0x3371,
      poly_of 0xe4b8, poly_of 0xf0c3, poly_of 0x2b0b, poly_of 0x6fba, poly_of 0x5fb9,
      poly_of 0xa686, poly_of 0xd77c, poly_of 0xa4be, poly_of 0x5752, poly_of 0x5762,
      poly_of 0x3b08],
     [poly_of 0xb94b, poly_of 0xed0b, poly_of 0x1660, poly_of 0x1bf, poly_of 0xe0ff,
      poly_of 0x961, poly_of 0x57cd, poly_of 0xc6dc, poly_of 0x93d8, poly_of 0x8645,
      poly_of 0xd381, poly_of 0x5a15, poly_of 0x8d91, poly_of 0x1596, poly_of 0xbfc3,
      poly_of 0x1dbd],
     [poly_of 0x1581, poly_of 0xdd5a, poly_of 0x770e, poly_of 0x86d, poly_of 0xc2e8,
      poly_of 0xe705, poly_of 0x6de3, poly_of 0xa26, poly_of 0xe9ab, poly_of 0xae65,
      poly_of 0xbd6, poly_of 0x3cb7, poly_of 0xff54, poly_of 0xa750, poly_of 0xa3d1,
      poly_of 0x4c6b],
     [poly_of 0xd659, poly_of 0xfaa, poly_of 0x817c, poly_of 0x56d4, poly_of 0x23d1,
      poly_of 0x535e, poly_of 0x832b, poly_of 0xfdee, poly_of 0x1330, poly_of 0xd4a9,
      poly_of 0x9373, poly_of 0x8bd5, poly_of 0xa027, poly_of 0xc6e5, poly_of 0x1cde,
      poly_of 0x6bb0] ]
    (bkryB 16 (blt jump_seed)) (replicate 256 False)
    (replicate 160 False) (replicate 96 False)"
  by (simp only: eval_rules)

lemma span_rows_192:
  "chk
    [ [poly_of 0x7bc2, poly_of 0x45aa, poly_of 0x9568, poly_of 0xab40, poly_of 0x936b,
      poly_of 0xd79a, poly_of 0xc3c2, poly_of 0x2f30, poly_of 0x1f4, poly_of 0x9581,
      poly_of 0xafb, poly_of 0xd7d, poly_of 0x40f0, poly_of 0xe661, poly_of 0xdcf2,
      poly_of 0x866a],
     [poly_of 0xfe24, poly_of 0x7757, poly_of 0xe851, poly_of 0x286a, poly_of 0x8dee,
      poly_of 0xbc02, poly_of 0x338e, poly_of 0x4dcb, poly_of 0x6006, poly_of 0xb59,
      poly_of 0x9b26, poly_of 0x471a, poly_of 0x3106, poly_of 0xfac5, poly_of 0xc39f,
      poly_of 0x1fb9],
     [poly_of 0x78ba, poly_of 0x26c, poly_of 0x75b0, poly_of 0x75d6, poly_of 0xdfc9,
      poly_of 0xeee7, poly_of 0x65aa, poly_of 0x75a3, poly_of 0xe1eb, poly_of 0x8250,
      poly_of 0x7e84, poly_of 0xcaa7, poly_of 0xbdf5, poly_of 0x2831, poly_of 0xaa2e,
      poly_of 0x7a4a],
     [poly_of 0xa2cf, poly_of 0x5590, poly_of 0x2c7e, poly_of 0x1a18, poly_of 0xdac,
      poly_of 0x1911, poly_of 0x3f08, poly_of 0x131d, poly_of 0x9c71, poly_of 0xd85e,
      poly_of 0x1855, poly_of 0x8e19, poly_of 0xa0bc, poly_of 0x7576, poly_of 0xf64,
      poly_of 0xa6d1],
     [poly_of 0x4e6, poly_of 0x5e5a, poly_of 0xfd9b, poly_of 0xb968, poly_of 0x1ec5,
      poly_of 0x8e72, poly_of 0xbc6c, poly_of 0xb66d, poly_of 0x6ca2, poly_of 0xb10c,
      poly_of 0x9793, poly_of 0xa7d4, poly_of 0x3ab7, poly_of 0x3585, poly_of 0x72b4,
      poly_of 0x7a64],
     [poly_of 0xa7e, poly_of 0x2bf2, poly_of 0x99db, poly_of 0x82d6, poly_of 0x1e1a,
      poly_of 0xbc6d, poly_of 0xf871, poly_of 0xd87a, poly_of 0xa3b3, poly_of 0x3da0,
      poly_of 0x113e, poly_of 0x2fa, poly_of 0x9a83, poly_of 0x3dd, poly_of 0xc7d2,
      poly_of 0x5e39],
     [poly_of 0xd21c, poly_of 0xb67c, poly_of 0xf026, poly_of 0x5ea, poly_of 0x3072,
      poly_of 0xa15f, poly_of 0x827e, poly_of 0x52c9, poly_of 0x5a1a, poly_of 0x428a,
      poly_of 0x5194, poly_of 0x49eb, poly_of 0xd98d, poly_of 0xe65b, poly_of 0xc95d,
      poly_of 0x5aea],
     [poly_of 0x79c6, poly_of 0xe28d, poly_of 0xfb59, poly_of 0xcc53, poly_of 0xd397,
      poly_of 0xe2d1, poly_of 0x45c0, poly_of 0xc67c, poly_of 0xaa3a, poly_of 0xb7fb,
      poly_of 0xeec7, poly_of 0x588d, poly_of 0x53f3, poly_of 0x7f71, poly_of 0x72b0,
      poly_of 0xdcbd],
     [poly_of 0xe268, poly_of 0xd7a7, poly_of 0x8941, poly_of 0x6bbf, poly_of 0xbe30,
      poly_of 0xad8, poly_of 0x93a, poly_of 0x8b0d, poly_of 0x5fc9, poly_of 0x618a,
      poly_of 0x2e90, poly_of 0xd537, poly_of 0x4b8f, poly_of 0xe1d5, poly_of 0x8153,
      poly_of 0xd19],
     [poly_of 0x72a7, poly_of 0xfea3, poly_of 0xd927, poly_of 0x2937, poly_of 0xf403,
      poly_of 0xcb53, poly_of 0x97ec, poly_of 0x90b6, poly_of 0xf0dd, poly_of 0x4586,
      poly_of 0xc1a0, poly_of 0x898b, poly_of 0xa28, poly_of 0xed9b, poly_of 0x9d4e,
      poly_of 0x2797],
     [poly_of 0x4324, poly_of 0x2e02, poly_of 0x6051, poly_of 0x86fe, poly_of 0xa311,
      poly_of 0xbc03, poly_of 0x359, poly_of 0x667f, poly_of 0xba92, poly_of 0x4217,
      poly_of 0x8f7, poly_of 0xd4d2, poly_of 0x448, poly_of 0xde57, poly_of 0x486a,
      poly_of 0x4179],
     [poly_of 0xa2ac, poly_of 0xc974, poly_of 0xcc93, poly_of 0x46fe, poly_of 0x291c,
      poly_of 0x4ff9, poly_of 0x143f, poly_of 0x83c6, poly_of 0x4df7, poly_of 0xdae8,
      poly_of 0x5b7b, poly_of 0xd1c7, poly_of 0x8f39, poly_of 0x6271, poly_of 0x98b2,
      poly_of 0xb27f],
     [poly_of 0xa825, poly_of 0x1327, poly_of 0x3e61, poly_of 0xb6db, poly_of 0x129a,
      poly_of 0x3820, poly_of 0x1f71, poly_of 0x2dd0, poly_of 0x18d7, poly_of 0x82c9,
      poly_of 0x2555, poly_of 0x4311, poly_of 0xcc51, poly_of 0x52fe, poly_of 0x7bf8,
      poly_of 0x9994],
     [poly_of 0x6e0e, poly_of 0x3720, poly_of 0x7dfb, poly_of 0xbbf5, poly_of 0x1a7d,
      poly_of 0xc5ab, poly_of 0xa745, poly_of 0x69a2, poly_of 0x620, poly_of 0xb005,
      poly_of 0x128c, poly_of 0xebd2, poly_of 0xbe98, poly_of 0x1e58, poly_of 0xaf06,
      poly_of 0xcd81],
     [poly_of 0x1793, poly_of 0x14ef, poly_of 0x9f47, poly_of 0xf1c, poly_of 0xca4e,
      poly_of 0xccd8, poly_of 0x1ff9, poly_of 0xe972, poly_of 0x8aa7, poly_of 0xd527,
      poly_of 0x9ba5, poly_of 0x64e9, poly_of 0xd0f, poly_of 0xdad4, poly_of 0x5890,
      poly_of 0x5e90],
     [poly_of 0xae05, poly_of 0x3e1a, poly_of 0x4a02, poly_of 0x5e16, poly_of 0xcd77,
      poly_of 0x1a19, poly_of 0x9638, poly_of 0x587d, poly_of 0xb3f9, poly_of 0x2844,
      poly_of 0xa00f, poly_of 0xec80, poly_of 0x3e8, poly_of 0xf51f, poly_of 0xa5a1,
      poly_of 0x91b0],
     [poly_of 0x904e, poly_of 0xd227, poly_of 0x9a79, poly_of 0xf83a, poly_of 0xfd5b,
      poly_of 0x31f5, poly_of 0x7731, poly_of 0xb9a6, poly_of 0x7b65, poly_of 0x26e5,
      poly_of 0x9c26, poly_of 0x2129, poly_of 0x3aaa, poly_of 0x9b42, poly_of 0x2373,
      poly_of 0x13d8],
     [poly_of 0x799f, poly_of 0x277b, poly_of 0xdf22, poly_of 0xd1c5, poly_of 0x9ba7,
      poly_of 0x90e9, poly_of 0x8bf8, poly_of 0x3c90, poly_of 0x3aba, poly_of 0xb999,
      poly_of 0x77e5, poly_of 0xf944, poly_of 0x976b, poly_of 0x9a95, poly_of 0x3397,
      poly_of 0x64c3],
     [poly_of 0xa2, poly_of 0xcc1b, poly_of 0x9d31, poly_of 0x8052, poly_of 0xfdd0,
      poly_of 0x5894, poly_of 0xa326, poly_of 0x6f5f, poly_of 0xc18b, poly_of 0xf57e,
      poly_of 0x409f, poly_of 0xd11f, poly_of 0xbc63, poly_of 0x97c3, poly_of 0x7bd1,
      poly_of 0xc779],
     [poly_of 0xac3, poly_of 0xaf90, poly_of 0x980a, poly_of 0xe916, poly_of 0x54c1,
      poly_of 0x248c, poly_of 0xb279, poly_of 0xc1a4, poly_of 0x6d19, poly_of 0x202a,
      poly_of 0xdb01, poly_of 0x4ad8, poly_of 0x78e2, poly_of 0x527b, poly_of 0x48f8,
      poly_of 0x8397],
     [poly_of 0x536, poly_of 0x6723, poly_of 0x80f, poly_of 0x43ef, poly_of 0xdab,
      poly_of 0x7036, poly_of 0xc4a1, poly_of 0x5c72, poly_of 0xf48f, poly_of 0xbb7d,
      poly_of 0x4b7a, poly_of 0xb4c3, poly_of 0xc44a, poly_of 0xc325, poly_of 0x9da6,
      poly_of 0xc4b7],
     [poly_of 0x9c56, poly_of 0x357f, poly_of 0xb600, poly_of 0x46e2, poly_of 0xc0b4,
      poly_of 0x81be, poly_of 0x99a0, poly_of 0x2781, poly_of 0x8bdc, poly_of 0x237c,
      poly_of 0xee23, poly_of 0x4832, poly_of 0x3ec5, poly_of 0x8d3e, poly_of 0x9e35,
      poly_of 0xbfb3],
     [poly_of 0x45a5, poly_of 0xb7e9, poly_of 0x67ab, poly_of 0x3714, poly_of 0xaa71,
      poly_of 0x38fc, poly_of 0x4de9, poly_of 0x7bcc, poly_of 0x8203, poly_of 0x8395,
      poly_of 0x18ce, poly_of 0x369d, poly_of 0x4d06, poly_of 0x27f5, poly_of 0xdc00,
      poly_of 0xd345],
     [poly_of 0x2063, poly_of 0x6de, poly_of 0x91d0, poly_of 0x943f, poly_of 0x7124,
      poly_of 0x45e1, poly_of 0x7dcf, poly_of 0xdc06, poly_of 0xe3d, poly_of 0xd7c9,
      poly_of 0xf71a, poly_of 0xb306, poly_of 0xee35, poly_of 0x790c, poly_of 0x1548,
      poly_of 0x9789],
     [poly_of 0x703a, poly_of 0x2761, poly_of 0xb4b9, poly_of 0x48ad, poly_of 0xc846,
      poly_of 0x13bd, poly_of 0x9238, poly_of 0x97e6, poly_of 0x7df7, poly_of 0x6cb1,
      poly_of 0x3d58, poly_of 0xa76f, poly_of 0x224d, poly_of 0x32a5, poly_of 0x645d,
      poly_of 0xf4ed],
     [poly_of 0x26a3, poly_of 0x2358, poly_of 0x56f2, poly_of 0xcead, poly_of 0xd500,
      poly_of 0x376d, poly_of 0x222f, poly_of 0xfb77, poly_of 0x862a, poly_of 0x884,
      poly_of 0xfd8c, poly_of 0xe4aa, poly_of 0x2851, poly_of 0x2dfa, poly_of 0x119f,
      poly_of 0x304f],
     [poly_of 0xb338, poly_of 0xd85d, poly_of 0x8d16, poly_of 0x3d5b, poly_of 0x7587,
      poly_of 0x2ad3, poly_of 0x8368, poly_of 0x4ce4, poly_of 0x89ae, poly_of 0x1ce7,
      poly_of 0xf755, poly_of 0x9799, poly_of 0xfa, poly_of 0x6f66, poly_of 0x93ae,
      poly_of 0x61e1],
     [poly_of 0x72ef, poly_of 0x3231, poly_of 0x859e, poly_of 0xacbe, poly_of 0xae4b,
      poly_of 0x62ea, poly_of 0x6b28, poly_of 0xb94f, poly_of 0xe29e, poly_of 0x1bb3,
      poly_of 0x5b3e, poly_of 0x5583, poly_of 0xd59f, poly_of 0x4ca7, poly_of 0xf09c,
      poly_of 0x7791],
     [poly_of 0x3fd2, poly_of 0x2e4c, poly_of 0xdb66, poly_of 0x1c6a, poly_of 0xe527,
      poly_of 0xaa96, poly_of 0xc7c7, poly_of 0x716f, poly_of 0xc494, poly_of 0x4406,
      poly_of 0xaeb6, poly_of 0x5096, poly_of 0xa0c8, poly_of 0x4256, poly_of 0x66d,
      poly_of 0xeea8],
     [poly_of 0x90b3, poly_of 0x9d37, poly_of 0x66f2, poly_of 0x5d23, poly_of 0x6515,
      poly_of 0x7523, poly_of 0xfa03, poly_of 0x533f, poly_of 0xb11e, poly_of 0x6673,
      poly_of 0xfad2, poly_of 0xd0a2, poly_of 0x3432, poly_of 0xa483, poly_of 0x287a,
      poly_of 0xe292],
     [poly_of 0xd8bf, poly_of 0x6cd7, poly_of 0xcfca, poly_of 0xe25b, poly_of 0x5d7d,
      poly_of 0xeb98, poly_of 0xe4a1, poly_of 0xc078, poly_of 0x104d, poly_of 0x4bde,
      poly_of 0xb609, poly_of 0xc211, poly_of 0x337, poly_of 0x4bc3, poly_of 0x3eff,
      poly_of 0xb629],
     [poly_of 0x6413, poly_of 0xe162, poly_of 0x457b, poly_of 0x1c0a, poly_of 0x3813,
      poly_of 0x48ef, poly_of 0x9afd, poly_of 0xfe94, poly_of 0xaf4, poly_of 0x9dc7,
      poly_of 0x39b3, poly_of 0x796d, poly_of 0x516b, poly_of 0x21d8, poly_of 0x663c,
      poly_of 0xb860] ]
    (bkryB 16 (blt jump_seed)) (replicate 256 False)
    (replicate 192 False) (replicate 64 False)"
  by (simp only: eval_rules)

lemma span_rows_224:
  "chk
    [ [poly_of 0xe9fc, poly_of 0x4f74, poly_of 0xc6d6, poly_of 0x2b4a, poly_of 0xffa2,
      poly_of 0xcf25, poly_of 0x4624, poly_of 0xbf61, poly_of 0x72d2, poly_of 0xa670,
      poly_of 0x25e3, poly_of 0x7ebc, poly_of 0xbaa6, poly_of 0x2bac, poly_of 0x55a6,
      poly_of 0x4d88],
     [poly_of 0x224a, poly_of 0x800b, poly_of 0x4d5b, poly_of 0x5a55, poly_of 0x8fe0,
      poly_of 0xe0dc, poly_of 0x4b03, poly_of 0x115b, poly_of 0xc711, poly_of 0x3fb7,
      poly_of 0x9387, poly_of 0x55a6, poly_of 0x9b59, poly_of 0xff46, poly_of 0x9fb0,
      poly_of 0xa0f8],
     [poly_of 0x5e90, poly_of 0xf9e3, poly_of 0x5bd6, poly_of 0xe632, poly_of 0xb82e,
      poly_of 0xa4e, poly_of 0x4ea7, poly_of 0x9f83, poly_of 0x5b1b, poly_of 0x4fb8,
      poly_of 0xa64c, poly_of 0xf978, poly_of 0xfdba, poly_of 0xe887, poly_of 0xba4b,
      poly_of 0xe521],
     [poly_of 0xaa3e, poly_of 0xbdba, poly_of 0x37c0, poly_of 0x65e8, poly_of 0x210e,
      poly_of 0x7f64, poly_of 0x85c0, poly_of 0x3786, poly_of 0x217e, poly_of 0x55f3,
      poly_of 0x615d, poly_of 0x9d97, poly_of 0xf26f, poly_of 0xd166, poly_of 0x6c60,
      poly_of 0x5d0b],
     [poly_of 0x9c1b, poly_of 0x7ca, poly_of 0x4429, poly_of 0xa20, poly_of 0x680f,
      poly_of 0xceb, poly_of 0x424, poly_of 0x96ff, poly_of 0x6b11, poly_of 0xb921,
      poly_of 0x958f, poly_of 0x7e26, poly_of 0x5faa, poly_of 0x414a, poly_of 0x4a50,
      poly_of 0x72aa],
     [poly_of 0x84c2, poly_of 0xdc75, poly_of 0x8356, poly_of 0x6d1c, poly_of 0xc0eb,
      poly_of 0xb67c, poly_of 0x7e2f, poly_of 0x48b9, poly_of 0x31fd, poly_of 0x713,
      poly_of 0x6fd, poly_of 0x859, poly_of 0xd486, poly_of 0xcfc1, poly_of 0x66a5,
      poly_of 0x25b],
     [poly_of 0xfadf, poly_of 0xbd3b, poly_of 0x6499, poly_of 0x83bd, poly_of 0x88f3,
      poly_of 0x7e44, poly_of 0x3105, poly_of 0xb7fc, poly_of 0x5620, poly_of 0x8400,
      poly_of 0xc49a, poly_of 0x3af4, poly_of 0x4280, poly_of 0x565c, poly_of 0x7780,
      poly_of 0x63dc],
     [poly_of 0x7468, poly_of 0x56b3, poly_of 0x3a28, poly_of 0x5633, poly_of 0xe4e8,
      poly_of 0xb238, poly_of 0x8f63, poly_of 0x4238, poly_of 0x80da, poly_of 0xb34c,
      poly_of 0x7b80, poly_of 0xbe00, poly_of 0xb6ae, poly_of 0x47b5, poly_of 0xb3db,
      poly_of 0xbd],
     [poly_of 0xebc4, poly_of 0xe1a5, poly_of 0xedba, poly_of 0x1f2d, poly_of 0x7bb5,
      poly_of 0xe876, poly_of 0xb609, poly_of 0xe4b6, poly_of 0xdd90, poly_of 0x68eb,
      poly_of 0x1db9, poly_of 0x9046, poly_of 0xc556, poly_of 0x10f7, poly_of 0x755d,
      poly_of 0x4579],
     [poly_of 0x6413, poly_of 0xff8a, poly_of 0x2e0d, poly_of 0xa72a, poly_of 0xd522,
      poly_of 0x8b23, poly_of 0x9357, poly_of 0x4b56, poly_of 0x1102, poly_of 0x566e,
      poly_of 0x5cde, poly_of 0xecb5, poly_of 0xb799, poly_of 0x856e, poly_of 0xd0bc,
      poly_of 0x527],
     [poly_of 0xddea, poly_of 0x8087, poly_of 0x8eba, poly_of 0x7299, poly_of 0x2a63,
      poly_of 0x670c, poly_of 0x6d96, poly_of 0xa745, poly_of 0x4b57, poly_of 0x7936,
      poly_of 0xa43c, poly_of 0xa237, poly_of 0xbc2, poly_of 0x4fc2, poly_of 0x2a59,
      poly_of 0x8263],
     [poly_of 0xfa85, poly_of 0x1efe, poly_of 0xbb0c, poly_of 0x3070, poly_of 0x5993,
      poly_of 0x4a42, poly_of 0x931c, poly_of 0xd27b, poly_of 0x14cc, poly_of 0x1872,
      poly_of 0x609d, poly_of 0xe196, poly_of 0xda72, poly_of 0x2a58, poly_of 0x91de,
      poly_of 0xf58a],
     [poly_of 0xb4ad, poly_of 0x1b6d, poly_of 0x30e9, poly_of 0x7f00, poly_of 0x8261,
      poly_of 0x8e4, poly_of 0x7279, poly_of 0x5fe0, poly_of 0x572a, poly_of 0xdafa,
      poly_of 0x8a6b, poly_of 0x513d, poly_of 0x6d6d, poly_of 0x73e1, poly_of 0x719,
      poly_of 0x77ad],
     [poly_of 0x784, poly_of 0x3ba4, poly_of 0x45fb, poly_of 0xcb90, poly_of 0x3c89,
      poly_of 0x61c8, poly_of 0x87ae, poly_of 0x5ce1, poly_of 0x9c6d, poly_of 0xd27,
      poly_of 0xf838, poly_of 0x1e4e, poly_of 0x4af9, poly_of 0xf3fc, poly_of 0x79d9,
      poly_of 0xcd6],
     [poly_of 0xbbf3, poly_of 0x24b8, poly_of 0xd37, poly_of 0xb10b, poly_of 0x2be4,
      poly_of 0x2499, poly_of 0x7311, poly_of 0xa7b3, poly_of 0x62e3, poly_of 0x6a61,
      poly_of 0x45bb, poly_of 0xeb9e, poly_of 0x9bf8, poly_of 0x5a87, poly_of 0x2ac8,
      poly_of 0xcdba],
     [poly_of 0xce8d, poly_of 0xd889, poly_of 0xa631, poly_of 0x50dd, poly_of 0x241a,
      poly_of 0x4954, poly_of 0xf0e6, poly_of 0x476c, poly_of 0x3122, poly_of 0x6fb,
      poly_of 0x3062, poly_of 0x274d, poly_of 0x2692, poly_of 0xfc01, poly_of 0x5018,
      poly_of 0xffd3],
     [poly_of 0x4040, poly_of 0x7aae, poly_of 0xedd7, poly_of 0x3059, poly_of 0x4e66,
      poly_of 0xa474, poly_of 0xd19f, poly_of 0x4d09, poly_of 0x9d39, poly_of 0x83e3,
      poly_of 0xc623, poly_of 0x8cda, poly_of 0xa3b, poly_of 0xed43, poly_of 0x9b7a,
      poly_of 0x78f0],
     [poly_of 0x7fe0, poly_of 0x1cc3, poly_of 0xb390, poly_of 0xa1a7, poly_of 0x4e42,
      poly_of 0x2ba, poly_of 0xb5e3, poly_of 0xee4d, poly_of 0x524f, poly_of 0xf51b,
      poly_of 0xa93, poly_of 0xee7b, poly_of 0x456e, poly_of 0x3e35, poly_of 0x9314,
      poly_of 0x2b8f],
     [poly_of 0x1e0a, poly_of 0xb2d3, poly_of 0x839f, poly_of 0xf2f6, poly_of 0x1c2e,
      poly_of 0x9a96, poly_of 0x6828, poly_of 0xe9b3, poly_of 0x34d8, poly_of 0x29c6,
      poly_of 0x82bf, poly_of 0xab80, poly_of 0x464c, poly_of 0x1e74, poly_of 0xda5c,
      poly_of 0x2dea],
     [poly_of 0xf83b, poly_of 0x2267, poly_of 0xc75c, poly_of 0x3c00, poly_of 0x4482,
      poly_of 0xb17d, poly_of 0x44db, poly_of 0x3239, poly_of 0x27b4, poly_of 0xd15f,
      poly_of 0xf021, poly_of 0xaa75, poly_of 0xcc42, poly_of 0x740d, poly_of 0x93db,
      poly_of 0xfae3],
     [poly_of 0xb88d, poly_of 0xa02a, poly_of 0x820b, poly_of 0xf754, poly_of 0xc288,
      poly_of 0x12ce, poly_of 0xe411, poly_of 0x16d5, poly_of 0x5259, poly_of 0x7c24,
      poly_of 0x812, poly_of 0x18f, poly_of 0x76d0, poly_of 0xb101, poly_of 0x4d19,
      poly_of 0x3ef7],
     [poly_of 0xc322, poly_of 0xc4f1, poly_of 0xad25, poly_of 0xb187, poly_of 0x4009,
      poly_of 0x48a3, poly_of 0xe60a, poly_of 0x341, poly_of 0x6a29, poly_of 0x536c,
      poly_of 0x6236, poly_of 0x256c, poly_of 0xb812, poly_of 0x386, poly_of 0xac86,
      poly_of 0x1244],
     [poly_of 0xb4bd, poly_of 0x55ec, poly_of 0x73a6, poly_of 0x7fef, poly_of 0xcc64,
      poly_of 0xd80b, poly_of 0xf84f, poly_of 0x6ade, poly_of 0x3bb7, poly_of 0x8223,
      poly_of 0x9a4e, poly_of 0xa662, poly_of 0xf542, poly_of 0xc9ac, poly_of 0x84b3,
      poly_of 0xcb6c],
     [poly_of 0xb3dc, poly_of 0x7b5b, poly_of 0x350c, poly_of 0x58d8, poly_of 0x9a4e,
      poly_of 0xb451, poly_of 0x6b2c, poly_of 0x1bc0, poly_of 0x46d6, poly_of 0x7d33,
      poly_of 0x641c, poly_of 0x8e22, poly_of 0x10e8, poly_of 0x2cc1, poly_of 0xa3ce,
      poly_of 0x2e74],
     [poly_of 0xb8ef, poly_of 0xcbbe, poly_of 0x4420, poly_of 0x676b, poly_of 0xa851,
      poly_of 0x14bf, poly_of 0x137e, poly_of 0x790a, poly_of 0x9702, poly_of 0xd2e0,
      poly_of 0x9a84, poly_of 0xa17e, poly_of 0xfcca, poly_of 0xe342, poly_of 0x272b,
      poly_of 0xe887],
     [poly_of 0x7a44, poly_of 0x50ae, poly_of 0xdf5b, poly_of 0xa84e, poly_of 0xefdc,
      poly_of 0x1df5, poly_of 0x52d9, poly_of 0xb735, poly_of 0x7448, poly_of 0x825c,
      poly_of 0x3d8f, poly_of 0x9a79, poly_of 0x704c, poly_of 0xa420, poly_of 0xd110,
      poly_of 0xb863],
     [poly_of 0x7ef, poly_of 0xccf7, poly_of 0x3e02, poly_of 0x7863, poly_of 0xf57e,
      poly_of 0xf2dd, poly_of 0xc6dc, poly_of 0xfd4a, poly_of 0xeb59, poly_of 0x23f1,
      poly_of 0xf89b, poly_of 0x454f, poly_of 0xbcaa, poly_of 0x5ce1, poly_of 0x1d42,
      poly_of 0xa709],
     [poly_of 0xe18, poly_of 0xaf5, poly_of 0xa400, poly_of 0x1fa3, poly_of 0x749e,
      poly_of 0x2844, poly_of 0xcc0, poly_of 0x5d42, poly_of 0xf173, poly_of 0x454b,
      poly_of 0xd737, poly_of 0x6ee6, poly_of 0xa736, poly_of 0xe271, poly_of 0xa6d,
      poly_of 0xb1c2],
     [poly_of 0x1e0a, poly_of 0x852f, poly_of 0x6dc7, poly_of 0x372f, poly_of 0x7f5b,
      poly_of 0x3b2c, poly_of 0x19e6, poly_of 0x4392, poly_of 0x68a9, poly_of 0x90ae,
      poly_of 0x1e4f, poly_of 0xc547, poly_of 0x1b22, poly_of 0x850c, poly_of 0x8575,
      poly_of 0x6b94],
     [poly_of 0xd633, poly_of 0x74ea, poly_of 0x1064, poly_of 0xcd29, poly_of 0xbcae,
      poly_of 0x710d, poly_of 0x8469, poly_of 0x6f96, poly_of 0x219f, poly_of 0x5cbb,
      poly_of 0x3824, poly_of 0x9b7b, poly_of 0x3866, poly_of 0xbe79, poly_of 0x4079,
      poly_of 0xb5a4],
     [poly_of 0x59c2, poly_of 0xc61, poly_of 0xe20f, poly_of 0x5a64, poly_of 0xe98b,
      poly_of 0xdaf7, poly_of 0xed23, poly_of 0x101f, poly_of 0xe841, poly_of 0x98eb,
      poly_of 0xe4a1, poly_of 0xe56f, poly_of 0xe48e, poly_of 0x8296, poly_of 0x7655,
      poly_of 0x3ee3],
     [poly_of 0xbf9e, poly_of 0xc0f8, poly_of 0xf5d3, poly_of 0x484b, poly_of 0xdb65,
      poly_of 0xe86d, poly_of 0x47d6, poly_of 0x46a, poly_of 0x603b, poly_of 0xd014,
      poly_of 0x99b9, poly_of 0x501b, poly_of 0xf5d0, poly_of 0xf126, poly_of 0xd7cc,
      poly_of 0x62b9] ]
    (bkryB 16 (blt jump_seed)) (replicate 256 False)
    (replicate 224 False) (replicate 32 False)"
  by (simp only: eval_rules)

lemma in_span_0: "in_span 0"
proof -
  have s224: "in_span 224"
    by (rule chk_span [OF span_rows_224, where n = 32]) (simp_all add: in_span_256)
  have s192: "in_span 192"
    by (rule chk_span [OF span_rows_192, where n = 32]) (simp_all add: s224)
  have s160: "in_span 160"
    by (rule chk_span [OF span_rows_160, where n = 32]) (simp_all add: s192)
  have s128: "in_span 128"
    by (rule chk_span [OF span_rows_128, where n = 32]) (simp_all add: s160)
  have s96: "in_span 96"
    by (rule chk_span [OF span_rows_96, where n = 32]) (simp_all add: s128)
  have s64: "in_span 64"
    by (rule chk_span [OF span_rows_64, where n = 32]) (simp_all add: s96)
  have s32: "in_span 32"
    by (rule chk_span [OF span_rows_32, where n = 32]) (simp_all add: s64)
  have s0: "in_span 0"
    by (rule chk_span [OF span_rows_0, where n = 32]) (simp_all add: s32)
  show ?thesis by (rule s0)
qed

text \<open>
  Repeated squaring: from the polynomial \<open>X\<close>, 128 squarings modulo the characteristic
  polynomial give the polynomial of the \<open>Jump\<close> constant, and 64 more that of the
  \<open>LongJump\<close> constant. Each step is given with its quotient and remainder.
\<close>

lemma squarings_0_32:
  "chain (poly_of 0x10003c03c3f3ecb1904b4edcf26259f850280002bcefd1a5e9d116f2bb0f0f001)
    [False, True]
    [(poly_of 0x0,
      poly_of 0x4),
     (poly_of 0x0,
      poly_of 0x10),
     (poly_of 0x0,
      poly_of 0x100),
     (poly_of 0x0,
      poly_of 0x10000),
     (poly_of 0x0,
      poly_of 0x100000000),
     (poly_of 0x0,
      poly_of 0x10000000000000000),
     (poly_of 0x0,
      poly_of 0x100000000000000000000000000000000),
     (poly_of 0x1,
      poly_of 0x3c03c3f3ecb1904b4edcf26259f850280002bcefd1a5e9d116f2bb0f0f001),
     (poly_of 0x5500c0981179f8c3d51aef664a89297c113a36ce90eb869f2e60b3488,
      poly_of 0xbe7976372e9304356dd49b656055c9da81f675e7a4ef7d84c7327d130e34b489),
     (poly_of 0x4554e94caf137b9e4ee43cf133e581820994ab4bbcc0e558101dfa05ca0ac069,
      poly_of 0x65507439cf43f0e28456faeb6230d9841be1d76854ddda93060106bbbe4ff028),
     (poly_of 0x1411223c9a33e11f015ccb906e8a6d8ba54df17776ad953a1a983e3e57d28180,
      poly_of 0x51edef31819e01ff3c8ca36ec9a74fa715fe822628b16f04876c2301125a85c0),
     (poly_of 0x11016b91f832526275c230afc09680f29f41edcf03d55d4f3637bb6279e8eb85,
      poly_of 0xf41cce3698fad39aa6eb691cbf9ce10d638d47ec5bcf595d7f4e8da7e228b85),
     (poly_of 0x5510c1a141226b13d4dcaba706e6fd4e9264ab88135dbaecf91a162dfc7665,
      poly_of 0xda66e09e52b341d132104b94fe2534d3b1df898a4a6f1548669da12373880674),
     (poly_of 0x5144db269dde2c53d3c1432f7107ff0a528d42cdc260f59f4f1b33969852e721,
      poly_of 0x3cec2c375bef249c023ecbee3f717fce3886af219b8852484f20eb915e780231),
     (poly_of 0x550585c168fe9c3ea0794dcf38bcacfc2fce03db2d03121ad2be0e07930398d,
      poly_of 0x1a9dcf944ae47603a69393ac0d837e54c3ce2f061f077568449b3ae793888c8c),
     (poly_of 0x144426e94856033052505e3ecdee122f8b40de4ad68cd3a70de5dd1e4ee6297,
      poly_of 0xd87f8ce230817a21ef43beaa06f02fb892ae7ca370c0bf6b7e89ac5ca2fbf2c7),
     (poly_of 0x5140da688a58410a12685a57fafa05c3836de8f8521419768bf2c420775fdf9f,
      poly_of 0xbd53027696368bbbf0c168649cdba61f54adade3697d477f6c4adbe18e29df8a),
     (poly_of 0x4551ed047520639b0d9b6777dbfb13d0ea033dd137c6423df45fce80e76a36fc,
      poly_of 0xf78a97c0d882cd371ea49b5067452594f2c602feb5ed002b1a673fecf40e36b8),
     (poly_of 0x551580b96342b31e60a7cdac9d529658e3d2ed15e80f3be747865b24bd94d907,
      poly_of 0x1639a36e0968e3c5590923d02ec52531770323eab8d437bdef4606da56224c47),
     (poly_of 0x11406b2722a84c2ac950b38541208548cd612c5c46d3af113f08be1c21963d8,
      poly_of 0x8b3919a9d298a4152f679f694a74c76a7cde241817a3ce0f31d9d05c5d95f3cd),
     (poly_of 0x4045f5b39839fa2c6988be313f6bc5174f1558022e80e1ada67e57c0bfddc42b,
      poly_of 0x624eb7b63c322e71d9b36372fd70ec83eace6d3840b79fef6b6622ae9590047a),
     (poly_of 0x140423580a7f79d9f998b73da9536a610d4ac7f765b2b9811b80a5178cfd5b67,
      poly_of 0x2bac5517c9469796cebbfd2ef4e9aff4eb2c7e29d3c33d2e1b91fd9ba98d9e23),
     (poly_of 0x4454bacc5e85917750277e040ba8cb33077a0f6b3856a7f1cb2758b081fa50c,
      poly_of 0xfb678bd3e5dac186657a6b736317866bba0ffb6562a3a28a01f356e6083fe109),
     (poly_of 0x5545d424ac1d6bfcda3674c90ea0b3b0cf727f9bd972d08c9ee5e385bd57d7a9,
      poly_of 0xf5c010059e83bc3ff3469dbb4fe25d26e46916a1426b676dc5461100f197a7e8),
     (poly_of 0x551190f21f4e37b772350e854f51dc83f66466e7168e4818babb7fe187544d9c,
      poly_of 0xe677849e207f6afd5de3e273dc7b84dc3eec4eb6495ce5aa22dc028cb8c259dc),
     (poly_of 0x5414d62b5b13206e9c3613bf5be0db773e20789070a95ea596d6c3ada0ba3a5f,
      poly_of 0xd19a1bdceb7522cdf2332a778d9c8dc114e10c3b7c36788832d418900fd3b0f),
     (poly_of 0x51018e8ac61dff0e41c06462e9b5b689fe1dfd8291797c728cf58c9dd99102,
      poly_of 0xf38f7e750d5f4f2a98273f4d18ad073e8b3ed7c37e947e38e2d0c9c10e8d7157),
     (poly_of 0x5505809434aa05729e393a174f49670773facbee11006cac573ee74c1d012c65,
      poly_of 0xafa9e3fe5fea15c36d48dd206d56754d34f30137eadb90b9e7109518f3510d70),
     (poly_of 0x4455bb8fd899718ec2d121f616876e2f34be4b84dd9208f1633a21e382bbfa39,
      poly_of 0x1ca234ff511bcb05c76a456d998ddc4cd7c26ebd51ecf6c48ee774f507ec9f39),
     (poly_of 0x1504708ceb3ea62deb85575ccbb06abe06b46d17992821babcb102d5f0c12fd,
      poly_of 0x3e667662caa54d16e0e9fa345826626d352f8b5d2137de834905d8261158a7bc),
     (poly_of 0x5541817f7df2e57ff6591f597dc9dc80a861961ebeb5c45799d85279d24dc42,
      poly_of 0xa43d37468704d53682b9aa358fe2ed58e1185a166bb38173272a32be4bac7912),
     (poly_of 0x4410fa63b4fc854387dd4ebc95fba68e5e39aa296766afd26aa4bfa80d669e6d,
      poly_of 0xe055d3520fdb9d7214fafc0fbdbc2087d8d0632bd08e6ac58120d583c112f69)]
    (poly_of 0xe055d3520fdb9d7214fafc0fbdbc2087d8d0632bd08e6ac58120d583c112f69)"
  by (simp only: eval_rules)

lemma squarings_32_64:
  "chain (poly_of 0x10003c03c3f3ecb1904b4edcf26259f850280002bcefd1a5e9d116f2bb0f0f001)
    (poly_of 0xe055d3520fdb9d7214fafc0fbdbc2087d8d0632bd08e6ac58120d583c112f69)
    [(poly_of 0x5400d21c467ae5736c54b294fbe5d3e9d3b0cc8c7fbff9a931f4f3a4ceef3c,
      poly_of 0xa1b7ebf581a90f09ffed2ffbcf857b425d33a22177777716d9eb3e225a9ebb7d),
     (poly_of 0x4401ba18d6f2c62ba95255ff1028b0008e5a9081ff93c8c46f053d1e425524a5,
      poly_of 0xafe97309a7881b0a59f09ab33f1c8f40c2e65cfa3a44f3b3a433a5cff8501f4),
     (poly_of 0x4455ab8fa59a41a619e6243f553cac4b2c8d78ee47e7bfbf342391dcf4697a,
      poly_of 0xc1cdf918a717c89794295f82142a68bd53a34398808ef457635e9c6882ce5c6a),
     (poly_of 0x50019c5f9485320813eaba77978d806a03426f75f4c21cff9e8e269996c93a90,
      poly_of 0xac7fe0806aecd6c863d3f9df102dfa7e306c4d371040af1e1a2c804af78e2ed4),
     (poly_of 0x4450ea97d7be400c1e4ed8601aa11e658826f4268bf1549cab6f4a1ce9909f8b,
      poly_of 0x702cf168260fa29e976589eefbb1c7f57823a1cd9453899b7743a154e17a5e9b),
     (poly_of 0x1500349310ede91e6bc9a7377f9ff14958ace514cf12edbadd6e174a8ed89e7a,
      poly_of 0xc4671ec91b902bae03803bdb9ea7d7e868ef5242f2d9c5b22edfce1b0667bf3f),
     (poly_of 0x5010d824fcce8ce49273ac26f18d79aca5fa8cf5a58442e4f61eac571147fd5a,
      poly_of 0x755b16e231d1e7c9af03bea7ea7109fd0af3e6140fcff1854d2c07a0b0f7980f),
     (poly_of 0x151121b9b7a47f136fc96e38bda9db8581d92f8cfeffaf989ca4add23bd21ef5,
      poly_of 0x51fc9b8eb1974e73eece73d85df1836113a31dc36460a3b0d24b31ab16542ea0),
     (poly_of 0x11016a90eee1de9e988a0a66c14ee1e938de85592503fa264345adb79559fe91,
      poly_of 0xfb43cf1f4658ae1bde49d57f23fdecb5a374bf9822d660aaec9c79ebd62a4a91),
     (poly_of 0x5545d034b331e1b9ffb19df500c96a739c3809d0122a84c53f6a4ba7fa3c2d09,
      poly_of 0x9b48db8907d00f973aa3d49368a9c56248b8b0570f008a917602414a37bf1c08),
     (poly_of 0x4145e372c1928af5d88334efe51564d2ce3c0a488fa132bceb92b9debceb1315,
      poly_of 0x8ec1a9dd27957370a6994477ec2d6d859e11e129fcced20ef7569be74f972355),
     (poly_of 0x4054a0ccdeab905bc99784743a22d6b3b66f5ce065a7728fea6eeb39ca3a09b1,
      poly_of 0xba8b1a7be4521854f6c987b8eb4f76db82f1f8d3ebd9baffc223943200d6e8a0),
     (poly_of 0x4544bc747817ba24ace0a6f2fb7be470dc201c69e59ace39db498abd4c26894f,
      poly_of 0xa8f7de3ed772d2d2bad2e3487a438d37f6faaff592dc08c7e226bff99e7f9d4f),
     (poly_of 0x4440aaeb2182afe0237e05e51957bbcafa4e40777990c64f039197136a05e7a4,
      poly_of 0x3c63f6f95954e65e181d6c749bfc7e7bb006241469247fbd6322f95d362137f1),
     (poly_of 0x5501809b705e07880e08c008e9b78931e8c135fc923df372794b867650e5e5e,
      poly_of 0x81f450881b8436920df6566ff12f17f469811136f33b48faaa878816402dab5f),
     (poly_of 0x4001a51d4a04b26d0e1e972141da3471ef05489bed6509733889afa1c6a216a4,
      poly_of 0x5f728be2c97e9066474579292f705634f825539dee5e4763f11fb4faea62c7f1),
     (poly_of 0x11552a0712041cbd317e17b8dfffa80c633836f3fa5c0fdc9ae23d83c255170f,
      poly_of 0x5ff98760441a364cec104b9942b386be36d6c9bc4bcb56f5f18ac1f5eac5120e),
     (poly_of 0x11556a42e2a6c93e230cfdeaf0263224ae36a0513be3223c2cc34a93d23b16fb,
      poly_of 0xb01e1ff4eb0b05f6d1c440c801f3cddf168b84ac131ea85612b825906ddc86af),
     (poly_of 0x4500fd9a85492b392dca4c059605617da93a52c047d0bbc6fec91607e1f0afb6,
      poly_of 0x140bd5e4e00ffdaaf1ab1bce1577ad4eb5bb35fe03c3158a5696a9ed59ffcbe3),
     (poly_of 0x11003b96b14948b0e15ad355747df018c9f04578dad62d009e51d81c075e4ff,
      poly_of 0x5177664e86d5e31b49c2df736ebe9c688eadd052a304405f61507225f9f0e0fa),
     (poly_of 0x11012ad54b42dbd722658472479dc41fc9640d79f1fdb7e8cedd21914a5d9eea,
      poly_of 0xa93a7aadeced9cd75b8d5f58ce3357a7ca120d886e8fdf3387aac36cc0c1abae),
     (poly_of 0x4441fab969697e2e66a6b9bd1017121dc2696580983b50fdcf9c54e1ff2f30cd,
      poly_of 0xd5372758d87157efa6f4a2ea423cc2f62b95939579346af1d4eb47064a9ac499),
     (poly_of 0x5111cae73f1a33ba676aed9d555ed6d79cfdb2dc86b51687b57a559af2c34a82,
      poly_of 0x7e0b8abe53e950f8b86994c9cb3059a556df3905d6712eed549bf83ef12aebc3),
     (poly_of 0x1554304507b02d945bbbcba2b2d5a8bef4f944395effe7b06431242538540d98,
      poly_of 0x888f2c33969763bc405c1164a3a6d4927cc40c1479b95df0b32b0dbe851dd9d),
     (poly_of 0x4040b0aba109e0025ba40b62dd385fbaca406a683ea1382c39f27317389004,
      poly_of 0xfecb2b39fb96f07831acd0e23e87d9d37e5cbd2047cefb5e920a67ed72aa1155),
     (poly_of 0x5554904bd470ef1509c9f095b311c41c872074f3c995c77be38d8aef4bd2a611,
      poly_of 0xf643cc9255f0674182f88d9e6b9b17c097a6c4a0d2cdf9ac9841d4c5510c4700),
     (poly_of 0x5514d0fb7ec0f14a83b474fd7c7d1d6f0c6de2069365397429221e21e2bce04f,
      poly_of 0xe8e07ed05188af0f65ba2fdf5fe59ed155756dedb136961f30ac848541c0b04f),
     (poly_of 0x544097fdf081d2b68df131ee45f692dbb219a83477021aed5d23c6cd85297bcc,
      poly_of 0x679b88958f3bbdcb04ad0ecd62544db26d885bb5321527a7adcede280bb92b99),
     (poly_of 0x141572760377da3d7b19ac1c12fd38adc6da63b3088817db8ac1a703c9605f57,
      poly_of 0xd10d621b74213644bbf25302a56d6131aaee46b89b10620184db0e338a94ce16),
     (poly_of 0x5101cf9f20a23ec2ea5b83ca476e2c3d90d7bcb2320f9eb33071f5f5cdae9b8f,
      poly_of 0x6ff477672ddf72b15083dee093b632b731fbe8b0a2035587ed3c94e03147ca9b),
     (poly_of 0x145566d36bba3dda8e60f3fd1cb7bc015d9456ac2a8ede58d5173c0bf23a6dd2,
      poly_of 0xa9559a2368719526bae4d9a25a3928b922a36cdc0fda409f936ece877e64cc97),
     (poly_of 0x4441eeec0eaa4329f5beafbdd13b42e7bf7fb5c0c87b1f618189ac0e8ed3b641,
      poly_of 0x12e4a2fbfc19bff934faff184785c20ab60d6c5b8c78f106b13c16e8096f0754)]
    (poly_of 0x12e4a2fbfc19bff934faff184785c20ab60d6c5b8c78f106b13c16e8096f0754)"
  by (simp only: eval_rules)

lemma squarings_64_96:
  "chain (poly_of 0x10003c03c3f3ecb1904b4edcf26259f850280002bcefd1a5e9d116f2bb0f0f001)
    (poly_of 0x12e4a2fbfc19bff934faff184785c20ab60d6c5b8c78f106b13c16e8096f0754)
    [(poly_of 0x10457dfbebf0f581d2e72b5ca4317b33db72f743f6e897e5c6742f12d6b3fdb,
      poly_of 0x1e22c55ed04628f471c9cddcc21b4d96e9cd737204214bdf69135f8ae4f3becb),
     (poly_of 0x15407076b5989aa0aa78872c8533328fe167e48eb6d2f9517550b2fec6237e6,
      poly_of 0xb6e16802c1e5a473d3c646ca742cfd35cdc2f8abc30facd843f19411729e47a3),
     (poly_of 0x4514a8fc5322ddc4cad9b4c49fffe11d8c917b5b1bd643288f4ae12f6e29f217,
      poly_of 0x71583507471df592e9121d42d889f1e6cf7a45ddbd380c46e1040fefa7016612),
     (poly_of 0x15012180b03b17fe66f707091ab1f1da94c75feed71cb53e79bcce720f6e7e35,
      poly_of 0x790035ed5d8a52063481941c63b9723bef00865ccdc62b407dc73de451f84f31),
     (poly_of 0x1541303081532ecdd01e16e3964eae3c3f4eb4c506cf47cceca052079b4bf532,
      poly_of 0xc5245c9108c8303b1b2e1e5f58ca50e9e2b26892066519e7b7fde9c10dde1033),
     (poly_of 0x5011c82210fc98b5071bd56ee72a8822a3dd33211cd5b8dc88bf5000b959d8e6,
      poly_of 0x72636702af55f1ae80dd958fc2ce8b38d0229895c9855019f7e31117fca1fde3),
     (poly_of 0x150424c96ddfe98eb3887c1e7a56c5487cbb7e2b3fb3532dc84e31053a65b026,
      poly_of 0xaf24371b5a1a053d59970509d58afcb4369b623ac732f278f4fdf1938a08c423),
     (poly_of 0x4455fbde79487c56163c8b53d82d53fac4bd13ac1f4437ee520d247a8b2538b7,
      poly_of 0xc2a214d5ccfdc9cc98aea009de1e6b3b4f2a8443cc705e1be38bd8d6060eecb2),
     (poly_of 0x5004880633cbcc3ceda423a9d7756dbec6d644a1da6653237acb5f97293a201a,
      poly_of 0x45c97103176ad4cb35a81ddfd74498bfe60945b17507ff1779e326bea03051e),
     (poly_of 0x10116c7d8ca383afde261b5d1ef8052ee65cdf269bbcd95299090630848b98,
      poly_of 0x8c79d3fd0cd87d25e54b1f90f1804a5b967c5d39bff598c3f99f64a8eef50acc),
     (poly_of 0x4050e583373491e809f2cdc320099a1e956112a64de9b51015652936e2c3c06d,
      poly_of 0x44a26649c72eaf799b135f39cbd2444200dc697c0ce8f5bf5bf7c3946011203d),
     (poly_of 0x1010783b7e7042e1730dd27309de23b19a25c30ea32a1108ffced2425bed3af8,
      poly_of 0x621f84d4c5b7d5b26f0bd8889bc16b6505063f82926b10501fe0ce6e4a5fbfa9),
     (poly_of 0x1404325930ba0eb4f203b53036b32270ae6c23ef1cbfa25203cc34ac15c98843,
      poly_of 0xafb60de4ef76f2d8a2ce3240999f03958cac609dd3f769ea0bd0d4953231dc02),
     (poly_of 0x4455bada8fcd477a7fe2a00598eebef14ff3cfbdc80c0c160ff6990910d3b447,
      poly_of 0x6d9d47d177fda8e15d5a93bb678d1ff3b46e28d0dd20be9ce41a05c6d5ad6443),
     (poly_of 0x1451729d5daf75e8f1cb7c2e58aa9d8ce8aaba0cf7127e5a26128c98ed3568da,
      poly_of 0x69b492ad849876a0f671f175f29bd401c05cb5489fabd6ba3750097bc18818df),
     (poly_of 0x144176e000db77b8e237eb269c2e7aad7fb626dcec080e7e97f228d63241aa70,
      poly_of 0x2c09ebb60b81941a5d23c239088b488e0355dab5aaada3566c1a4d1bee4cfb25),
     (poly_of 0x4500f8dbcc7bc1156f7bd2881cc5560fed9645c00050217ae7e8d151e36636e,
      poly_of 0x3d8c3676399ece2d1c4df4e6dc4daa6ca77d08c97aa93a7b85bc661b5fe4c77f),
     (poly_of 0x5514c5fe4f1e680d06954f7e9a3ea5e165abd2c9da4d3654eac0426ae5bef7c,
      poly_of 0xd6fc185137af1d8b97595ce59431e3aab12fec5cc69849360d50032e0877ba29),
     (poly_of 0x51149aae3662efba693010496e2070ab337b66dc16ebfbe66ba866006b965c16,
      poly_of 0x86b251394485c94bd5cace972fee73fa754228fc6853084549aa26e5d4bf7857),
     (poly_of 0x4014b539b57f423aa1084fd4a3ddd42af0d3f996dabf7a5dc458d33a572124db,
      poly_of 0xb0baae7f98b528c0bff33c810d4f1e62dfd675636a53a2ad8d480422727ca5ce),
     (poly_of 0x4500b98a3f7a2a57079bc78e320a8b15e78b485110356ff1f3d8b8b0c2741978,
      poly_of 0x3fa865ff30ea93f76a4d1fd3bf02d5587d85e7cb6751bcbbb0908faa94bfc92c),
     (poly_of 0x5554840fa2dc3ef7dd31cc8dc6ac4582c69144cdb003c8ff564a02abc9f2c99,
      poly_of 0x3c3c2884d98788bc5aa4dacdc52add36a789c54654ca7c28d0d6be52a69e58c9),
     (poly_of 0x550095cd95258aafb1ad99929150e42b38c4524df5c6181c898a2b8aada66f2,
      poly_of 0x15e0fed2f7bccfef4c9ca45e4bc2a3c341288120b4579cf85f3f3b8fef0ed6b3),
     (poly_of 0x11157ff6c991755a29c7840db73eb050260b02e21a0af8dc4f868fc2ee5584b,
      poly_of 0xa949942afc5a2f2c9c885317a50787eb53b8a4a16a46d7c3d262b21891db8d4e),
     (poly_of 0x4441efbc0df27709b42b02a90fdea5737fab08e7d662ac3067c226f93b2f89c9,
      poly_of 0xfe740ffad9e176874ea029ea5dbf8c1dc0a2019a1a152787718aec6a573de99d),
     (poly_of 0x5554d51e2c6efa2282ed64a2d9666e243dbf3203a1ea5626482d420dfb97bddf,
      poly_of 0x77a27a67f88f49e1228277008b5fb66935e2e29698d7eb0d07f145f47c78ac8e),
     (poly_of 0x151574f7632f6f887d9ea6d8315cf3e58dfaeb80aa760be90c8110e8c53340af,
      poly_of 0x1029f062e580da266648b4ef24a588567c62ece20d8be0116627da855e5050fb),
     (poly_of 0x1000781639ccdd5866aba6eea2a0732d098dbc93556bc120eb2d31e1e5532f4,
      poly_of 0xa0d23922f4dc99166f17a03a6bc6a87734092a8e98b795bea9ffe6995923a7b1),
     (poly_of 0x4400ae0a74f3872e3eae4cc22aab901d6cf2c555f0ce1f2e64cdeff2640b8f06,
      poly_of 0x336f2f9401f8204135e67f142da25aca0ee2caf1df36f661062e89b53f6cea07),
     (poly_of 0x50518992b99dabfe0bf6c7a339fb4fc3ba08df2e3eba6f22673eada7b53d502,
      poly_of 0xa3a29886c86c3cded617e92e93ea456793b549a81fd07be4bf67135726c63517),
     (poly_of 0x4405bb06c0eda5eaa79c8a5dbb36e0870a912b17c388568a2895c1cfef61878c,
      poly_of 0xfe0143fd314c9e7ec51d91ed4856b46ef9d3a86c856b8a2621ff06188c9cc699),
     (poly_of 0x5554c00f0cc24f77045ca1856b39dd25c531bc0acebef3545b0e6f5d03fd76e8,
      poly_of 0x31eebb6c82a9615fb27c05962ea56a13cdb45d7def42c317148c356c3114b7a9)]
    (poly_of 0x31eebb6c82a9615fb27c05962ea56a13cdb45d7def42c317148c356c3114b7a9)"
  by (simp only: eval_rules)

lemma squarings_96_128:
  "chain (poly_of 0x10003c03c3f3ecb1904b4edcf26259f850280002bcefd1a5e9d116f2bb0f0f001)
    (poly_of 0x31eebb6c82a9615fb27c05962ea56a13cdb45d7def42c317148c356c3114b7a9)
    [(poly_of 0x50158979a615b33d4466979d77fbd67cb0d68b1f72e79885b111880df45faa6,
      poly_of 0xc78709f4e0724160d863413b92cae906d8aed72f2c4c8d065d4da92b5d749ee7),
     (poly_of 0x50158c28fe0a713fae6181110c73619d547b45cc7b6cd70f53b0dd23eacf43fd,
      poly_of 0x43b4a1c47d75f54af59e618faaebae8ae2ece3b6969fe76ac72a478e776aa7e8),
     (poly_of 0x1005791feedcd44454a1c3a786ebb08b7ffc3429584cf2ecae72fe3d02196299,
      poly_of 0x57f74d5c8e13eabef018da68303dd3aab24feee905fd903285043fb7b5ec46d9),
     (poly_of 0x11156ae6bc7ac1049996438e459213d21f4a621e7975ad15ad6fd2e8e3ccbf23,
      poly_of 0xbf7e526feafe9fab6bef1c2cbcff5536a797dd2a234c782b1fe7835e4087fe62),
     (poly_of 0x4555e95a6b0ac99a25a08f2218914c7f74f3aac1a6e8dcf06bb4bb9f76688b7f,
      poly_of 0x944120083af78d6175b4d7f6cc9f25e15aa27a47492448382b8e518ff5d4cf7b),
     (poly_of 0x4110e3f3593528c2164b1e7a2bbbdb7b76a78ee164dfbb6096a800951eb34ffb,
      poly_of 0xa1d8b4c28aebb8511965ee22fd231ead1bf5aad8660b3dff3d6f902c3475cabe),
     (poly_of 0x4401ae4df4644263cc2c0e139c879c764c9dbd193b081e85803335113061c582,
      poly_of 0x9c9e175a184afb5365e7e4d9e2832455c97a1beedb0cd1818f55a96afe8c60d6),
     (poly_of 0x4150b2569d76c0c7d636b20e02860484fe9e929314e84982edd774b2c93efe1b,
      poly_of 0xb9d862913d6f7e400a65eef99174032874b6da57ea2bc33a652cb4ccd4073f0f),
     (poly_of 0x4541ad7d924462ea7fc2ddae0506e3db554a6e18a0e7609c1c2de2fec14f4ba6,
      poly_of 0x82998b76e46a33d6d4b46d9444c365a710698e01c2ae9c871045804fface6bf3),
     (poly_of 0x4004b140e851454adee75d5ddd19e581996869952482df6070fbcb0a99e000c8,
      poly_of 0x8da69514b40b00e7f1a9cb543a0bfa1002416381d70e6c430a2c871d4e66d5cd),
     (poly_of 0x4051b4d52814afea9a7cac6aa611b88fe0a7213ee86401a63f7c6e938f39ef69,
      poly_of 0x27b45c44ee4a622983d4e917f16be77b4dc5ff02cd80ea1db79a9592b42dcf38),
     (poly_of 0x4154a20cb544049f14d723b181cf3aae0966e23b6baca2d3cb73b1b9c327457,
      poly_of 0x3762beab010e60b1219d46c745e04de7ae1e5f3ff8b477204d5d5691e346a117),
     (poly_of 0x51518f469c112ff370aba515cefea8a1aba4ec2187ff895b616297799aa1e68,
      poly_of 0x1cbf90cd7272db76634ad6497e9d5d70b46fba890f1ca8f6a26c20feb2ae9f7d),
     (poly_of 0x150465989ace4cf09f8cf80130bf0fda6102f0c6e2882ec9c60de8ae217795c,
      poly_of 0x5f46daf7953c1bb34fb63d3b5eb990979b34b9c8c6c9c0e0b0c0f65d5e452c0d),
     (poly_of 0x11552f170ff9fd2946906274c0d2675f5ffe2a92dfeb2b3224e5a50996c3e8df,
      poly_of 0x127923940e883a8188dc353d2d4788aa08f672eaf81f8987fafc3b0810db88e),
     (poly_of 0x104168e0dbf445732d64378bdda895db6b087a369e018c604facc2c1f4bce,
      poly_of 0x19809df824096ba19a5475c8d2fb2d20e903694ada9d6795ff09f37df22eab9a),
     (poly_of 0x141433346526ccd27533458bdcbc19b8c178853dcd26a53b9c143c459604654,
      poly_of 0x7ea9fc3051e87b78e6a590ca622a3320861797e8573bfcd7656c70a5f3f5c710),
     (poly_of 0x15547441eda5e3a5254669a8e65d87889ab8ae2387872925337d1cfb7db7b58a,
      poly_of 0x644a875145d5d51f84d72b234e8a54795ad3eec2014d42b66aaa9929398cd48a),
     (poly_of 0x1410237b0c306d7d23fa96839e3e18394e46beaa8b9c9cfdb12b70e32773e333,
      poly_of 0x6d2cc53f91af5f85203951cfd23e94cb00659f02b37a017c6c738865ed73b377),
     (poly_of 0x1451379ce166969b1b64b9df8e4acd431e26f2f53e47b21c27f8ae3a547ef979,
      poly_of 0xc0864662b10083e8bef3d95e4e54413a8bc10737770d137ef7af674289519c6c),
     (poly_of 0x50008c192d16ec049934a5e1e2e5c8eec7d107c85b3bfd112b716ce215bedc37,
      poly_of 0xcecda49faf04bbfbeb185b3b61ef25071d6286a155723d48f5238b0ff86d1867),
     (poly_of 0x50549c9f48c5a174c681caa9ced131b4a2072be42dd92f2da7e0242f0cae2e2f,
      poly_of 0x2732a7244a31e5dda02ccbd8d031b5d599c6cd156b9744df644b243f9d056a3a),
     (poly_of 0x4150a346e2cccc7a674b62687cfc30a47a5da505c0d22aeb0789a72c3e15fc8,
      poly_of 0x216f9077c64f36f6df8f6390d609a5d475e9335039224b3b25523b168236da8c),
     (poly_of 0x4011b565746fcbdabd6cfca8a2a8b6f5db81d502d131c097d70f53a198e6128,
      poly_of 0x56ab0ca212a8d012ef5b7611f90b7c08565c9f7a11c40482c291983aa3a3a178),
     (poly_of 0x11147bb5534d6533aded2f9972d23395a27dc133561218ef6784bbd596bddc9b,
      poly_of 0x45c2ad3649667c04c7abdfbc652abf3ed73fe72ba2d98892b400d4604c1d59db),
     (poly_of 0x10116c38dd0f87382559c45c9a260e78abb68079f936663f9f51644b50422bc9,
      poly_of 0x91c1510f9b6f2ef8058b3d55bfaa4aad543fa081564a326f9bb885cd5aa00a8c),
     (poly_of 0x4101a3cc7f95dfc583dcfcf9df404d2a3b6c1c967ec78de7c0389f143fde7ee7,
      poly_of 0x9d6ef09217bf59b753c8dfba6c9aacae09cf7d85a86c1a907a3e03325fb2eeb7),
     (poly_of 0x4151e755c9972d6456883d6796e4ea23b520ac722c711de79b4b74344543d66e,
      poly_of 0xa1a3090ef816c214d8289b4ae487d7e10bbfd59ed2151f31e98651fa6fb0337b),
     (poly_of 0x4401bb08810a6a9595aaa52db43830bc4bf85eb161e33950fe7ea929cbbfc6bb,
      poly_of 0xaa72e405fb26c80a56e93ecb5b3619951b18a0517cea386aaeb33557c76543fe),
     (poly_of 0x4444eaf5d4128232dfa723a0030f1a03f57a550bf6a3d65c94ad0d61b524d49f,
      poly_of 0xfd4d894c8f82680a8397aeedc528c3f057c811875c62528446555cf90fc3d1cb),
     (poly_of 0x5551d053a0958e43a509f73fdf5e399a7f07200d2ece2c6036108a3054898850,
      poly_of 0xd46cb8565abad18ea50845f0f43019854dd8801baa92fddaeacbd852b93bd815),
     (poly_of 0x5110dba18149cec94b254a06b3b3d40c3b96b5de51d7c321c19b12870cdd9bab,
      poly_of 0x39abdc4529b1661ca9582618e03fc9aad5a61266f0c9392c180ec6d33cfd0aba)]
    (jump_poly
      [0x180ec6d33cfd0aba, 0xd5a61266f0c9392c, 0xa9582618e03fc9aa, 0x39abdc4529b1661c])"
  by (simp only: eval_rules)

lemma squarings_128_160:
  "chain (poly_of 0x10003c03c3f3ecb1904b4edcf26259f850280002bcefd1a5e9d116f2bb0f0f001)
    (jump_poly
      [0x180ec6d33cfd0aba, 0xd5a61266f0c9392c, 0xa9582618e03fc9aa, 0x39abdc4529b1661c])
    [(poly_of 0x5414876bc13f5ad39c6db10273d378c630230b29605afbea5a467c82f1cbcd6,
      poly_of 0xa23e49ee6f1a7a8da5a28cccb37dba5bccfc8ca2814de79e8cfe9bd9ab71d992),
     (poly_of 0x4404fa55a2d77e389b73dc6b7889b56ff0e1d573a9111c9bfb418c1c06a53d01,
      poly_of 0xd4e9921bccb8090bca8a45310219dc675e38f4fbb6fcda721b2a94a672a48c05),
     (poly_of 0x51109bb0753c4904f147b65aca6292ac9c9f12fe9ff57e956e7c8a315c39bb60,
      poly_of 0xee658f69deb5df26fa0587a90f71743834cd4cc8228d74acf30974a2b1dbbb71),
     (poly_of 0x5454d7df56c280bdef1516b1fef8cdb6d73fb81d1c3dacafe8be919603e92788,
      poly_of 0xd7aaaf48aa459c582573e3218d8bb7dad2c0d8e0c8a2fb9bb42bd4670583b289),
     (poly_of 0x51158bb98cbed1d8fc9300514cbfd01b8b390ef2aeb276cf2dc82b9b9397d8c2,
      poly_of 0x8fd437c01abeab24d82be75b83dbc2d0cc7efdcfed1ac303f6a5ab84efb67883),
     (poly_of 0x4055a1de5c39f7f5cc0619b765e7e33aa1b9dd2cef6b75eea8cc638a386245a1,
      poly_of 0x7d16742eceb4d5abb0b87a330b854c8aedc8b8d02a22310bc85ee5171484f5a4),
     (poly_of 0x1551311891378bf85f7427c93ea6602ef22097cba09149c4d97ef45d7826f417,
      poly_of 0x6533981804b420ea13c97c0891cab48a4157dc48443e35654298ba0e862a6007),
     (poly_of 0x14113639fd6c954c4f8e366e76d862a522a3a5463b24424d7b9199f9d74a9469,
      poly_of 0xa1ee335d14807ae0613b2ed9f0acc107edc28c89cb341660ee5f5a6f02dfe47c),
     (poly_of 0x4401ab59b8822ca850df0d24e3b86421b9c28ca2b51e84a7b3f61c91e625230a,
      poly_of 0x799d469b2145a8a30531513e8e0ac7064b26f71c1fb1b47b5ec3050c6b43565a),
     (poly_of 0x154171616757a441ad88e8367be1986254d0a6810b97b3fce02fcea65e0f597a,
      poly_of 0x6007bb31ec5a2964b6acd7be4906b73d7123f2290a1f413b34f0a6799020283e),
     (poly_of 0x14003316363add5ad0a062a9993641febd6d70fefe8e2b1140171d91af8a8be9,
      poly_of 0xec907801890a47ab7e42d6f54484049954fe6df4cff0db73aa0711c54877febd),
     (poly_of 0x545082c1c3c03a88ec6c8e82d6fce9ed9db90ae5d8847f79c8924bc356390322,
      poly_of 0x964e9d188c16508ed8c4367e574ab1603ec263f5c999196e03833e601d82a673),
     (poly_of 0x4114e3a91c41a419fc719df99ee3d87f34729b8707e4373d18b1947da3b5f474,
      poly_of 0x24d9ba21277dd8d815ac212f3b861b5af524fd4408357a5cd64f3f2aaf8f2171),
     (poly_of 0x4105e7d6c50fa24c6b5e0b7f97b88deb982a881de55cf872018c09a3fd3e7df,
      poly_of 0xf89354cfe1e6b5fb17a7af3e97d8c402bbe0e2c0c44b2e1cfe9b778d7d1ca2de),
     (poly_of 0x55408138fd656422bef80c8f7fea76e22e83349ead10794561771f50ecf35729,
      poly_of 0xb89526857566cd94aad8c318bc459ccef4873d277cd1ab72695cf225704e767d),
     (poly_of 0x4540bd2f7ea16bf04704dbe48dad07720edcbd174bb3e2d4e01c9d9239871c0e,
      poly_of 0xb81875d0f4f6f253962c90a866ea6719c51212c8b1aa27873dcd32f39276a95f),
     (poly_of 0x4540fd7e9f65d316b7b1821f80d6493a2a0d72c36aee5a3a517acfa7c7ec413d,
      poly_of 0x11495a1b200d4eb8a5a140826c351d071c554e97b2277f47b43cf8e4eaf8e068),
     (poly_of 0x1011382d4e23b18733e4bcd9180546f28f6a7eeaf4c915f0f5785757dcfa972,
      poly_of 0x3e53bfa0db28e11005af69bf1fb82891ff957b6f55288048417b73b324735d32),
     (poly_of 0x5541d06ab61add154ed33f6bc40d4a27b52a884f93ca19adc2b15ce03030d98,
      poly_of 0x48f6214560239b46d3da65e82bdd39e2fdb3f4ea18f0a56bb6c7a6004612889c),
     (poly_of 0x104069e75c57ed14002fe4e3e29eb87b094aa5e5be4457a76eb2f9c6b2e9850e,
      poly_of 0xde364ef64a484f59ec60b640d685171dd9dc0929a54fea75f1267ba0ec3c645e),
     (poly_of 0x5154ca1ae5df9b6e6540bb22ceffb56b78f4c766c5357373096dbb99f9b824d4,
      poly_of 0x2b29c7d3ef18d3b3cb6286958a9af01ad7f1c5ade3de404a2761cbab38e0f580),
     (poly_of 0x4450bbd74dd62a5f3d97652899e623a15e1f038bb42a39d5ffa201f996badd6,
      poly_of 0x6a3b6a431109e3d199455c744595c01f547db3576511edc25a5ce93f67a3cdd6),
     (poly_of 0x144436b96589a6f5eb64c9bb1920d374cde5f7a306bca83a94431cdda085428a,
      poly_of 0xd2333b0c03f620ed1d0a619aa607480d9d73da9f40f374afd80c1c832a739e),
     (poly_of 0x5104cac7fd3c02e52f27875cbb59e23aa5773dc249a04ba6cb49a8ed0d78,
      poly_of 0x3f03458e0273439b2a47bd3fc39081daef46e42368baead311428ceb13f2cc2c),
     (poly_of 0x5550c0501dfa919c94e1a2f985b2eef7e80c06fd2f9e460a8ea10a3b8641adb,
      poly_of 0xade2626c292a2a9f0fdcfd4ab0f5afee9f8160e9d012439847558e815c898e8b),
     (poly_of 0x4451abc5a482243886f15fb7caf91a5bd1b0043751b25b897009a1f27b430217,
      poly_of 0xc35abe5cebab1ba4d84fc5f798c1a55ef8be2d3d6ce206b0e848ff06d72a9252),
     (poly_of 0x5005dd45778b0309c2ed6b7c071ee8f12e5d37bccfdfcaddbe5a92c132749688,
      poly_of 0x7c25b2c3282fb73060ef7116e6f3c1e0ee1d857a675ca074b0dd0edb19af078c),
     (poly_of 0x1550341e0dd660aaee47b021ebc0b4e9149c4903b8c890073eefca754abe10da,
      poly_of 0x6298f48fa13cc12f57059d3707ee283a6b590805d407e77eb51a19064886308a),
     (poly_of 0x1404724cd584b7b4037f97037a0bc2431a5d672a0cbdf2b8e1d9e6593192b274,
      poly_of 0xab5d0760d1fe77dc1780be415c86b5d5cf69cee6182fa1644f1102acb29c3230),
     (poly_of 0x4445eea34fee12bde5777d995f895bb216a8c3466204ef7948d0feb628bd1a11,
      poly_of 0x10000e5f7bf7a58bd81275131f4f91f8a57d650a8007d505c639b7c24b26ef11),
     (poly_of 0x10003c0393b2354bf7daf918557c68cb12183e16a71777179b2a451dc7f39ec,
      poly_of 0x9d89163f581d1e0743eedc2ede6d478f1d3279f36823213295b23eaa04478ed),
     (poly_of 0x4151b3405ebe41c2e5bc2a8b6191f3f5f93a480a182152f3e433abfb856651,
      poly_of 0xf567382197055bf04823b45b89dc689c69e6e6e431a2d40bc04b4f9c5d26c200)]
    (poly_of 0xf567382197055bf04823b45b89dc689c69e6e6e431a2d40bc04b4f9c5d26c200)"
  by (simp only: eval_rules)

lemma squarings_160_192:
  "chain (poly_of 0x10003c03c3f3ecb1904b4edcf26259f850280002bcefd1a5e9d116f2bb0f0f001)
    (poly_of 0xf567382197055bf04823b45b89dc689c69e6e6e431a2d40bc04b4f9c5d26c200)
    [(poly_of 0x5511d4e7e430416dcdd62a0dc3be37640345a2b7404375a6e690e3edf008aa66,
      poly_of 0xda01b157a2b021e9be61763d20685d37f32c270b20ce5f3809f16c9da06c8a66),
     (poly_of 0x5144cf33bfecf3d7e26cf164e6fb14598ab89325004e913b4cb01b84e3de236c,
      poly_of 0x9d7c0c2cf565896ca1fbf40a9936c15daccd356978aafc8ec6d70a8c6aec7778),
     (poly_of 0x4151e6519f0891bb6ca9edbe7f67792eb73397b9dd99809ed250bd601d3b327f,
      poly_of 0x592056e6bbf026f6fbdcc8828b2c1889327a229ce124857890c526d9d0b6773f),
     (poly_of 0x11413b307fea33319c23f70fca0459a4b3635240b80851798231f9b7554f0250,
      poly_of 0x746ea463d01f96a40fbd392d992b9686e63e390ab5f8a1a5a14aaaccc2890705),
     (poly_of 0x151024ab3e66b39deb71935f6334e1266e3f250cfb132a478a429b83a4683124,
      poly_of 0x4d1dc582c66946beb4bb676b08602d23441424d88baa1859d8cd74de1850f135),
     (poly_of 0x10513d9d0819042a00c60b936a30fd336d0574ff44fc57b324a084fc14d6d15d,
      poly_of 0x621c1b93e8fa11834b145a211d1fdfdf994b90f8d7149b3d2adbc6211da0644c),
     (poly_of 0x1404325c71e32d73b62a59eefaf9f966a15da6fad3314b0c21afe9c914a87c8f,
      poly_of 0xfaf3fe8684e4e6117bd5128045929790340889c14a3c57362fd0c3d604d53cdf),
     (poly_of 0x554495378ac74416cb94c1220518401adcf60c63a0737136b8a6ffccbf146442,
      poly_of 0x4a55ccb047f7ed1f6d8bf975dcc010745f15699d4848bfcc01e53e1bc659d517),
     (poly_of 0x10442dedf7e1b9a0838a8f78e2c957e6a7c29e8de42fd0c9cdc1b50921629d2d,
      poly_of 0x929a14fdb0efb0b5efcb70ac050d5190629372507db35e6171ce8d56b9692c38),
     (poly_of 0x4104b2859067041fdb5d3a60189d27b3c7105944161d6a9295872fa68e4541e5,
      poly_of 0xcf9e9a1026630265de5841dcae8e37bbe890fcbab799d18627d627035f8c74a5),
     (poly_of 0x50558d99b267ed50a87f00f1af7e1ad1e738d66601e0886e8e508c28bd162809,
      poly_of 0xbfbcf2e3dee7abfa9d53ec478a607c58fd3a5a8b24565256b405010a26f11c18),
     (poly_of 0x4555b95ee308bb1e4e4620aa08856f8c4719dcd5e398d0fbba1738496e2e45ae,
      poly_of 0x20d9430de74248c9bc2ad4d4d5a4ecb88f148500f69fe8f8b072a316838de4ee),
     (poly_of 0x4005e413a87cd666f7635ed8bce51555b59e92f9e1cee3d19466912e8df653e,
      poly_of 0x6db40995b68e4c6863eb42892a0f4361a0851e63a9ec247c732bd9e5c94b916a),
     (poly_of 0x145176dc420872e66ea69bee9ed51963883a537711b41f8195f70b140c46e68a,
      poly_of 0x8543e7ab4077f4329f4387fbb3eebe2b38ada6d1a5427bae87d88258b7992ce),
     (poly_of 0x4011e034f079fdef14389e9a9996d01ec35ca391d75929016e539d3b3f74a3,
      poly_of 0x2281c456455c4a6d7f05b87543072eb80a1db90231a55a326735bb34738c34f7),
     (poly_of 0x4044f0e4544311154f0c958022253443f8d6b1cea4d433f7f45a43753876476,
      poly_of 0x2432aaa71d816e63259022fe05f4023e0b4df9e68366344a053ff7e4e8581163),
     (poly_of 0x4100a38aea15ff4426f58ed9feb415c9411d2548aa5be8ab37c26b54d8bd904,
      poly_of 0x65e8192b0d9e2abdcdf361320fa2c0b81690de70406c5b2fc89e47923390d01),
     (poly_of 0x1411677c725c5a9369f282558b3e127414d431997f1606a3793aee8c04338c,
      poly_of 0x6f46880c9915650efac68c11fe1e596ce3da1faabf2f681d54ae81c77079738d),
     (poly_of 0x145523d7c22e6e68d1d79d54855e620a0ef48307806e22a1da653f3ead8b359d,
      poly_of 0x8de6f3aa90cec54870f4ef60d5dd38903ac1fea4d54d07109350f3f8897dc5cc),
     (poly_of 0x4051a4d500034f7d3e74508662a13dd5322b27799cbec0cad4e430d7e64343d6,
      poly_of 0xf930e902851defa3cb5512bde4e7bf59c22f28a3d0afc80be7b23f10622b3386),
     (poly_of 0x5541c53e870fd9ec460cccabe8602b4c458efa63435b9d88a3314032d5128c1b,
      poly_of 0xb05640b794289f317a55e55bbd72fb817bf0fe15bdc9337fcaefa30f55ce5c0f),
     (poly_of 0x4500eddaa8ef9c978684fb948237f60486ef824906b24182040c43eafebd1d3f,
      poly_of 0xfa65f166fbb0db461d6cf653e616a08b8b27bb7572d287130121e7a60194d6a),
     (poly_of 0x5544d423796f71061d5e9bef25797da9840eea2f12ded327009b004cbfc120,
      poly_of 0x7a974830be953c4a1c46fb7ea04848573444a78d93dffc9a646fe4bfa600d564),
     (poly_of 0x15447129a7203d80a6844a7adbc049cb74f5397f7f9ff44e737a13996ce90254,
      poly_of 0x7691957a691df817b8f35b514eb14767be489e3f8ac415340ffabb6c5ce8d644),
     (poly_of 0x151471f1fb8fde2932ab78e65d31ce377be0ce3f22ef6b90a4027866570dd64a,
      poly_of 0x57f44892a2ad86eaa9c11c5aaf2cab9783f997e75e88067f5b16024d0563a65a),
     (poly_of 0x11156ae3bc6751b3415e9de7eef988176755cbf099a4377864129f7ec0d3c231,
      poly_of 0x6062e8c7dc309cb2947c9b3af027e7917fe5c232f064f464a6c7eee290c62375),
     (poly_of 0x14002707140307610123afc7f27464ef6c8e2120a5edde834d1e3b8a09a807f0,
      poly_of 0x2629bab11c98b6ae4c5bac1c57856ed752a29a371c84710f038e07e40a2812e1),
     (poly_of 0x4140b72ac7816035f19eb33d161606025df226e581ae5057d0eb423ab8d0232,
      poly_of 0xaaa38210dde97c64c3f6fbf07e4643273e3494a05f161ecd637242c48b99b633),
     (poly_of 0x4444bbf40fc8847a690ff1b1567749f0dcd53bfd38a552190abc7cef61b6b82c,
      poly_of 0xd6e3b368fb2a311081d165297d239d2ac188ca2c76798705c4d01c7eb078fd29),
     (poly_of 0x51149bfb7127e1779b0335a3860a0ec226c557dbd790841185ca5526a471f367,
      poly_of 0x6309de7dbb3bf59d5a70368075759194acfe2b03b09803d07f90ffb775c02726),
     (poly_of 0x1405334ee23420e70635733bdc9a2f91f4f3ecf0324c5c76bf84b676f65dd6c1,
      poly_of 0xdb9d6b2d354321b478a3e873f00291ed902b0ee66222acc7f0f03027dfdc22d5),
     (poly_of 0x51458e60dd9329fd16cbcd40f9471b538917bdb44b54cb98394c9666ae5a3aae,
      poly_of 0x39109bb02acbe63577710069854ee241c5004e441c522fb376e15d3efefdcbbf)]
    (jump_poly
      [0x76e15d3efefdcbbf, 0xc5004e441c522fb3, 0x77710069854ee241, 0x39109bb02acbe635])"
  by (simp only: eval_rules)

lemma seed_jump:
  "(Xoshiro_next ^^ (2 ^ 128)) jump_seed = ev (jump_poly [0x180ec6d33cfd0aba, 0xd5a61266f0c9392c, 0xa9582618e03fc9aa, 0x39abdc4529b1661c]) jump_seed"
  "(Xoshiro_next ^^ (2 ^ 192)) jump_seed = ev (jump_poly [0x76e15d3efefdcbbf, 0xc5004e441c522fb3, 0x77710069854ee241, 0x39109bb02acbe635]) jump_seed"
proof -
  note cs = chain_sound [OF char_poly_annihilates]
  have p32: "(Xoshiro_next ^^ (2 ^ 32)) jump_seed = ev (poly_of 0xe055d3520fdb9d7214fafc0fbdbc2087d8d0632bd08e6ac58120d583c112f69) jump_seed"
    using cs [OF squarings_0_32 first_power] by simp
  have p64: "(Xoshiro_next ^^ (2 ^ 64)) jump_seed = ev (poly_of 0x12e4a2fbfc19bff934faff184785c20ab60d6c5b8c78f106b13c16e8096f0754) jump_seed"
    using cs [OF squarings_32_64 p32] by simp
  have p96: "(Xoshiro_next ^^ (2 ^ 96)) jump_seed = ev (poly_of 0x31eebb6c82a9615fb27c05962ea56a13cdb45d7def42c317148c356c3114b7a9) jump_seed"
    using cs [OF squarings_64_96 p64] by simp
  show p128: "(Xoshiro_next ^^ (2 ^ 128)) jump_seed = ev (jump_poly [0x180ec6d33cfd0aba, 0xd5a61266f0c9392c, 0xa9582618e03fc9aa, 0x39abdc4529b1661c]) jump_seed"
    using cs [OF squarings_96_128 p96] by simp
  have p160: "(Xoshiro_next ^^ (2 ^ 160)) jump_seed = ev (poly_of 0xf567382197055bf04823b45b89dc689c69e6e6e431a2d40bc04b4f9c5d26c200) jump_seed"
    using cs [OF squarings_128_160 p128] by simp
  show "(Xoshiro_next ^^ (2 ^ 192)) jump_seed = ev (jump_poly [0x76e15d3efefdcbbf, 0xc5004e441c522fb3, 0x77710069854ee241, 0x39109bb02acbe635]) jump_seed"
    using cs [OF squarings_160_192 p160] by simp
qed

lemma Uint64_once_per_bit:
  "snd (fold jump_word [j0, j1, j2, j3] ((0, 0, 0, 0), x)) = (Xoshiro_next ^^ 256) x"
  using fold_jump_word [of "[j0, j1, j2, j3]" "(0, 0, 0, 0)" x] by simp

text \<open>
  C7. For every state \<open>x\<close>, \<open>Jump\<close> gives the state reached by \<open>2 ^ 128\<close> transitions of
  \<open>Uint64\<close> and \<open>LongJump\<close> the one reached by \<open>2 ^ 192\<close>; and whatever the four words
  of the constant are, the loops call \<open>Uint64\<close> once for each of the 256 bit positions: the
  generator they leave behind, before the final assignment, is 256 transitions ahead.
\<close>

theorem Xoshiro_Jump_equivalence:
  "Xoshiro_Jump x = (Xoshiro_next ^^ (2 ^ 128)) x
   \<and> Xoshiro_LongJump x = (Xoshiro_next ^^ (2 ^ 192)) x
   \<and> snd (fold jump_word [j0, j1, j2, j3] ((0, 0, 0, 0), x)) = (Xoshiro_next ^^ 256) x"
proof (intro conjI)
  show "Xoshiro_Jump x = (Xoshiro_next ^^ (2 ^ 128)) x"
    unfolding Xoshiro_Jump_def jump_loops_ev
    by (rule jump_from_seed [OF in_span_0 seed_jump(1), symmetric])
  show "Xoshiro_LongJump x = (Xoshiro_next ^^ (2 ^ 192)) x"
    unfolding Xoshiro_LongJump_def jump_loops_ev
    by (rule jump_from_seed [OF in_span_0 seed_jump(2), symmetric])
  show "snd (fold jump_word [j0, j1, j2, j3] ((0, 0, 0, 0), x)) = (Xoshiro_next ^^ 256) x"
    by (rule Uint64_once_per_bit)
qed

end
